theory Spec2Isabelle
  imports Main "HOL-Library.Monad_Syntax" "HOL-Library.Signed_Division"
begin

section \<open>The host graph, as the pass reads it\<close>

text \<open>
  The pass works on a graph of instructions owned by the host (HloComputation and
  HloInstruction). An instruction is referenced by handle; here a handle is the index of
  the instruction in the computation's instruction list, and adding an instruction
  appends to the list.

  The C++ int64 values are integers here. Where the pass does arithmetic on the window
  attributes of a convolution, which a graph may set to any int64 value, the result is
  wrapped to 64 bits by \<open>int64\<close> (signed overflow is undefined in C++; the compiled
  code wraps); the other quantities are tensor extents and axis indices.

  A result of type \<open>'a option\<close> is \<open>None\<close> where the C++ does not return a value: a
  failed CHECK, an out-of-range read of a repeated field or of a vector, a division by
  zero, or a failed Status of a graph-construction call (the pass treats each of them as
  fatal).
\<close>

type_synonym hid = nat

datatype HloOpcode =
    kParameter | kConstant | kIota | kRng | kCopy | kFusion
  | kConvolution | kReduce | kReduceWindow | kSelectAndScatter
  | kBroadcast | kPad | kTranspose | kReshape | kSlice | kConcatenate
  | kSelect | kCompare | kAdd | kAnd | kMultiply | kNegate | kTuple

datatype PrimitiveType = PRED | S32 | F16 | F32

datatype Literal = ZeroLiteral PrimitiveType | R1Literal "bool list"

record ConvDetails =
  spatial_dimension_to_split :: int
  inherent_low_padding :: int
  inherent_high_padding :: int
  stride :: int
  spatial_size :: int
  base_dilation_factor :: int
  halo_size :: int
  high_padding_for_conv :: int
  low_padding_for_conv :: int
  kernel_spatial_dim_size :: int
  input_dim_size :: int

record WindowDimension =
  size_w :: int
  stride :: int
  padding_low :: int
  padding_high :: int
  window_dilation :: int
  base_dilation :: int
  window_reversal :: bool

record ConvolutionDimensionNumbers =
  input_batch_dimension :: int
  input_feature_dimension :: int
  input_spatial_dimensions :: "int list"
  kernel_input_feature_dimension :: int
  kernel_output_feature_dimension :: int
  kernel_spatial_dimensions :: "int list"
  output_batch_dimension :: int
  output_feature_dimension :: int
  output_spatial_dimensions :: "int list"

record Shape =
  element_type :: PrimitiveType
  dimensions :: "int list"

text \<open>
  An instruction carries the attributes the pass reads or sets. \<open>instr_dimensions\<close> is
  the host's \<open>dimensions()\<close> of an instruction (the broadcast axes, the reduced axes,
  the transpose permutation, the concatenation axis); \<open>padding_config\<close> holds the pair
  (edge_padding_low, edge_padding_high) of each axis, the pass never sets interior
  padding; \<open>scatter_is_add\<close> is the result of the host's pattern match of the scatter
  computation's root against an addition of its two parameters; \<open>called_computations\<close>
  names the computations (select, scatter, to_apply) an instruction applies.
\<close>

record HloInstruction =
  opcode :: HloOpcode
  operands :: "hid list"
  shape :: Shape
  window :: "WindowDimension list"
  convolution_dimension_numbers :: ConvolutionDimensionNumbers
  batch_group_count :: int
  feature_group_count :: int
  instr_dimensions :: "int list"
  slice_starts :: "int list"
  slice_limits :: "int list"
  slice_strides :: "int list"
  padding_config :: "(int \<times> int) list"
  literal :: "Literal option"
  scatter_is_add :: bool
  called_computations :: "nat list"

type_synonym graph = "HloInstruction list"

definition at_index :: "'a list \<Rightarrow> int \<Rightarrow> 'a option" where
  \<comment> \<open>\<open>xs.dimensions(i)\<close>, \<open>xs[i]\<close>: a read outside the range does not return.\<close>
  "at_index xs i = (if 0 \<le> i \<and> i < int (length xs) then Some (xs ! nat i) else None)"

definition set_index :: "'a list \<Rightarrow> int \<Rightarrow> 'a \<Rightarrow> 'a list option" where
  \<comment> \<open>\<open>xs[i] = v\<close> on a vector, \<open>mutable_dimensions(i)->set...\<close> on a repeated field.\<close>
  "set_index xs i v =
     (if 0 \<le> i \<and> i < int (length xs) then Some (xs[nat i := v]) else None)"

definition instruction :: "graph \<Rightarrow> hid \<Rightarrow> HloInstruction option" where
  "instruction g h = (if h < length g then Some (g ! h) else None)"

definition operand :: "graph \<Rightarrow> HloInstruction \<Rightarrow> int \<Rightarrow> HloInstruction option" where
  \<comment> \<open>\<open>instr->operand(i)\<close>, \<open>instr->mutable_operand(i)\<close>, dereferenced\<close>
  "operand g instr i = do { h \<leftarrow> at_index (operands instr) i; instruction g h }"

definition dims_of :: "graph \<Rightarrow> hid \<Rightarrow> int list option" where
  \<comment> \<open>\<open>instr->shape().dimensions()\<close>\<close>
  "dims_of g h = do { i \<leftarrow> instruction g h; Some (dimensions (shape i)) }"

definition users :: "graph \<Rightarrow> hid \<Rightarrow> hid list" where
  \<comment> \<open>\<open>instr->users()\<close>: the instructions that have \<open>instr\<close> among their operands, each
      once.\<close>
  "users g h = filter (\<lambda>u. h \<in> set (operands (g ! u))) [0 ..< length g]"

definition int64 :: "int \<Rightarrow> int" where
  \<comment> \<open>The value of an int64 expression whose exact result is \<open>x\<close>: \<open>x\<close> wrapped to
      64 bits in two's complement.\<close>
  "int64 x = (x + 2 ^ 63) mod 2 ^ 64 - 2 ^ 63"

definition fits_int64 :: "int \<Rightarrow> bool" where
  "fits_int64 x \<longleftrightarrow> - (2 ^ 63) \<le> x \<and> x < 2 ^ 63"

definition CeilOfRatio :: "int \<Rightarrow> int \<Rightarrow> int" where
  \<comment> \<open>Modelled from the spec: \<open>CeilOfRatio\<close> is declared in the host's util.h, which is
      not part of the sources at hand; the spec reads it as
      \<open>ceil(spatial_size / num_splits)\<close>, the least integer not below the quotient.\<close>
  "CeilOfRatio numerator denominator = - ((- numerator) div denominator)"

definition kNewBatchSize :: int where
  "kNewBatchSize = 8"

subsection \<open>Creating instructions\<close>

text \<open>
  Modelled from the spec: the instruction constructors and the shape inference behind
  them (hlo_creation_utils, shape_inference, HloInstruction::Create...) belong to the
  host and are not part of the sources at hand. Section 6 of the specification lists
  them as the mutation primitives: create an instruction of a given kind (constant,
  transpose, reshape, pad, slice, concat, broadcast, compare, select, binary op,
  convolution, reduce-window, select-and-scatter), with shape inference for each newly
  constructed op, a failure of which is fatal. Each function below adds one instruction
  to the graph and returns its handle; it returns \<open>None\<close> where no shape can be
  inferred.
\<close>

definition no_dnums :: ConvolutionDimensionNumbers where
  "no_dnums =
     \<lparr> input_batch_dimension = 0, input_feature_dimension = 0,
       input_spatial_dimensions = [],
       kernel_input_feature_dimension = 0, kernel_output_feature_dimension = 0,
       kernel_spatial_dimensions = [],
       output_batch_dimension = 0, output_feature_dimension = 0,
       output_spatial_dimensions = [] \<rparr>"

definition CreateInstruction :: "HloOpcode \<Rightarrow> hid list \<Rightarrow> Shape \<Rightarrow> HloInstruction" where
  "CreateInstruction opc ops shp =
     \<lparr> opcode = opc, operands = ops, shape = shp, window = [],
       convolution_dimension_numbers = no_dnums,
       batch_group_count = 1, feature_group_count = 1, instr_dimensions = [],
       slice_starts = [], slice_limits = [], slice_strides = [], padding_config = [],
       literal = None, scatter_is_add = False, called_computations = [] \<rparr>"

definition AddInstruction :: "graph \<Rightarrow> HloInstruction \<Rightarrow> hid \<times> graph" where
  "AddInstruction g instr = (length g, g @ [instr])"

definition valid_dims :: "int list \<Rightarrow> bool" where
  "valid_dims ds = list_all (\<lambda>d. 0 \<le> d) ds"

definition CreateConstant :: "graph \<Rightarrow> Literal \<Rightarrow> hid \<times> graph" where
  "CreateConstant g lit =
     AddInstruction g
       ((CreateInstruction kConstant []
          (case lit of
             ZeroLiteral t \<Rightarrow> \<lparr> element_type = t, dimensions = [] \<rparr>
           | R1Literal bits \<Rightarrow> \<lparr> element_type = PRED, dimensions = [int (length bits)] \<rparr>))
        \<lparr> literal := Some lit \<rparr>)"

definition MakeReshapeHlo :: "graph \<Rightarrow> int list \<Rightarrow> hid \<Rightarrow> (hid \<times> graph) option" where
  "MakeReshapeHlo g result_shape_dim_bounds operand_id = do {
     op \<leftarrow> instruction g operand_id;
     if valid_dims result_shape_dim_bounds \<and>
        prod_list result_shape_dim_bounds = prod_list (dimensions (shape op))
     then Some (AddInstruction g
            (CreateInstruction kReshape [operand_id]
               \<lparr> element_type = element_type (shape op),
                 dimensions = result_shape_dim_bounds \<rparr>))
     else None
   }"

definition MakeBroadcastHlo ::
  "graph \<Rightarrow> hid \<Rightarrow> int list \<Rightarrow> int list \<Rightarrow> (hid \<times> graph) option" where
  "MakeBroadcastHlo g operand_id broadcast_dimensions result_shape_bounds = do {
     op \<leftarrow> instruction g operand_id;
     Some (AddInstruction g
        ((CreateInstruction kBroadcast [operand_id]
            \<lparr> element_type = element_type (shape op), dimensions = result_shape_bounds \<rparr>)
         \<lparr> instr_dimensions := broadcast_dimensions \<rparr>))
   }"

definition InferSliceShape :: "int list \<Rightarrow> int list \<Rightarrow> int list \<Rightarrow> int list \<Rightarrow> int list option" where
  "InferSliceShape ds starts limits strides =
     (if length starts = length ds \<and> length limits = length ds \<and> length strides = length ds \<and>
         list_all (\<lambda>(d, st, li, sr). 0 \<le> st \<and> st \<le> li \<and> li \<le> d \<and> 0 < sr)
           (zip ds (zip starts (zip limits strides)))
      then Some (map (\<lambda>(st, li, sr). (li - st + sr - 1) div sr) (zip starts (zip limits strides)))
      else None)"

definition MakeSliceHlo ::
  "graph \<Rightarrow> hid \<Rightarrow> int list \<Rightarrow> int list \<Rightarrow> int list \<Rightarrow> (hid \<times> graph) option" where
  "MakeSliceHlo g operand_id start_indices limit_indices strides = do {
     op \<leftarrow> instruction g operand_id;
     ds \<leftarrow> InferSliceShape (dimensions (shape op)) start_indices limit_indices strides;
     Some (AddInstruction g
        ((CreateInstruction kSlice [operand_id]
            \<lparr> element_type = element_type (shape op), dimensions = ds \<rparr>)
         \<lparr> slice_starts := start_indices, slice_limits := limit_indices,
           slice_strides := strides \<rparr>))
   }"

definition MakeNoPaddingConfig :: "int \<Rightarrow> (int \<times> int) list" where
  "MakeNoPaddingConfig rank = replicate (nat rank) (0, 0)"

definition InferPadShape :: "int list \<Rightarrow> (int \<times> int) list \<Rightarrow> int list option" where
  "InferPadShape ds config =
     (if length config = length ds \<and>
         list_all (\<lambda>(d, lo, hi). 0 \<le> d + lo + hi) (zip ds config)
      then Some (map (\<lambda>(d, lo, hi). d + lo + hi) (zip ds config))
      else None)"

definition MakePadHlo ::
  "graph \<Rightarrow> hid \<Rightarrow> hid \<Rightarrow> (int \<times> int) list \<Rightarrow> (hid \<times> graph) option" where
  "MakePadHlo g operand_id padding_value config = do {
     op \<leftarrow> instruction g operand_id;
     pv \<leftarrow> instruction g padding_value;
     ds \<leftarrow> InferPadShape (dimensions (shape op)) config;
     if dimensions (shape pv) = [] \<and> element_type (shape pv) = element_type (shape op)
     then Some (AddInstruction g
        ((CreateInstruction kPad [operand_id, padding_value]
            \<lparr> element_type = element_type (shape op), dimensions = ds \<rparr>)
         \<lparr> padding_config := config \<rparr>))
     else None
   }"

definition InferConcatShape :: "Shape list \<Rightarrow> int \<Rightarrow> Shape option" where
  "InferConcatShape shapes dimension =
     (case shapes of
        [] \<Rightarrow> None
      | s # rest \<Rightarrow>
          if 0 \<le> dimension \<and> dimension < int (length (dimensions s)) \<and>
             list_all (\<lambda>t. element_type t = element_type s \<and>
                           length (dimensions t) = length (dimensions s) \<and>
                           (dimensions t)[nat dimension := 0] = (dimensions s)[nat dimension := 0])
               rest
          then Some (s \<lparr> dimensions :=
                 (dimensions s)[nat dimension :=
                    sum_list (map (\<lambda>t. dimensions t ! nat dimension) shapes)] \<rparr>)
          else None)"

fun instructions :: "graph \<Rightarrow> hid list \<Rightarrow> HloInstruction list option" where
  "instructions g [] = Some []"
| "instructions g (h # hs) =
     do { i \<leftarrow> instruction g h; rest \<leftarrow> instructions g hs; Some (i # rest) }"

definition MakeConcatHlo :: "graph \<Rightarrow> hid list \<Rightarrow> int \<Rightarrow> (hid \<times> graph) option" where
  "MakeConcatHlo g operand_ids dimension = do {
     ops \<leftarrow> instructions g operand_ids;
     shp \<leftarrow> InferConcatShape (map shape ops) dimension;
     Some (AddInstruction g
        ((CreateInstruction kConcatenate operand_ids shp)
         \<lparr> instr_dimensions := [dimension] \<rparr>))
   }"

definition is_permutation :: "int list \<Rightarrow> nat \<Rightarrow> bool" where
  "is_permutation perm n =
     (length perm = n \<and> distinct perm \<and> list_all (\<lambda>p. 0 \<le> p \<and> p < int n) perm)"

definition MakeTransposeHlo :: "graph \<Rightarrow> hid \<Rightarrow> int list \<Rightarrow> (hid \<times> graph) option" where
  "MakeTransposeHlo g operand_id dims = do {
     op \<leftarrow> instruction g operand_id;
     if is_permutation dims (length (dimensions (shape op)))
     then Some (AddInstruction g
        ((CreateInstruction kTranspose [operand_id]
            \<lparr> element_type = element_type (shape op),
              dimensions = map (\<lambda>p. dimensions (shape op) ! nat p) dims \<rparr>)
         \<lparr> instr_dimensions := dims \<rparr>))
     else None
   }"

definition MakeSelectHlo :: "graph \<Rightarrow> hid \<Rightarrow> hid \<Rightarrow> hid \<Rightarrow> (hid \<times> graph) option" where
  "MakeSelectHlo g pred on_true on_false = do {
     p \<leftarrow> instruction g pred;
     t \<leftarrow> instruction g on_true;
     f \<leftarrow> instruction g on_false;
     if element_type (shape p) = PRED \<and>
        dimensions (shape p) = dimensions (shape t) \<and> shape f = shape t
     then Some (AddInstruction g (CreateInstruction kSelect [pred, on_true, on_false] (shape t)))
     else None
   }"

definition MakeCompareHlo :: "graph \<Rightarrow> hid \<Rightarrow> hid \<Rightarrow> (hid \<times> graph) option" where
  \<comment> \<open>The pass only compares with direction kNe.\<close>
  "MakeCompareHlo g lhs rhs = do {
     l \<leftarrow> instruction g lhs;
     r \<leftarrow> instruction g rhs;
     if shape l = shape r
     then Some (AddInstruction g
        (CreateInstruction kCompare [lhs, rhs]
           \<lparr> element_type = PRED, dimensions = dimensions (shape l) \<rparr>))
     else None
   }"

definition MakeBinaryHlo :: "graph \<Rightarrow> HloOpcode \<Rightarrow> hid \<Rightarrow> hid \<Rightarrow> (hid \<times> graph) option" where
  "MakeBinaryHlo g opc lhs rhs = do {
     l \<leftarrow> instruction g lhs;
     r \<leftarrow> instruction g rhs;
     if shape l = shape r
     then Some (AddInstruction g (CreateInstruction opc [lhs, rhs] (shape l)))
     else None
   }"

subsection \<open>Windows, convolutions and graph edits\<close>

text \<open>
  Modelled from the spec: shape inference for the windowed operations and for the
  convolution, cloning, and the two edit primitives of section 6 (replace one operand,
  possibly changing shape; replace an entire instruction, rewiring all users) belong to
  the host as well. The output extent of a window over an axis follows the host's
  documented rule: the base extent is dilated, padded on both sides, and the dilated
  window is moved over it by the stride. The host's bookkeeping beyond the rewiring (it
  also removes a replaced instruction from the computation once nothing uses it) is left
  out: a replaced instruction stays in the list without users.
\<close>

definition DilatedBound :: "int \<Rightarrow> int \<Rightarrow> int" where
  "DilatedBound bound dilation = (if bound = 0 then 0 else (bound - 1) * dilation + 1)"

definition StridedBound :: "int \<Rightarrow> int \<Rightarrow> int \<Rightarrow> int" where
  "StridedBound bound window_size stride' =
     (if bound = 0 \<or> window_size > bound then 0 else (bound - window_size) div stride' + 1)"

definition InferWindowOutputDim :: "int \<Rightarrow> WindowDimension \<Rightarrow> int option" where
  "InferWindowOutputDim base w =
     (if size_w w \<le> 0 \<or> stride w \<le> 0 \<or> base_dilation w < 1 \<or> window_dilation w < 1
      then None
      else Some (StridedBound
                   (padding_low w + DilatedBound base (base_dilation w) + padding_high w)
                   (DilatedBound (size_w w) (window_dilation w))
                   (stride w)))"

fun InferWindowOutputShape :: "int list \<Rightarrow> WindowDimension list \<Rightarrow> int list option" where
  "InferWindowOutputShape [] [] = Some []"
| "InferWindowOutputShape (d # ds) (w # ws) = do {
     e \<leftarrow> InferWindowOutputDim d w;
     es \<leftarrow> InferWindowOutputShape ds ws;
     Some (e # es)
   }"
| "InferWindowOutputShape _ _ = None"

definition CreateReduceWindow ::
  "graph \<Rightarrow> hid \<Rightarrow> hid \<Rightarrow> WindowDimension list \<Rightarrow> nat list \<Rightarrow> (hid \<times> graph) option" where
  \<comment> \<open>InferReduceWindowShape, then HloInstruction::CreateReduceWindow\<close>
  "CreateReduceWindow g operand_id init_value new_win to_apply = do {
     op \<leftarrow> instruction g operand_id;
     iv \<leftarrow> instruction g init_value;
     ds \<leftarrow> InferWindowOutputShape (dimensions (shape op)) new_win;
     Some (AddInstruction g
        ((CreateInstruction kReduceWindow [operand_id, init_value]
            \<lparr> element_type = element_type (shape iv), dimensions = ds \<rparr>)
         \<lparr> window := new_win, called_computations := to_apply \<rparr>))
   }"

definition CreateSelectAndScatter ::
  "graph \<Rightarrow> hid \<Rightarrow> WindowDimension list \<Rightarrow> hid \<Rightarrow> hid \<Rightarrow> HloInstruction \<Rightarrow>
     (hid \<times> graph) option" where
  \<comment> \<open>InferSelectAndScatterShape, then HloInstruction::CreateSelectAndScatter; the select
      and scatter computations are the consumer's.\<close>
  "CreateSelectAndScatter g operand_id new_win source init_value consumer = do {
     op \<leftarrow> instruction g operand_id;
     src \<leftarrow> instruction g source;
     iv \<leftarrow> instruction g init_value;
     ds \<leftarrow> InferWindowOutputShape (dimensions (shape op)) new_win;
     if dimensions (shape src) = ds
     then Some (AddInstruction g
        ((CreateInstruction kSelectAndScatter [operand_id, source, init_value] (shape op))
         \<lparr> window := new_win, called_computations := called_computations consumer,
           scatter_is_add := scatter_is_add consumer \<rparr>))
     else None
   }"

fun place_dims :: "int list \<Rightarrow> (int \<times> int) list \<Rightarrow> int list" where
  \<comment> \<open>The extents of a shape given as (axis, extent) pairs.\<close>
  "place_dims ds [] = ds"
| "place_dims ds ((axis, extent) # rest) = place_dims (ds[nat axis := extent]) rest"

definition InferConvolveShape ::
  "Shape \<Rightarrow> Shape \<Rightarrow> int \<Rightarrow> int \<Rightarrow> WindowDimension list \<Rightarrow> ConvolutionDimensionNumbers \<Rightarrow>
     PrimitiveType \<Rightarrow> Shape option" where
  "InferConvolveShape lhs rhs fgc bgc win dn preferred_element_type =
     (let n = length win; rank = n + 2 in
      if length (dimensions lhs) \<noteq> rank \<or> length (dimensions rhs) \<noteq> rank \<or>
         fgc \<le> 0 \<or> bgc \<le> 0 \<or>
         \<not> is_permutation
              (input_batch_dimension dn # input_feature_dimension dn #
               input_spatial_dimensions dn) rank \<or>
         \<not> is_permutation
              (kernel_input_feature_dimension dn # kernel_output_feature_dimension dn #
               kernel_spatial_dimensions dn) rank \<or>
         \<not> is_permutation
              (output_batch_dimension dn # output_feature_dimension dn #
               output_spatial_dimensions dn) rank
      then None
      else
        let input_batch = dimensions lhs ! nat (input_batch_dimension dn);
            input_features = dimensions lhs ! nat (input_feature_dimension dn);
            kernel_input_features = dimensions rhs ! nat (kernel_input_feature_dimension dn);
            kernel_output_features = dimensions rhs ! nat (kernel_output_feature_dimension dn);
            input_spatial = map (\<lambda>a. dimensions lhs ! nat a) (input_spatial_dimensions dn);
            kernel_spatial = map (\<lambda>a. dimensions rhs ! nat a) (kernel_spatial_dimensions dn)
        in
        if input_features \<noteq> fgc * kernel_input_features \<or>
           kernel_output_features mod fgc \<noteq> 0 \<or>
           input_batch mod bgc \<noteq> 0 \<or> kernel_output_features mod bgc \<noteq> 0 \<or>
           kernel_spatial \<noteq> map size_w win
        then None
        else do {
          output_spatial \<leftarrow> InferWindowOutputShape input_spatial win;
          Some \<lparr> element_type = preferred_element_type,
                 dimensions =
                   place_dims (replicate rank 0)
                     ((output_batch_dimension dn, input_batch div bgc) #
                      (output_feature_dimension dn, kernel_output_features) #
                      zip (output_spatial_dimensions dn) output_spatial) \<rparr>
        })"

definition MakeConvolveHlo ::
  "graph \<Rightarrow> hid \<Rightarrow> hid \<Rightarrow> int \<Rightarrow> int \<Rightarrow> WindowDimension list \<Rightarrow> ConvolutionDimensionNumbers \<Rightarrow>
     PrimitiveType \<Rightarrow> (hid \<times> graph) option" where
  "MakeConvolveHlo g lhs rhs fgc bgc win dn preferred_element_type = do {
     l \<leftarrow> instruction g lhs;
     r \<leftarrow> instruction g rhs;
     shp \<leftarrow> InferConvolveShape (shape l) (shape r) fgc bgc win dn preferred_element_type;
     Some (AddInstruction g
        ((CreateInstruction kConvolution [lhs, rhs] shp)
         \<lparr> window := win, convolution_dimension_numbers := dn,
           feature_group_count := fgc, batch_group_count := bgc \<rparr>))
   }"

definition Clone :: "graph \<Rightarrow> hid \<Rightarrow> (hid \<times> graph) option" where
  \<comment> \<open>\<open>computation->AddInstruction(instr->Clone())\<close>\<close>
  "Clone g h = do { i \<leftarrow> instruction g h; Some (AddInstruction g i) }"

definition update_instruction ::
  "graph \<Rightarrow> hid \<Rightarrow> (HloInstruction \<Rightarrow> HloInstruction) \<Rightarrow> graph option" where
  "update_instruction g h f = do { i \<leftarrow> instruction g h; Some (g[h := f i]) }"

definition ReplaceOperandWithDifferentShape :: "graph \<Rightarrow> hid \<Rightarrow> int \<Rightarrow> hid \<Rightarrow> graph option" where
  "ReplaceOperandWithDifferentShape g h operand_num new_operand = do {
     i \<leftarrow> instruction g h;
     _ \<leftarrow> instruction g new_operand;
     ops \<leftarrow> set_index (operands i) operand_num new_operand;
     Some (g[h := i \<lparr> operands := ops \<rparr>])
   }"

definition ReplaceOperandWith :: "graph \<Rightarrow> hid \<Rightarrow> int \<Rightarrow> hid \<Rightarrow> graph option" where
  "ReplaceOperandWith g h operand_num new_operand =
     ReplaceOperandWithDifferentShape g h operand_num new_operand"

definition ReplaceAllUsesWith :: "graph \<Rightarrow> hid \<Rightarrow> hid \<Rightarrow> graph" where
  "ReplaceAllUsesWith g old_instruction new_instruction =
     map (\<lambda>i. i \<lparr> operands :=
                    map (\<lambda>k. if k = old_instruction then new_instruction else k)
                      (operands i) \<rparr>) g"

section \<open>ConvDetails\<close>

definition get_chosen_spatial_dim :: "HloInstruction \<Rightarrow> int" where
  "get_chosen_spatial_dim convolution =
     int (length (input_spatial_dimensions (convolution_dimension_numbers convolution))) - 1"

definition GetConvolutionDetails ::
  "graph \<Rightarrow> HloInstruction \<Rightarrow> ConvolutionDimensionNumbers \<Rightarrow> ConvDetails option" where
  "GetConvolutionDetails g convolution dim_numbers = do {
     activations \<leftarrow> operand g convolution 0;
     kernel \<leftarrow> operand g convolution 1;
     kernel_spatial_dim \<leftarrow>
       at_index (kernel_spatial_dimensions dim_numbers) (get_chosen_spatial_dim convolution);
     kernel_spatial_dim_size' \<leftarrow> at_index (dimensions (shape kernel)) kernel_spatial_dim;
     spatial_dimension_to_split' \<leftarrow>
       at_index (input_spatial_dimensions dim_numbers) (get_chosen_spatial_dim convolution);
     input_dim_size' \<leftarrow> at_index (dimensions (shape activations)) spatial_dimension_to_split';
     wd \<leftarrow> at_index (window convolution) (get_chosen_spatial_dim convolution);
     let inherent_low_padding' = padding_low wd;
     let inherent_high_padding' = padding_high wd;
     let stride' = WindowDimension.stride wd;
     let base_dilation_factor' = base_dilation wd;
     let spatial_size' =
       int64 (int64 (input_dim_size'
                       + (if base_dilation_factor' > 1 then 0 else inherent_low_padding'))
                + inherent_high_padding');
     let halo_size' =
       max (int64 (int64 (kernel_spatial_dim_size' - stride')
                     - int64 (base_dilation_factor' - 1))) 0;
     let high_padding_for_conv' =
       (if base_dilation_factor' = 1 then 0
        else if inherent_low_padding' = 0 then int64 (base_dilation_factor' - 1) else 0);
     let low_padding_for_conv' =
       (if base_dilation_factor' = 1 then 0 else inherent_low_padding');
     Some \<lparr> spatial_dimension_to_split = spatial_dimension_to_split',
            inherent_low_padding = inherent_low_padding',
            inherent_high_padding = inherent_high_padding',
            stride = stride',
            spatial_size = spatial_size',
            base_dilation_factor = base_dilation_factor',
            halo_size = halo_size',
            high_padding_for_conv = high_padding_for_conv',
            low_padding_for_conv = low_padding_for_conv',
            kernel_spatial_dim_size = kernel_spatial_dim_size',
            input_dim_size = input_dim_size' \<rparr>
   }"

section \<open>LegalityChecker\<close>

definition base_dilation_unsupported :: "ConvDetails \<Rightarrow> int \<Rightarrow> bool" where
  \<comment> \<open>The block guarded by \<open>c.base_dilation_factor != 1\<close>; True where it returns false.\<close>
  "base_dilation_unsupported c low_pad =
     (if base_dilation_factor c \<noteq> 1 then
        (if ConvDetails.stride c \<noteq> 1 then True
         else if low_pad = 0 then
           (if kernel_spatial_dim_size c \<noteq> 1 then True else False)
         else if kernel_spatial_dim_size c \<noteq> int64 (base_dilation_factor c + 1) \<or>
                 low_pad \<noteq> int64 (base_dilation_factor c - 1) then True
         else False)
      else False)"

definition IsConvSuitableForSpaceToBatch ::
  "graph \<Rightarrow> int \<Rightarrow> HloInstruction \<Rightarrow> bool option" where
  "IsConvSuitableForSpaceToBatch g limit_on_batch_size convolution =
    (let dim_numbers = convolution_dimension_numbers convolution in
     if int (length (input_spatial_dimensions dim_numbers)) < 1 then Some False
     else if batch_group_count convolution \<noteq> 1 then Some False
     else do {
       wd \<leftarrow> at_index (window convolution) (get_chosen_spatial_dim convolution);
       if window_dilation wd \<noteq> 1 then Some False
       else do {
         c \<leftarrow> GetConvolutionDetails g convolution dim_numbers;
         let low_pad = padding_low wd;
         if base_dilation_unsupported c low_pad then Some False
         else do {
           let activations_batch_dim = input_batch_dimension dim_numbers;
           activations \<leftarrow> operand g convolution 0;
           old_batch_size \<leftarrow> at_index (dimensions (shape activations)) activations_batch_dim;
           if old_batch_size > limit_on_batch_size then Some False
           else if old_batch_size = 0 then None
           else if kNewBatchSize smod old_batch_size \<noteq> 0 then Some False
           else
             let num_splits = kNewBatchSize sdiv old_batch_size in
             if halo_size c > CeilOfRatio (spatial_size c) num_splits then Some False
             else Some True
         }
       }
     })"

text \<open>
  The attributes of the chosen spatial axis that GetConvolutionDetails reads: the axis of
  the activations, the extent of the kernel, the extent of the activations and the window
  dimension. Its arithmetic stays within int64 when none of its sums and differences
  overflows.
\<close>

definition conv_attributes ::
  "graph \<Rightarrow> HloInstruction \<Rightarrow> ConvolutionDimensionNumbers \<Rightarrow>
     (int \<times> int \<times> int \<times> WindowDimension) option" where
  "conv_attributes g convolution dim_numbers = do {
     activations \<leftarrow> operand g convolution 0;
     kernel \<leftarrow> operand g convolution 1;
     kernel_spatial_dim \<leftarrow>
       at_index (kernel_spatial_dimensions dim_numbers) (get_chosen_spatial_dim convolution);
     kernel_size \<leftarrow> at_index (dimensions (shape kernel)) kernel_spatial_dim;
     spatial_dim \<leftarrow>
       at_index (input_spatial_dimensions dim_numbers) (get_chosen_spatial_dim convolution);
     input_size \<leftarrow> at_index (dimensions (shape activations)) spatial_dim;
     wd \<leftarrow> at_index (window convolution) (get_chosen_spatial_dim convolution);
     Some (spatial_dim, kernel_size, input_size, wd)
   }"

definition details_in_range :: "int \<Rightarrow> int \<Rightarrow> WindowDimension \<Rightarrow> bool" where
  "details_in_range kernel_size input_size wd \<longleftrightarrow>
     fits_int64 (input_size + (if base_dilation wd > 1 then 0 else padding_low wd)) \<and>
     fits_int64 (input_size + (if base_dilation wd > 1 then 0 else padding_low wd)
                   + padding_high wd) \<and>
     fits_int64 (kernel_size - stride wd) \<and>
     fits_int64 (base_dilation wd - 1) \<and>
     fits_int64 (kernel_size - stride wd - (base_dilation wd - 1))"

definition arithmetic_in_range :: "graph \<Rightarrow> HloInstruction \<Rightarrow> bool" where
  "arithmetic_in_range g convolution \<longleftrightarrow>
     (case conv_attributes g convolution (convolution_dimension_numbers convolution) of
        None \<Rightarrow> True
      | Some (spatial_dim, kernel_size, input_size, wd) \<Rightarrow>
          details_in_range kernel_size input_size wd)"

text \<open>
  What a graph guarantees of a convolution: the extents of its two operands are int64
  values and not negative, and every base dilation of its window is an int64 value of at
  least 1 (the host rejects a window with a smaller one).
\<close>

definition valid_extents :: "int list \<Rightarrow> bool" where
  "valid_extents ds = list_all (\<lambda>d. 0 \<le> d \<and> fits_int64 d) ds"

definition well_formed_convolution :: "graph \<Rightarrow> HloInstruction \<Rightarrow> bool" where
  "well_formed_convolution g convolution \<longleftrightarrow>
     (case operand g convolution 0 of
        None \<Rightarrow> True
      | Some lhs \<Rightarrow> valid_extents (dimensions (shape lhs))) \<and>
     (case operand g convolution 1 of
        None \<Rightarrow> True
      | Some rhs \<Rightarrow> valid_extents (dimensions (shape rhs))) \<and>
     list_all (\<lambda>wd. 1 \<le> base_dilation wd \<and> fits_int64 (base_dilation wd))
       (window convolution)"

section \<open>SelectValidPortion\<close>

definition mask_bit :: "int \<Rightarrow> int \<Rightarrow> int \<Rightarrow> int \<Rightarrow> bool" where
  \<comment> \<open>The body of the loop over \<open>k\<close> that fills the bitmap: whether bit \<open>k\<close> is set.\<close>
  "mask_bit new_space_size num_splits old_space_size k =
     (let space_index = k smod new_space_size;
          batch_index = (k sdiv new_space_size) smod num_splits
      in batch_index * new_space_size + space_index < old_space_size)"

text \<open>
  The three instruction arguments are pointers to instructions of the computation; the
  fill value \<open>select_val\<close> is only read when it is broadcast, and the model reads it
  on entry as well, so that its handle names an instruction the caller had. The number of
  mask bits is the int64 product of the two extents; it is the size of the bitmap, so it
  cannot be negative, and the loop that fills the bitmap counts the bits in an \<open>int\<close>,
  which ends only for a number of bits up to \<open>2^31 - 1\<close>.
\<close>

definition SelectValidPortion ::
  "graph \<Rightarrow> hid \<Rightarrow> hid \<Rightarrow> hid \<Rightarrow> int \<Rightarrow> int \<Rightarrow> int \<Rightarrow> int \<Rightarrow> (hid \<times> graph) option" where
  "SelectValidPortion g new_instr old_instr select_val new_batch_dim new_space_dim
     old_batch_dim old_space_dim = do {
     _ \<leftarrow> instruction g select_val;
     new_shape \<leftarrow> dims_of g new_instr;
     old_shape \<leftarrow> dims_of g old_instr;
     new_batch_size \<leftarrow> at_index new_shape new_batch_dim;
     new_space_size \<leftarrow> at_index new_shape new_space_dim;
     old_batch_size \<leftarrow> at_index old_shape old_batch_dim;
     old_space_size \<leftarrow> at_index old_shape old_space_dim;
     if old_batch_size = 0 then None
     else if new_batch_size smod old_batch_size \<noteq> 0 then None
     else if int64 (new_batch_size * new_space_size) < 0 then None
     else if int64 (new_batch_size * new_space_size) > 2 ^ 31 - 1 then None
     else do {
       let num_splits = new_batch_size sdiv old_batch_size;
       let b = map (\<lambda>k. mask_bit new_space_size num_splits old_space_size (int k))
                 [0 ..< nat (int64 (new_batch_size * new_space_size))];
       let (slice_mask, g1) = CreateConstant g (R1Literal b);
       (slice_mask_reshaped, g2) \<leftarrow>
         MakeReshapeHlo g1 [new_batch_size, new_space_size] slice_mask;
       (shape_mask, g3) \<leftarrow>
         MakeBroadcastHlo g2 slice_mask_reshaped [new_batch_dim, new_space_dim] new_shape;
       (zeroes, g4) \<leftarrow> MakeBroadcastHlo g3 select_val [] new_shape;
       MakeSelectHlo g4 shape_mask new_instr zeroes
     }
   }"

section \<open>HaloManager\<close>

text \<open>
  HaloDuplicateWithSlice, in the order of the source: the padding value, the first slice
  (for a positive low padding), the halo region (for a halo size above the low padding),
  the cut of the activations (for no halo and a low padding other than zero), and the
  two concatenations along the space axis. The three slices are taken from the
  activations the function was given.
\<close>

definition Halo_first_slice ::
  "graph \<Rightarrow> hid \<Rightarrow> int list \<Rightarrow> int \<Rightarrow> int \<Rightarrow> int \<Rightarrow> int \<Rightarrow> int \<Rightarrow> hid \<Rightarrow>
     (hid option \<times> graph) option" where
  "Halo_first_slice g activations ds spatial_dimension_to_split' activations_batch_dim
     spatial_split_size batch_size low_padding padding =
     (if low_padding > 0 then do {
        let rank = length ds;
        let strides = replicate rank 1;
        let start_indices = replicate rank 0;
        let end_indices = ds;
        start_indices \<leftarrow>
          set_index start_indices spatial_dimension_to_split' (spatial_split_size - low_padding);
        end_indices \<leftarrow> set_index end_indices activations_batch_dim (batch_size - 1);
        end_indices \<leftarrow> set_index end_indices spatial_dimension_to_split' spatial_split_size;
        (first_slice, g1) \<leftarrow> MakeSliceHlo g activations start_indices end_indices strides;
        fs_dims \<leftarrow> dims_of g1 first_slice;
        let padding_config = MakeNoPaddingConfig (int (length fs_dims));
        padding_config \<leftarrow> set_index padding_config activations_batch_dim (1, 0);
        (first_slice, g2) \<leftarrow> MakePadHlo g1 first_slice padding padding_config;
        Some (Some first_slice, g2)
      }
      else Some (None, g))"

definition Halo_halo_region ::
  "graph \<Rightarrow> hid \<Rightarrow> int list \<Rightarrow> int \<Rightarrow> int \<Rightarrow> int \<Rightarrow> int \<Rightarrow> hid \<Rightarrow>
     (hid option \<times> graph) option" where
  "Halo_halo_region g activations ds spatial_dimension_to_split' activations_batch_dim
     low_padding halo_size' padding =
     (if halo_size' - low_padding > 0 then do {
        let rank = length ds;
        let strides = replicate rank 1;
        let start_indices_halo = replicate rank 0;
        let end_indices_halo = ds;
        start_indices_halo \<leftarrow> set_index start_indices_halo activations_batch_dim 1;
        end_indices_halo \<leftarrow>
          set_index end_indices_halo spatial_dimension_to_split' (halo_size' - low_padding);
        (halo_region, g1) \<leftarrow>
          MakeSliceHlo g activations start_indices_halo end_indices_halo strides;
        hr_dims \<leftarrow> dims_of g1 halo_region;
        let padding_config_halo = MakeNoPaddingConfig (int (length hr_dims));
        padding_config_halo \<leftarrow> set_index padding_config_halo activations_batch_dim (0, 1);
        (halo_region, g2) \<leftarrow> MakePadHlo g1 halo_region padding padding_config_halo;
        Some (Some halo_region, g2)
      }
      else Some (None, g))"

definition Halo_activations_cut ::
  "graph \<Rightarrow> hid \<Rightarrow> int list \<Rightarrow> int \<Rightarrow> int \<Rightarrow> int \<Rightarrow> int \<Rightarrow> (hid \<times> graph) option" where
  "Halo_activations_cut g activations ds spatial_dimension_to_split' spatial_split_size
     low_padding halo_size' =
     (if halo_size' = 0 \<and> low_padding \<noteq> 0 then do {
        let rank = length ds;
        let strides = replicate rank 1;
        let start_indices_activations_cut = replicate rank 0;
        let end_indices_activations_cut = ds;
        (start_indices_activations_cut, end_indices_activations_cut) \<leftarrow>
          (if low_padding > 0 then do {
             e \<leftarrow> set_index end_indices_activations_cut spatial_dimension_to_split'
                    (spatial_split_size - low_padding);
             Some (start_indices_activations_cut, e)
           }
           else do {
             b \<leftarrow> set_index start_indices_activations_cut spatial_dimension_to_split'
                    (0 - low_padding);
             e \<leftarrow> set_index end_indices_activations_cut spatial_dimension_to_split'
                    spatial_split_size;
             Some (b, e)
           });
        MakeSliceHlo g activations start_indices_activations_cut
          end_indices_activations_cut strides
      }
      else Some (activations, g))"

definition HaloDuplicateWithSlice ::
  "graph \<Rightarrow> hid \<Rightarrow> int \<Rightarrow> int \<Rightarrow> int \<Rightarrow> int \<Rightarrow> int \<Rightarrow> int \<Rightarrow> int \<Rightarrow> hid option \<Rightarrow>
     (hid \<times> graph) option" where
  "HaloDuplicateWithSlice g activations spatial_dimension_to_split' activations_batch_dim
     old_batch_size low_padding high_padding halo_size' original_split_dim_size pad_val = do {
     act \<leftarrow> instruction g activations;
     let ds = dimensions (shape act);
     spatial_split_size \<leftarrow> at_index ds spatial_dimension_to_split';
     batch_size \<leftarrow> at_index ds activations_batch_dim;
     if \<not> (\<bar>halo_size' - low_padding\<bar> \<le> spatial_split_size) then None
     else do {
       (padding, g0) \<leftarrow>
         (case pad_val of
            None \<Rightarrow> Some (CreateConstant g (ZeroLiteral (element_type (shape act))))
          | Some p \<Rightarrow> do { _ \<leftarrow> instruction g p; Some (p, g) });
       (first_slice, g1) \<leftarrow>
         Halo_first_slice g0 activations ds spatial_dimension_to_split' activations_batch_dim
           spatial_split_size batch_size low_padding padding;
       (halo_region, g2) \<leftarrow>
         Halo_halo_region g1 activations ds spatial_dimension_to_split' activations_batch_dim
           low_padding halo_size' padding;
       (activations_cut, g3) \<leftarrow>
         Halo_activations_cut g2 activations ds spatial_dimension_to_split'
           spatial_split_size low_padding halo_size';
       (with_first, g4) \<leftarrow>
         (case first_slice of
            Some fs \<Rightarrow> MakeConcatHlo g3 [fs, activations_cut] spatial_dimension_to_split'
          | None \<Rightarrow> Some (activations_cut, g3));
       (case halo_region of
          Some hr \<Rightarrow> MakeConcatHlo g4 [with_first, hr] spatial_dimension_to_split'
        | None \<Rightarrow> Some (with_first, g4))
     }
   }"

section \<open>BringSpaceNextToBatch\<close>

text \<open>
  The loop over the axes carries the counter of pushed axes, the transposition built so
  far, the new batch and space axes (unset until the space axis is met) and the new
  dimension numbers.
\<close>

type_synonym BringSpaceState =
  "int \<times> int list \<times> int option \<times> int option \<times> ConvolutionDimensionNumbers"

fun set_first_spatial :: "int list \<Rightarrow> int list \<Rightarrow> int \<Rightarrow> int \<Rightarrow> int list" where
  \<comment> \<open>The loop over \<open>j\<close>: the first spatial dimension of the old numbers that is \<open>i\<close>
      becomes \<open>v\<close> in the new ones.\<close>
  "set_first_spatial [] new i v = new"
| "set_first_spatial (a # old) new i v =
     (case new of
        [] \<Rightarrow> []
      | b # new' \<Rightarrow> if i = a then v # new' else b # set_first_spatial old new' i v)"

definition BringSpace_step ::
  "ConvolutionDimensionNumbers \<Rightarrow> int \<Rightarrow> int \<Rightarrow> BringSpaceState \<Rightarrow> nat \<Rightarrow> BringSpaceState" where
  \<comment> \<open>The body of the loop over the axes \<open>i\<close> of the activations.\<close>
  "BringSpace_step dim_numbers spatial_dim_to_split activations_batch_dim st i =
     (case st of (pushed_counter, transpose_dims, new_batch, new_spatial, nd) \<Rightarrow>
      if int i = activations_batch_dim then st
      else
        let (pushed_counter, transpose_dims, new_batch, new_spatial) =
              (if int i = spatial_dim_to_split
               then (pushed_counter + 1, transpose_dims @ [activations_batch_dim],
                     Some pushed_counter, Some (pushed_counter + 1))
               else (pushed_counter, transpose_dims, new_batch, new_spatial));
            nd' =
              (if int i = input_feature_dimension dim_numbers
               then nd \<lparr> input_feature_dimension := pushed_counter \<rparr>
               else nd \<lparr> input_spatial_dimensions :=
                          set_first_spatial (input_spatial_dimensions dim_numbers)
                            (input_spatial_dimensions nd) (int i) pushed_counter \<rparr>)
        in (pushed_counter + 1, transpose_dims @ [int i], new_batch, new_spatial, nd'))"

definition BringSpaceNextToBatch ::
  "graph \<Rightarrow> hid \<Rightarrow> ConvolutionDimensionNumbers \<Rightarrow> int \<Rightarrow> int \<Rightarrow>
     (hid \<times> ConvolutionDimensionNumbers \<times> int \<times> int \<times> graph) option" where
  \<comment> \<open>Returns the activations, and the dimension numbers, the space axis and the batch
      axis that the C++ updates through its reference parameters.\<close>
  "BringSpaceNextToBatch g activations dim_numbers spatial_dim_to_split activations_batch_dim = do {
     act \<leftarrow> instruction g activations;
     (activations', spatial', batch', nd, g') \<leftarrow>
       (if spatial_dim_to_split \<noteq> activations_batch_dim + 1 then do {
          let (pushed_counter, transpose_dims, new_batch, new_spatial, nd) =
                foldl (BringSpace_step dim_numbers spatial_dim_to_split activations_batch_dim)
                  (0, [], None, None, dim_numbers)
                  [0 ..< length (dimensions (shape act))];
          b \<leftarrow> new_batch;
          sp \<leftarrow> new_spatial;
          (t, g1) \<leftarrow> MakeTransposeHlo g activations transpose_dims;
          Some (t, sp, b, nd, g1)
        }
        else Some (activations, spatial_dim_to_split, activations_batch_dim, dim_numbers, g));
     Some (activations', nd \<lparr> input_batch_dimension := batch' \<rparr>, spatial', batch', g')
   }"

section \<open>The visitor's state and the readiness checks\<close>

text \<open>
  The side tables of ConvolutionVisitor. The C++ reads the tables with \<open>operator[]\<close>,
  which inserts a default entry for a key that is absent: \<open>dim_map_lookup\<close> and
  \<open>permute_lookup\<close> return the entry and the table after the read. A read of
  \<open>old_to_new_instrs_\<close> that finds no entry yields a null pointer, which every reader
  dereferences: it is modelled as a read that does not return.
\<close>

record ConvolutionVisitor =
  computation :: graph
  root_instruction :: hid
  old_to_new_instrs :: "hid \<rightharpoonup> hid"
  instr_to_dim_map :: "hid \<rightharpoonup> int \<times> int"
  instr_to_dim_permute_map :: "hid \<rightharpoonup> int list"
  batch_to_space_map :: "hid \<rightharpoonup> hid"
  non_propagatable_instrs :: "hid set"
  convs_to_visit :: "hid set"
  changed :: bool
  limit_on_batch_size :: int

definition dim_map_lookup ::
  "ConvolutionVisitor \<Rightarrow> hid \<Rightarrow> (int \<times> int) \<times> ConvolutionVisitor" where
  \<comment> \<open>\<open>instr_to_dim_map_[k]\<close>\<close>
  "dim_map_lookup s k =
     (case instr_to_dim_map s k of
        Some v \<Rightarrow> (v, s)
      | None \<Rightarrow> ((0, 0), s \<lparr> instr_to_dim_map := (instr_to_dim_map s)(k \<mapsto> (0, 0)) \<rparr>))"

definition permute_lookup ::
  "ConvolutionVisitor \<Rightarrow> hid \<Rightarrow> int list \<times> ConvolutionVisitor" where
  \<comment> \<open>\<open>instr_to_dim_permute_map_[k]\<close>\<close>
  "permute_lookup s k =
     (case instr_to_dim_permute_map s k of
        Some v \<Rightarrow> (v, s)
      | None \<Rightarrow> ([], s \<lparr> instr_to_dim_permute_map := (instr_to_dim_permute_map s)(k \<mapsto> []) \<rparr>))"

definition DimLookUp :: "int list \<Rightarrow> int \<Rightarrow> int option" where
  "DimLookUp permute_dims idx = at_index permute_dims idx"

definition IsElementwise :: "HloInstruction \<Rightarrow> bool" where
  \<comment> \<open>Modelled from the spec: the host's \<open>IsElementwise()\<close> (section 6, per-operation
      introspection), by opcode. For a fusion it depends on the fused computation; the
      pass never asks, since IsTrivialElementwise answers for a fusion before.\<close>
  "IsElementwise hlo =
     (opcode hlo \<in> {kCopy, kConstant, kIota, kRng, kSelect, kCompare, kAdd, kAnd,
                      kMultiply, kNegate})"

definition IsElementwiseBinary :: "HloInstruction \<Rightarrow> bool" where
  "IsElementwiseBinary hlo = (IsElementwise hlo \<and> length (operands hlo) = 2)"

definition IsTrivialElementwise :: "HloInstruction \<Rightarrow> bool" where
  "IsTrivialElementwise hlo =
     (if opcode hlo = kFusion \<or> opcode hlo = kRng \<or> opcode hlo = kCopy \<or>
         opcode hlo = kConstant \<or> opcode hlo = kIota
      then False
      else IsElementwise hlo)"

definition IsBroadcastPropagatable ::
  "ConvolutionVisitor \<Rightarrow> hid \<Rightarrow> hid \<Rightarrow> bool option" where
  "IsBroadcastPropagatable s broadcast old_other_op = do {
     b \<leftarrow> instruction (computation s) broadcast;
     if opcode b \<noteq> kBroadcast then None
     else do {
       (batch_dim, space_dim) \<leftarrow> instr_to_dim_map s old_other_op;
       let broadcast_dims = instr_dimensions b;
       Some (batch_dim \<notin> set broadcast_dims \<and> space_dim \<notin> set broadcast_dims)
     }
   }"

fun Supported_broadcast_operands ::
  "ConvolutionVisitor \<Rightarrow> hid list \<Rightarrow> hid \<Rightarrow> bool option" where
  \<comment> \<open>The loop over the operands of an elementwise consumer in
      SupportedOpForPropagation.\<close>
  "Supported_broadcast_operands s [] producer = Some True"
| "Supported_broadcast_operands s (op_id # rest) producer = do {
     op \<leftarrow> instruction (computation s) op_id;
     if opcode op = kBroadcast then do {
       ok \<leftarrow> IsBroadcastPropagatable s op_id producer;
       if \<not> ok then Some False else Supported_broadcast_operands s rest producer
     }
     else Supported_broadcast_operands s rest producer
   }"

definition SupportedOpForPropagation ::
  "ConvolutionVisitor \<Rightarrow> hid \<Rightarrow> hid \<Rightarrow> (bool \<times> ConvolutionVisitor) option" where
  "SupportedOpForPropagation s consumer_id producer = do {
     consumer \<leftarrow> instruction (computation s) consumer_id;
     if IsTrivialElementwise consumer then do {
       ok \<leftarrow> Supported_broadcast_operands s (operands consumer) producer;
       Some (ok, s)
     }
     else if opcode consumer = kConvolution then Some (True, s)
     else if opcode consumer = kReduce then do {
       let reduce_dims = instr_dimensions consumer;
       first_operand \<leftarrow> at_index (operands consumer) 0;
       let ((batch_dim, space_dim), s1) = dim_map_lookup s first_operand;
       Some (batch_dim \<in> set reduce_dims \<and> space_dim \<in> set reduce_dims, s1)
     }
     else if opcode consumer = kReduceWindow \<or> opcode consumer = kSelectAndScatter then do {
       first_operand \<leftarrow> at_index (operands consumer) 0;
       let window = window consumer;
       if instr_to_dim_map s first_operand = None then Some (False, s)
       else do {
         let ((old_batch_dim, old_space_dim), s1) = dim_map_lookup s first_operand;
         wb \<leftarrow> at_index window old_batch_dim;
         if size_w wb \<noteq> 1 then Some (False, s1)
         else do {
           ws \<leftarrow> at_index window old_space_dim;
           if padding_low ws \<noteq> 0 then Some (False, s1)
           else if padding_high ws > size_w ws then Some (False, s1)
           else if old_to_new_instrs s1 first_operand = None then Some (False, s1)
           else do {
             new_operand \<leftarrow> old_to_new_instrs s1 first_operand;
             let (permute_dims, s2) = permute_lookup s1 new_operand;
             new_space_dim \<leftarrow> DimLookUp permute_dims old_space_dim;
             if size_w ws \<noteq> 1 then do {
               new_dims \<leftarrow> dims_of (computation s2) new_operand;
               extent \<leftarrow> at_index new_dims new_space_dim;
               if stride ws = 0 then None
               else if extent smod stride ws \<noteq> 0 then Some (False, s2)
               else Some (True, s2)
             }
             else Some (True, s2)
           }
         }
       }
     }
     else Some (False, s)
   }"

fun CanPropagate_dims ::
  "int list \<Rightarrow> int list \<Rightarrow> int list \<Rightarrow> int list \<Rightarrow> bool \<Rightarrow> int \<Rightarrow> nat list \<Rightarrow> bool option" where
  \<comment> \<open>The loop over \<open>j < pivot_permute_dims.size()\<close>: True where it runs through.\<close>
  "CanPropagate_dims pivot_permute_dims permute_dims pivot_shape new_shape binary space [] =
     Some True"
| "CanPropagate_dims pivot_permute_dims permute_dims pivot_shape new_shape binary space (j # js) = do {
     p \<leftarrow> at_index pivot_permute_dims (int j);
     q \<leftarrow> at_index permute_dims (int j);
     if p \<noteq> q then Some False
     else do {
       a \<leftarrow> at_index pivot_shape (int j);
       b \<leftarrow> at_index new_shape (int j);
       if a \<noteq> b \<and> \<not> (binary \<and> int j = space) then Some False
       else CanPropagate_dims pivot_permute_dims permute_dims pivot_shape new_shape binary space js
     }
   }"

fun CanPropagate_operands ::
  "ConvolutionVisitor \<Rightarrow> HloInstruction \<Rightarrow> hid \<Rightarrow> hid option \<Rightarrow> hid list \<Rightarrow>
     (bool \<times> ConvolutionVisitor) option" where
  \<comment> \<open>The loop over the operands of an elementwise consumer in CanPropagate, with the
      pivot operand found so far: True where it runs through.\<close>
  "CanPropagate_operands s consumer producer pivot_operand [] = Some (True, s)"
| "CanPropagate_operands s consumer producer pivot_operand (old_producer # rest) = do {
     op \<leftarrow> instruction (computation s) old_producer;
     broadcast_or_constant \<leftarrow>
       (if opcode op = kConstant then Some True
        else if opcode op = kBroadcast then IsBroadcastPropagatable s old_producer producer
        else Some False);
     if old_to_new_instrs s old_producer = None \<and> \<not> broadcast_or_constant then Some (False, s)
     else if broadcast_or_constant then
       CanPropagate_operands s consumer producer pivot_operand rest
     else if instr_to_dim_map s old_producer = None then None
     else (case pivot_operand of
        None \<Rightarrow> CanPropagate_operands s consumer producer (Some old_producer) rest
      | Some pivot \<Rightarrow> do {
          let (pivot_dims, s1) = dim_map_lookup s pivot;
          let (producer_dims, s2) = dim_map_lookup s1 old_producer;
          if pivot_dims \<noteq> producer_dims then Some (False, s2)
          else do {
            pivot_new_instr \<leftarrow> old_to_new_instrs s2 pivot;
            let (pivot_permute_dims, s3) = permute_lookup s2 pivot_new_instr;
            new_instr \<leftarrow> old_to_new_instrs s3 old_producer;
            let (permute_dims, s4) = permute_lookup s3 new_instr;
            pivot_shape \<leftarrow> dims_of (computation s4) pivot_new_instr;
            new_shape \<leftarrow> dims_of (computation s4) new_instr;
            ok \<leftarrow> CanPropagate_dims pivot_permute_dims permute_dims pivot_shape new_shape
                    (IsElementwiseBinary consumer) (snd pivot_dims)
                    [0 ..< length pivot_permute_dims];
            if \<not> ok then Some (False, s4)
            else CanPropagate_operands s4 consumer producer (Some pivot) rest
          }
        })
   }"

definition CanPropagate_backprop_filter ::
  "ConvolutionVisitor \<Rightarrow> HloInstruction \<Rightarrow> (bool \<times> ConvolutionVisitor) option" where
  \<comment> \<open>The readiness of a convolution that is not suitable for space-to-batch itself.\<close>
  "CanPropagate_backprop_filter s consumer = do {
     wd \<leftarrow> at_index (window consumer) (get_chosen_spatial_dim consumer);
     if stride wd \<noteq> 1 then Some (False, s)
     else if \<not> list_all (\<lambda>old_producer.
                  case old_to_new_instrs s old_producer of
                    None \<Rightarrow> False
                  | Some n \<Rightarrow> instr_to_dim_permute_map s n \<noteq> None) (operands consumer)
     then Some (False, s)
     else do {
       op0 \<leftarrow> at_index (operands consumer) 0;
       op1 \<leftarrow> at_index (operands consumer) 1;
       first_operand \<leftarrow> old_to_new_instrs s op0;
       let (dim_map_val_op_0, s1) = dim_map_lookup s op0;
       second_operand \<leftarrow> old_to_new_instrs s1 op1;
       let (dim_map_val_op_1, s2) = dim_map_lookup s1 op1;
       let (permute_dims_first_operand, s3) = permute_lookup s2 first_operand;
       let (permute_dims_second_operand, s4) = permute_lookup s3 second_operand;
       new_batch_dim_operand_0 \<leftarrow> DimLookUp permute_dims_first_operand (fst dim_map_val_op_0);
       new_space_dim_operand_0 \<leftarrow> DimLookUp permute_dims_first_operand (snd dim_map_val_op_0);
       new_batch_dim_operand_1 \<leftarrow> DimLookUp permute_dims_second_operand (fst dim_map_val_op_1);
       new_space_dim_operand_1 \<leftarrow> DimLookUp permute_dims_second_operand (snd dim_map_val_op_1);
       first_shape \<leftarrow> dims_of (computation s4) first_operand;
       second_shape \<leftarrow> dims_of (computation s4) second_operand;
       b0 \<leftarrow> at_index first_shape new_batch_dim_operand_0;
       b1 \<leftarrow> at_index second_shape new_batch_dim_operand_1;
       if b0 \<noteq> b1 then Some (False, s4)
       else do {
         let rhs_dilation = window_dilation wd;
         e0 \<leftarrow> at_index first_shape new_space_dim_operand_0;
         e1 \<leftarrow> at_index second_shape new_space_dim_operand_1;
         if e0 \<noteq> rhs_dilation * e1 then Some (False, s4) else Some (True, s4)
       }
     }
   }"

definition CanPropagate_select_and_scatter ::
  "ConvolutionVisitor \<Rightarrow> HloInstruction \<Rightarrow> (bool \<times> ConvolutionVisitor) option" where
  "CanPropagate_select_and_scatter s consumer =
     (if \<not> scatter_is_add consumer then Some (False, s)
      else if \<not> list_all (\<lambda>old_producer. old_to_new_instrs s old_producer \<noteq> None)
                  (take 2 (operands consumer))
      then Some (False, s)
      else do {
        op0 \<leftarrow> at_index (operands consumer) 0;
        op1 \<leftarrow> at_index (operands consumer) 1;
        first_operand \<leftarrow> old_to_new_instrs s op0;
        let (dim_map_val_op_0, s1) = dim_map_lookup s op0;
        second_operand \<leftarrow> old_to_new_instrs s1 op1;
        let (permute_dims_first_operand, s2) = permute_lookup s1 first_operand;
        let (permute_dims_second_operand, s3) = permute_lookup s2 second_operand;
        if permute_dims_first_operand \<noteq> permute_dims_second_operand then Some (False, s3)
        else do {
          let old_batch_dim = fst dim_map_val_op_0;
          let old_space_dim = snd dim_map_val_op_0;
          new_batch_dim \<leftarrow> DimLookUp permute_dims_first_operand old_batch_dim;
          new_space_dim \<leftarrow> DimLookUp permute_dims_first_operand old_space_dim;
          first_shape \<leftarrow> dims_of (computation s3) first_operand;
          second_shape \<leftarrow> dims_of (computation s3) second_operand;
          b0 \<leftarrow> at_index first_shape new_batch_dim;
          b1 \<leftarrow> at_index second_shape new_batch_dim;
          if b0 \<noteq> b1 then Some (False, s3)
          else do {
            ws \<leftarrow> at_index (window consumer) old_space_dim;
            let stride' = stride ws;
            let pad_high = padding_high ws;
            let pad_low = padding_low ws;
            e0 \<leftarrow> at_index first_shape new_space_dim;
            if stride' = 0 then None
            else do {
              e1 \<leftarrow> at_index second_shape new_space_dim;
              if (e0 + pad_high + pad_low) sdiv stride' \<noteq> e1 then Some (False, s3)
              else Some (True, s3)
            }
          }
        }
      })"

definition CanPropagate ::
  "ConvolutionVisitor \<Rightarrow> hid \<Rightarrow> hid \<Rightarrow> (bool \<times> ConvolutionVisitor) option" where
  "CanPropagate s consumer_id producer = do {
     consumer \<leftarrow> instruction (computation s) consumer_id;
     (ok, s1) \<leftarrow>
       (if IsTrivialElementwise consumer
        then CanPropagate_operands s consumer producer None (operands consumer)
        else Some (True, s));
     if \<not> ok then Some (False, s1)
     else if opcode consumer = kConvolution then do {
       suitable \<leftarrow> IsConvSuitableForSpaceToBatch (computation s1) (limit_on_batch_size s1) consumer;
       if suitable then
         (case operands consumer of
            [] \<Rightarrow> Some (True, s1)
          | old_producer # _ \<Rightarrow> Some (old_to_new_instrs s1 old_producer \<noteq> None, s1))
       else CanPropagate_backprop_filter s1 consumer
     }
     else if (opcode consumer = kReduceWindow \<or> opcode consumer = kReduce) \<and>
             (case operands consumer of
                [] \<Rightarrow> False
              | old_producer # _ \<Rightarrow> old_to_new_instrs s1 old_producer = None)
     then Some (False, s1)
     else if opcode consumer = kSelectAndScatter then CanPropagate_select_and_scatter s1 consumer
     else Some (True, s1)
   }"

section \<open>BatchToSpaceConverter\<close>

definition BatchToSpace ::
  "ConvolutionVisitor \<Rightarrow> hid \<Rightarrow> (hid \<times> ConvolutionVisitor) option" where
  "BatchToSpace s old_instr =
     (case batch_to_space_map s old_instr of
        Some cached \<Rightarrow> Some (cached, s)
      | None \<Rightarrow> do {
          let ((old_batch_dim, old_space_dim), s1) = dim_map_lookup s old_instr;
          old_i \<leftarrow> instruction (computation s1) old_instr;
          old_batch_size \<leftarrow> at_index (dimensions (shape old_i)) old_batch_dim;
          new_instr \<leftarrow> old_to_new_instrs s1 old_instr;
          permute_dims \<leftarrow> instr_to_dim_permute_map s1 new_instr;
          batch_dim \<leftarrow> DimLookUp permute_dims old_batch_dim;
          space_dim \<leftarrow> DimLookUp permute_dims old_space_dim;
          new_i \<leftarrow> instruction (computation s1) new_instr;
          batch_size \<leftarrow> at_index (dimensions (shape new_i)) batch_dim;
          let new_dimensions = dimensions (shape new_i);
          space_size \<leftarrow> at_index new_dimensions space_dim;
          if old_batch_size = 0 then None
          else do {
            new_dimensions \<leftarrow>
              set_index new_dimensions space_dim
                (space_size * (batch_size sdiv old_batch_size));
            new_dimensions \<leftarrow> set_index new_dimensions batch_dim old_batch_size;
            (reshape, g1) \<leftarrow> MakeReshapeHlo (computation s1) new_dimensions new_instr;
            let rank = length (dimensions (shape old_i));
            let start_indices = replicate rank 0;
            let end_indices = new_dimensions;
            let strides = replicate rank 1;
            old_space_size \<leftarrow> at_index (dimensions (shape old_i)) old_space_dim;
            end_indices \<leftarrow> set_index end_indices space_dim old_space_size;
            (output_slice, g2) \<leftarrow> MakeSliceHlo g1 reshape start_indices end_indices strides;
            let transpose_dims = permute_dims;
            (output_transpose, g3) \<leftarrow> MakeTransposeHlo g2 output_slice transpose_dims;
            Some (output_transpose,
                  s1 \<lparr> computation := g3,
                       batch_to_space_map :=
                         (batch_to_space_map s1)(old_instr \<mapsto> output_transpose) \<rparr>)
          }
        })"

section \<open>Propagate\<close>

text \<open>
  The rewrite of one consumer. The C++ reads \<open>old_to_new_instrs_\<close> after a CHECK that
  the key is present or dereferences the pointer it reads, so a read without an entry is
  a computation that does not return; the reads of the two other tables are the inserting
  reads \<open>dim_map_lookup\<close> and \<open>permute_lookup\<close>. The result has the flag the C++ returns
  (whether the users of the consumer are to be visited) and the state after the rewrite.
\<close>

fun dims_greater :: "int list \<Rightarrow> int list \<Rightarrow> bool" where
  \<comment> \<open>\<open>a.dimensions() > b.dimensions()\<close>, the lexicographic order of the extents\<close>
  "dims_greater [] ys = False"
| "dims_greater (x # xs) [] = True"
| "dims_greater (x # xs) (y # ys) = (x > y \<or> (x = y \<and> dims_greater xs ys))"

fun DimLookUp_all :: "int list \<Rightarrow> int list \<Rightarrow> int list option" where
  \<comment> \<open>A loop that looks up every axis of a list.\<close>
  "DimLookUp_all permute_dims [] = Some []"
| "DimLookUp_all permute_dims (j # js) = do {
     d \<leftarrow> DimLookUp permute_dims j;
     ds \<leftarrow> DimLookUp_all permute_dims js;
     Some (d # ds)
   }"

definition Propagate_choose_producer ::
  "ConvolutionVisitor \<Rightarrow> HloInstruction \<Rightarrow> hid \<Rightarrow> hid option" where
  \<comment> \<open>The loop over \<open>i < 2\<close> for an elementwise binary consumer: the producer that the
      rest of Propagate uses.\<close>
  "Propagate_choose_producer s consumer producer =
     (if IsElementwiseBinary consumer then do {
        op0 \<leftarrow> at_index (operands consumer) 0;
        i0 \<leftarrow> instruction (computation s) op0;
        if opcode i0 = kBroadcast then Some producer
        else do {
          n0 \<leftarrow> old_to_new_instrs s op0;
          op1 \<leftarrow> at_index (operands consumer) 1;
          i1 \<leftarrow> instruction (computation s) op1;
          if opcode i1 = kBroadcast then Some producer
          else do {
            n1 \<leftarrow> old_to_new_instrs s op1;
            d0 \<leftarrow> dims_of (computation s) n0;
            d1 \<leftarrow> dims_of (computation s) n1;
            Some (if dims_greater d0 d1 then op0 else op1)
          }
        }
      }
      else Some producer)"

definition Propagate_broadcast_operand ::
  "ConvolutionVisitor \<Rightarrow> hid \<Rightarrow> hid \<Rightarrow> int \<Rightarrow> HloInstruction \<Rightarrow> ConvolutionVisitor option" where
  \<comment> \<open>Operand \<open>i\<close> of the consumer is the broadcast \<open>b\<close>.\<close>
  "Propagate_broadcast_operand s producer new_consumer i b = do {
     new_producer \<leftarrow> old_to_new_instrs s producer;
     let (permute_dims, s1) = permute_lookup s new_producer;
     broadcast_dims \<leftarrow> DimLookUp_all permute_dims (instr_dimensions b);
     broadcast_operand \<leftarrow> at_index (operands b) 0;
     np_dims \<leftarrow> dims_of (computation s1) new_producer;
     (new_broadcast, g1) \<leftarrow>
       MakeBroadcastHlo (computation s1) broadcast_operand broadcast_dims np_dims;
     g2 \<leftarrow> ReplaceOperandWithDifferentShape g1 new_consumer i new_broadcast;
     Some (s1 \<lparr> computation := g2 \<rparr>)
   }"

definition Propagate_rewritten_operand ::
  "ConvolutionVisitor \<Rightarrow> hid \<Rightarrow> hid \<Rightarrow> int \<Rightarrow> hid \<Rightarrow> ConvolutionVisitor option" where
  \<comment> \<open>Operand \<open>i\<close> of the consumer is the rewritten instruction \<open>old_operand\<close>.\<close>
  "Propagate_rewritten_operand s producer new_consumer i old_operand = do {
     new_instr \<leftarrow> old_to_new_instrs s old_operand;
     let ((old_batch_dim, old_space_dim), s1) = dim_map_lookup s producer;
     producer_dims \<leftarrow> dims_of (computation s1) producer;
     old_batch_size \<leftarrow> at_index producer_dims old_batch_dim;
     pivot_new_instr \<leftarrow> old_to_new_instrs s1 producer;
     let (permute_dims, s2) = permute_lookup s1 new_instr;
     batch_dim \<leftarrow> DimLookUp permute_dims old_batch_dim;
     space_dim \<leftarrow> DimLookUp permute_dims old_space_dim;
     new_dims \<leftarrow> dims_of (computation s2) new_instr;
     batch_size \<leftarrow> at_index new_dims batch_dim;
     pivot_dims \<leftarrow> dims_of (computation s2) pivot_new_instr;
     new_space \<leftarrow> at_index new_dims space_dim;
     pivot_space \<leftarrow> at_index pivot_dims space_dim;
     (operand_to_use, g') \<leftarrow>
       (if new_space \<noteq> pivot_space then
          if batch_dim + 1 \<noteq> space_dim then None
          else if old_batch_size = 0 then None
          else do {
            new_dimensions \<leftarrow>
              set_index new_dims space_dim (new_space * (batch_size sdiv old_batch_size));
            new_dimensions \<leftarrow> set_index new_dimensions batch_dim old_batch_size;
            (reshape, g1) \<leftarrow> MakeReshapeHlo (computation s2) new_dimensions new_instr;
            let pivot_space_size = (pivot_space * batch_size) sdiv old_batch_size;
            reshaped_space \<leftarrow> at_index new_dimensions space_dim;
            if \<not> (pivot_space_size > reshaped_space) then None
            else do {
              r \<leftarrow> instruction g1 reshape;
              let padding_config = MakeNoPaddingConfig (int (length (dimensions (shape r))));
              padding_config \<leftarrow>
                set_index padding_config space_dim (0, pivot_space_size - reshaped_space);
              let (padding, g2) = CreateConstant g1 (ZeroLiteral (element_type (shape r)));
              (padded_operand, g3) \<leftarrow> MakePadHlo g2 reshape padding padding_config;
              MakeReshapeHlo g3 pivot_dims padded_operand
            }
          }
        else Some (new_instr, computation s2));
     g'' \<leftarrow> ReplaceOperandWithDifferentShape g' new_consumer i operand_to_use;
     Some (s2 \<lparr> computation := g'' \<rparr>)
   }"

fun Propagate_operands ::
  "ConvolutionVisitor \<Rightarrow> HloInstruction \<Rightarrow> hid \<Rightarrow> hid \<Rightarrow> nat list \<Rightarrow>
     ConvolutionVisitor option" where
  \<comment> \<open>The loop over the operands \<open>i\<close> of an elementwise consumer.\<close>
  "Propagate_operands s consumer producer new_consumer [] = Some s"
| "Propagate_operands s consumer producer new_consumer (i # rest) = do {
     old_operand \<leftarrow> at_index (operands consumer) (int i);
     op \<leftarrow> instruction (computation s) old_operand;
     s' \<leftarrow> (if opcode op = kBroadcast
            then Propagate_broadcast_operand s producer new_consumer (int i) op
            else Propagate_rewritten_operand s producer new_consumer (int i) old_operand);
     Propagate_operands s' consumer producer new_consumer rest
   }"

definition Propagate_elementwise ::
  "ConvolutionVisitor \<Rightarrow> hid \<Rightarrow> HloInstruction \<Rightarrow> hid \<Rightarrow>
     (bool \<times> ConvolutionVisitor) option" where
  "Propagate_elementwise s consumer_id consumer producer = do {
     let (dim_map_val, s1) = dim_map_lookup s producer;
     (new_consumer, g1) \<leftarrow> Clone (computation s1) consumer_id;
     let s2 = s1 \<lparr> computation := g1 \<rparr>;
     producer \<leftarrow> Propagate_choose_producer s2 consumer producer;
     s3 \<leftarrow> Propagate_operands s2 consumer producer new_consumer
             [0 ..< length (operands consumer)];
     nc \<leftarrow> instruction (computation s3) new_consumer;
     let old_type = element_type (shape nc);
     new_producer \<leftarrow> old_to_new_instrs s3 producer;
     np \<leftarrow> instruction (computation s3) new_producer;
     g' \<leftarrow> update_instruction (computation s3) new_consumer
             (\<lambda>i. i \<lparr> shape := (shape np) \<lparr> element_type := old_type \<rparr> \<rparr>);
     permute_dims \<leftarrow> instr_to_dim_permute_map s3 new_producer;
     Some (True,
           s3 \<lparr> computation := g',
                old_to_new_instrs := (old_to_new_instrs s3)(consumer_id \<mapsto> new_consumer),
                instr_to_dim_map := (instr_to_dim_map s3)(consumer_id \<mapsto> dim_map_val),
                instr_to_dim_permute_map :=
                  (instr_to_dim_permute_map s3)(new_consumer \<mapsto> permute_dims) \<rparr>)
   }"

definition Propagate_reduce ::
  "ConvolutionVisitor \<Rightarrow> hid \<Rightarrow> HloInstruction \<Rightarrow> (bool \<times> ConvolutionVisitor) option" where
  "Propagate_reduce s consumer_id consumer = do {
     (new_consumer, g1) \<leftarrow> Clone (computation s) consumer_id;
     operand0 \<leftarrow> at_index (operands consumer) 0;
     first_operand \<leftarrow> old_to_new_instrs s operand0;
     let (dim_map_val, s1) = dim_map_lookup s operand0;
     let old_batch_dim = fst dim_map_val;
     let old_space_dim = snd dim_map_val;
     let (permute_dims, s2) = permute_lookup s1 first_operand;
     new_batch_dim \<leftarrow> DimLookUp permute_dims old_batch_dim;
     new_space_dim \<leftarrow> DimLookUp permute_dims old_space_dim;
     operand1 \<leftarrow> at_index (operands consumer) 1;
     (first_operand, g2) \<leftarrow>
       SelectValidPortion g1 first_operand operand0 operand1 new_batch_dim new_space_dim
         old_batch_dim old_space_dim;
     changed_dims \<leftarrow> DimLookUp_all permute_dims (instr_dimensions consumer);
     g3 \<leftarrow> update_instruction g2 new_consumer (\<lambda>i. i \<lparr> instr_dimensions := changed_dims \<rparr>);
     g4 \<leftarrow> ReplaceOperandWithDifferentShape g3 new_consumer 0 first_operand;
     Some (False,
           s2 \<lparr> computation := g4,
                old_to_new_instrs := (old_to_new_instrs s2)(consumer_id \<mapsto> new_consumer),
                instr_to_dim_map := (instr_to_dim_map s2)(consumer_id \<mapsto> dim_map_val) \<rparr>)
   }"

fun Propagate_new_window ::
  "WindowDimension list \<Rightarrow> int list \<Rightarrow> int \<Rightarrow> nat list \<Rightarrow> WindowDimension list option" where
  \<comment> \<open>The loop over the window dimensions \<open>i\<close> that fills \<open>new_win\<close>.\<close>
  "Propagate_new_window win permute_dims old_space_dim [] = Some []"
| "Propagate_new_window win permute_dims old_space_dim (i # rest) = do {
     dim \<leftarrow> DimLookUp permute_dims (int i);
     wd \<leftarrow> at_index win dim;
     ws \<leftarrow> Propagate_new_window win permute_dims old_space_dim rest;
     Some (\<lparr> size_w = size_w wd, stride = stride wd,
             padding_low = (if int i = old_space_dim then 0 else padding_low wd),
             padding_high = (if int i = old_space_dim then 0 else padding_high wd),
             window_dilation = window_dilation wd, base_dilation = base_dilation wd,
             window_reversal = window_reversal wd \<rparr> # ws)
   }"

definition overlap_mask_bit :: "int \<Rightarrow> int \<Rightarrow> int \<Rightarrow> bool" where
  \<comment> \<open>The body of the loop over \<open>k\<close> that fills the bitmap for the overlap.\<close>
  "overlap_mask_bit padded_space halo_size' k =
     (let space_index = k smod padded_space;
          batch_index = k sdiv padded_space
      in batch_index < 1 \<or> space_index \<ge> halo_size')"

definition Propagate_overlap ::
  "graph \<Rightarrow> hid \<Rightarrow> hid \<Rightarrow> int \<Rightarrow> int \<Rightarrow> int \<Rightarrow> int \<Rightarrow> (hid \<times> graph) option" where
  \<comment> \<open>The block guarded by \<open>halo_size > 0\<close> for a select-and-scatter: the updates of
      both overlapping windows are applied.\<close>
  "Propagate_overlap g new_consumer init_val new_batch_dim new_space_dim new_space_size
     halo_size' = do {
     nc_dims \<leftarrow> dims_of g new_consumer;
     let rank = length nc_dims;
     batch_size \<leftarrow> at_index nc_dims new_batch_dim;
     let start_indices = replicate rank 0;
     let end_indices = nc_dims;
     let strides = replicate rank 1;
     start_indices \<leftarrow> set_index start_indices new_space_dim new_space_size;
     end_indices \<leftarrow> set_index end_indices new_space_dim (new_space_size + halo_size');
     end_indices \<leftarrow> set_index end_indices new_batch_dim (batch_size - 1);
     (bottom, g1) \<leftarrow> MakeSliceHlo g new_consumer start_indices end_indices strides;
     let start_indices_top = replicate rank 0;
     let end_indices_top = nc_dims;
     end_indices_top \<leftarrow> set_index end_indices_top new_space_dim halo_size';
     start_indices_top \<leftarrow> set_index start_indices_top new_batch_dim 1;
     (top, g2) \<leftarrow> MakeSliceHlo g1 new_consumer start_indices_top end_indices_top strides;
     top_dims \<leftarrow> dims_of g2 top;
     (default_fill, g3) \<leftarrow> MakeBroadcastHlo g2 init_val [] top_dims;
     (bottom_compare, g4) \<leftarrow> MakeCompareHlo g3 bottom default_fill;
     (bottom_taken, g5) \<leftarrow> MakeSelectHlo g4 bottom_compare bottom default_fill;
     (top_compare, g6) \<leftarrow> MakeCompareHlo g5 top default_fill;
     (top_taken, g7) \<leftarrow> MakeSelectHlo g6 top_compare top bottom_taken;
     (both_compare, g8) \<leftarrow> MakeBinaryHlo g7 kAnd top_compare bottom_compare;
     (both_added, g9) \<leftarrow> MakeBinaryHlo g8 kAdd top bottom;
     (final_selection, g10) \<leftarrow> MakeSelectHlo g9 both_compare both_added top_taken;
     fs \<leftarrow> instruction g10 final_selection;
     let padding_config = MakeNoPaddingConfig (int (length (dimensions (shape fs))));
     (lo, hi) \<leftarrow> at_index padding_config new_batch_dim;
     padding_config \<leftarrow> set_index padding_config new_batch_dim (1, hi);
     (lo, hi) \<leftarrow> at_index padding_config new_space_dim;
     padding_config \<leftarrow> set_index padding_config new_space_dim (lo, new_space_size);
     let (padding, g11) = CreateConstant g10 (ZeroLiteral (element_type (shape fs)));
     (final_selection, g12) \<leftarrow> MakePadHlo g11 final_selection padding padding_config;
     if batch_size * (new_space_size + halo_size') < 0 then None
     else do {
       let b = map (\<lambda>k. overlap_mask_bit (new_space_size + halo_size') halo_size' (int k))
                 [0 ..< nat (batch_size * (new_space_size + halo_size'))];
       let (slice_mask, g13) = CreateConstant g12 (R1Literal b);
       (slice_mask_reshaped, g14) \<leftarrow>
         MakeReshapeHlo g13 [batch_size, new_space_size + halo_size'] slice_mask;
       fs_dims \<leftarrow> dims_of g14 final_selection;
       (shape_mask, g15) \<leftarrow>
         MakeBroadcastHlo g14 slice_mask_reshaped [new_batch_dim, new_space_dim] fs_dims;
       MakeSelectHlo g15 shape_mask new_consumer final_selection
     }
   }"

definition Propagate_window_op ::
  "ConvolutionVisitor \<Rightarrow> hid \<Rightarrow> HloInstruction \<Rightarrow> (bool \<times> ConvolutionVisitor) option" where
  \<comment> \<open>The consumer is a reduce-window or a select-and-scatter.\<close>
  "Propagate_window_op s consumer_id consumer = do {
     let is_select_and_scatter = (opcode consumer = kSelectAndScatter);
     operand0 \<leftarrow> at_index (operands consumer) 0;
     first_operand \<leftarrow> old_to_new_instrs s operand0;
     init_val \<leftarrow> at_index (operands consumer) (if is_select_and_scatter then 2 else 1);
     let (dim_map_val, s1) = dim_map_lookup s operand0;
     let old_batch_dim = fst dim_map_val;
     let old_space_dim = snd dim_map_val;
     let (permute_dims, s2) = permute_lookup s1 first_operand;
     new_batch_dim \<leftarrow> DimLookUp permute_dims old_batch_dim;
     new_space_dim \<leftarrow> DimLookUp permute_dims old_space_dim;
     (first_operand, g1) \<leftarrow>
       SelectValidPortion (computation s2) first_operand operand0 init_val new_batch_dim
         new_space_dim old_batch_dim old_space_dim;
     new_shape \<leftarrow> dims_of g1 first_operand;
     new_batch_size \<leftarrow> at_index new_shape new_batch_dim;
     new_space_size \<leftarrow> at_index new_shape new_space_dim;
     ws \<leftarrow> at_index (window consumer) old_space_dim;
     let stride' = stride ws;
     let window_size = size_w ws;
     if stride' = 0 then None
     else do {
       let last_overlap_point = ((new_space_size - 1) sdiv stride') * stride';
       let halo_size' = last_overlap_point + window_size - new_space_size;
       (first_operand, g2) \<leftarrow>
         (if halo_size' > 0
          then HaloDuplicateWithSlice g1 first_operand new_space_dim new_batch_dim
                 new_batch_size 0 0 halo_size' new_space_size (Some init_val)
          else Some (first_operand, g1));
       new_win \<leftarrow> Propagate_new_window (window consumer) permute_dims old_space_dim
                    [0 ..< length (window consumer)];
       (new_consumer, g3) \<leftarrow>
         (if is_select_and_scatter then do {
            operand1 \<leftarrow> at_index (operands consumer) 1;
            second_operand \<leftarrow> old_to_new_instrs s2 operand1;
            (new_consumer, g3) \<leftarrow>
              CreateSelectAndScatter g2 first_operand new_win second_operand init_val consumer;
            g4 \<leftarrow> ReplaceOperandWithDifferentShape g3 new_consumer 0 first_operand;
            g5 \<leftarrow> ReplaceOperandWithDifferentShape g4 new_consumer 1 second_operand;
            (new_consumer, g6) \<leftarrow>
              (if halo_size' > 0
               then Propagate_overlap g5 new_consumer init_val new_batch_dim new_space_dim
                      new_space_size halo_size'
               else Some (new_consumer, g5));
            previous \<leftarrow> old_to_new_instrs s2 operand0;
            previous_dims \<leftarrow> dims_of g6 previous;
            MakeSliceHlo g6 new_consumer (replicate (length previous_dims) 0) previous_dims
              (replicate (length previous_dims) 1)
          }
          else do {
            (new_consumer, g3) \<leftarrow>
              CreateReduceWindow g2 first_operand init_val new_win (called_computations consumer);
            g4 \<leftarrow> ReplaceOperandWithDifferentShape g3 new_consumer 0 first_operand;
            Some (new_consumer, g4)
          });
       previous \<leftarrow> old_to_new_instrs s2 operand0;
       let (previous_permute, s3) = permute_lookup s2 previous;
       Some (True,
             s3 \<lparr> computation := g3,
                  old_to_new_instrs := (old_to_new_instrs s3)(consumer_id \<mapsto> new_consumer),
                  instr_to_dim_map := (instr_to_dim_map s3)(consumer_id \<mapsto> dim_map_val),
                  instr_to_dim_permute_map :=
                    (instr_to_dim_permute_map s3)(new_consumer \<mapsto> previous_permute) \<rparr>)
     }
   }"

section \<open>PropagateOnConv\<close>

partial_function (option) grow_split_size :: "int \<Rightarrow> int \<Rightarrow> int \<Rightarrow> int \<Rightarrow> int option" where
  \<comment> \<open>\<open>while (spatial_split_size * num_splits + slack < 0) spatial_split_size += stride\<close>;
      no value where the loop does not end.\<close>
  "grow_split_size spatial_split_size num_splits slack stride' =
     (if spatial_split_size * num_splits + slack < 0
      then grow_split_size (spatial_split_size + stride') num_splits slack stride'
      else Some spatial_split_size)"

declare grow_split_size.simps [code]

fun map_insert :: "int \<Rightarrow> int \<Rightarrow> (int \<times> int) list \<Rightarrow> (int \<times> int) list" where
  \<comment> \<open>\<open>dim_map[k] = v\<close> on a \<open>std::map\<close>, kept as the list of its entries in key order\<close>
  "map_insert k v [] = [(k, v)]"
| "map_insert k v ((k', v') # rest) =
     (if k = k' then (k, v) # rest
      else if k < k' then (k, v) # (k', v') # rest
      else (k', v') # map_insert k v rest)"

type_synonym OutputLayoutState = "int \<times> (int \<times> int) list \<times> ConvolutionDimensionNumbers"

definition output_layout_step ::
  "ConvolutionDimensionNumbers \<Rightarrow> int \<Rightarrow> OutputLayoutState \<Rightarrow> nat \<Rightarrow> OutputLayoutState" where
  \<comment> \<open>The body of the loop over the output spatial dimensions \<open>j\<close>.\<close>
  "output_layout_step dim_numbers chosen st j =
     (case st of (dim_count, dim_map, nd) \<Rightarrow>
      let (dim_count, dim_map, nd) =
            (if int j = chosen
             then (dim_count + 1,
                   map_insert (output_batch_dimension dim_numbers) dim_count dim_map,
                   nd \<lparr> output_batch_dimension := dim_count \<rparr>)
             else (dim_count, dim_map, nd))
      in (dim_count + 1,
          map_insert (output_spatial_dimensions dim_numbers ! j) dim_count dim_map,
          nd \<lparr> output_spatial_dimensions := (output_spatial_dimensions nd)[j := dim_count] \<rparr>))"

definition output_layout ::
  "ConvolutionDimensionNumbers \<Rightarrow> int \<Rightarrow> nat \<Rightarrow>
     (int list \<times> ConvolutionDimensionNumbers) option" where
  \<comment> \<open>The output layout of a rewritten convolution, batch followed by the split space
      axis: the loop over the output spatial dimensions, the feature axis, and the copy of
      the map into \<open>transpose_dims\<close>; \<open>new_dim_numbers\<close> starts as a copy of the
      dimension numbers. PropagateOnConv and PerformSpaceToBatchOnConvolution have the
      same statements.\<close>
  "output_layout dim_numbers chosen rank =
     (let (dim_count, dim_map, nd) =
            foldl (output_layout_step dim_numbers chosen) (0, [], dim_numbers)
              [0 ..< length (output_spatial_dimensions dim_numbers)];
          dim_map = map_insert (output_feature_dimension dim_numbers) dim_count dim_map;
          nd = nd \<lparr> output_feature_dimension := dim_count \<rparr>
      in if length dim_map > rank then None
         else Some (map snd dim_map @ replicate (rank - length dim_map) 0, nd))"

definition conv_low_padding :: "ConvDetails \<Rightarrow> int" where
  \<comment> \<open>The low padding PropagateOnConv passes to HaloDuplicateWithSlice.\<close>
  "conv_low_padding c =
     (if base_dilation_factor c \<noteq> 1 \<and> inherent_low_padding c \<noteq> 0
      then base_dilation_factor c - 1 else inherent_low_padding c)"

definition PropagateOnConv_activations ::
  "graph \<Rightarrow> hid \<Rightarrow> ConvDetails \<Rightarrow> int \<Rightarrow> int \<Rightarrow> int \<Rightarrow> int \<Rightarrow> (hid \<times> graph) option" where
  \<comment> \<open>The activations of the new convolution, from the choice of the split size on: the
      reshape-pad-reshape where the split is larger than the incoming space, and the halo
      duplication.\<close>
  "PropagateOnConv_activations g activations_new c activations_batch_dim old_batch_size
     old_split_dim_size spatial_split_size = do {
     let slice_size = spatial_split_size + halo_size c;
     act_dims \<leftarrow> dims_of g activations_new;
     new_batch_size \<leftarrow> at_index act_dims activations_batch_dim;
     new_space_size \<leftarrow> at_index act_dims (spatial_dimension_to_split c);
     if spatial_split_size > new_space_size then do {
       let reshaped_space_size = (new_space_size * new_batch_size) sdiv old_batch_size;
       new_dimensions \<leftarrow> set_index act_dims (spatial_dimension_to_split c) reshaped_space_size;
       new_dimensions \<leftarrow> set_index new_dimensions activations_batch_dim old_batch_size;
       (reshaped_activations, g1) \<leftarrow> MakeReshapeHlo g new_dimensions activations_new;
       r \<leftarrow> instruction g1 reshaped_activations;
       let padding_config = MakeNoPaddingConfig (int (length (dimensions (shape r))));
       padding_config \<leftarrow>
         set_index padding_config (spatial_dimension_to_split c)
           (0, spatial_split_size * new_batch_size - reshaped_space_size);
       let (padding, g2) = CreateConstant g1 (ZeroLiteral (element_type (shape r)));
       (reshaped_activations, g3) \<leftarrow> MakePadHlo g2 reshaped_activations padding padding_config;
       reshape_back_dims \<leftarrow> dims_of g3 reshaped_activations;
       reshape_back_dims \<leftarrow>
         set_index reshape_back_dims (spatial_dimension_to_split c) spatial_split_size;
       reshape_back_dims \<leftarrow> set_index reshape_back_dims activations_batch_dim new_batch_size;
       (reshaped_activations, g4) \<leftarrow> MakeReshapeHlo g3 reshape_back_dims reshaped_activations;
       HaloDuplicateWithSlice g4 reshaped_activations (spatial_dimension_to_split c)
         activations_batch_dim old_batch_size (conv_low_padding c) (inherent_high_padding c)
         (slice_size - spatial_split_size) old_split_dim_size None
     }
     else do {
       (spatial_split_size, slice_size) \<leftarrow>
         (if spatial_split_size < new_space_size then
            if ConvDetails.stride c = 0 then None
            else
              let additional_space_present = spatial_split_size smod ConvDetails.stride c in
              Some (new_space_size,
                    new_space_size +
                      max (kernel_spatial_dim_size c - ConvDetails.stride c
                             - additional_space_present) 0)
          else Some (spatial_split_size, slice_size));
       HaloDuplicateWithSlice g activations_new (spatial_dimension_to_split c)
         activations_batch_dim old_batch_size (conv_low_padding c) (inherent_high_padding c)
         (slice_size - spatial_split_size) old_split_dim_size None
     }
   }"

definition conv_new_window ::
  "HloInstruction \<Rightarrow> ConvDetails \<Rightarrow> WindowDimension list option" where
  \<comment> \<open>The window of the rewritten convolution: the paddings of the chosen spatial
      dimension are replaced.\<close>
  "conv_new_window convolution c = do {
     wd \<leftarrow> at_index (window convolution) (get_chosen_spatial_dim convolution);
     set_index (window convolution) (get_chosen_spatial_dim convolution)
       (wd \<lparr> padding_high := high_padding_for_conv c, padding_low := low_padding_for_conv c \<rparr>)
   }"

definition PropagateOnConv :: "ConvolutionVisitor \<Rightarrow> hid \<Rightarrow> ConvolutionVisitor option" where
  "PropagateOnConv s convolution_id = do {
     convolution \<leftarrow> instruction (computation s) convolution_id;
     activations_old \<leftarrow> at_index (operands convolution) 0;
     activations_new \<leftarrow> old_to_new_instrs s activations_old;
     let (permute_dims, s1) = permute_lookup s activations_new;
     let original_conv_dims = convolution_dimension_numbers convolution;
     old_space_dim \<leftarrow>
       at_index (input_spatial_dimensions original_conv_dims) (get_chosen_spatial_dim convolution);
     old_dims \<leftarrow> dims_of (computation s1) activations_old;
     old_split_dim_size \<leftarrow> at_index old_dims old_space_dim;
     activations_batch_dim \<leftarrow> DimLookUp permute_dims (input_batch_dimension original_conv_dims);
     activations_feature_dim \<leftarrow>
       DimLookUp permute_dims (input_feature_dimension original_conv_dims);
     spatial \<leftarrow> DimLookUp_all permute_dims (input_spatial_dimensions original_conv_dims);
     let permuted_conv_dims_numbers =
       original_conv_dims \<lparr> input_batch_dimension := activations_batch_dim,
                            input_feature_dimension := activations_feature_dim,
                            input_spatial_dimensions := spatial \<rparr>;
     let old_batch_dim = input_batch_dimension original_conv_dims;
     old_batch_size \<leftarrow> at_index old_dims old_batch_dim;
     c \<leftarrow> GetConvolutionDetails (computation s1) convolution permuted_conv_dims_numbers;
     (activations_new, permuted_conv_dims_numbers, spatial_dim_to_split, activations_batch_dim,
        g1) \<leftarrow>
       BringSpaceNextToBatch (computation s1) activations_new permuted_conv_dims_numbers
         (spatial_dimension_to_split c) activations_batch_dim;
     let c = c \<lparr> spatial_dimension_to_split := spatial_dim_to_split \<rparr>;
     act \<leftarrow> instruction g1 activations_new;
     let (select_val, g2) = CreateConstant g1 (ZeroLiteral (element_type (shape act)));
     (activations_new, g3) \<leftarrow>
       SelectValidPortion g2 activations_new activations_old select_val activations_batch_dim
         (spatial_dimension_to_split c) old_batch_dim old_space_dim;
     if old_batch_size = 0 then None
     else do {
       let num_splits = kNewBatchSize sdiv old_batch_size;
       output_spatial_dim \<leftarrow>
         at_index (output_spatial_dimensions permuted_conv_dims_numbers)
           (get_chosen_spatial_dim convolution);
       output_offsets \<leftarrow> at_index (dimensions (shape convolution)) output_spatial_dim;
       if num_splits = 0 \<or> base_dilation_factor c = 0 then None
       else do {
         let output_offsets_per_split = CeilOfRatio output_offsets num_splits;
         let spatial_split_size =
           CeilOfRatio output_offsets_per_split (base_dilation_factor c) * ConvDetails.stride c;
         spatial_split_size \<leftarrow>
           grow_split_size spatial_split_size num_splits (halo_size c - spatial_size c)
             (ConvDetails.stride c);
         (activations_new, g4) \<leftarrow>
           PropagateOnConv_activations g3 activations_new c activations_batch_dim
             old_batch_size old_split_dim_size spatial_split_size;
         let rank = length (dimensions (shape convolution));
         (transpose_dims, new_dim_numbers) \<leftarrow>
           output_layout permuted_conv_dims_numbers (get_chosen_spatial_dim convolution) rank;
         new_window \<leftarrow> conv_new_window convolution c;
         kernel \<leftarrow> at_index (operands convolution) 1;
         (new_conv, g5) \<leftarrow>
           MakeConvolveHlo g4 activations_new kernel (feature_group_count convolution)
             (batch_group_count convolution) new_window new_dim_numbers
             (element_type (shape convolution));
         output_space \<leftarrow>
           at_index (output_spatial_dimensions original_conv_dims)
             (get_chosen_spatial_dim convolution);
         Some (s1 \<lparr> computation := g5,
                    old_to_new_instrs := (old_to_new_instrs s1)(convolution_id \<mapsto> new_conv),
                    instr_to_dim_map :=
                      (instr_to_dim_map s1)
                        (convolution_id \<mapsto> (output_batch_dimension original_conv_dims, output_space)),
                    instr_to_dim_permute_map :=
                      (instr_to_dim_permute_map s1)(new_conv \<mapsto> transpose_dims),
                    convs_to_visit := convs_to_visit s1 - {convolution_id} \<rparr>)
       }
     }
   }"

section \<open>PropagateOnBackpropFilterConv\<close>

fun low_padding_chunks ::
  "graph \<Rightarrow> hid \<Rightarrow> hid list \<Rightarrow> int \<Rightarrow> int \<Rightarrow> int \<Rightarrow> int \<Rightarrow> nat \<Rightarrow> nat \<Rightarrow>
     (hid list \<times> graph) option" where
  \<comment> \<open>The loop \<open>for i < inherent_low_padding\<close>, with the number of iterations left and
      the index \<open>i\<close>.\<close>
  "low_padding_chunks g activations_new chunks space batch old_batch_size old_split_dim_size
     0 i = Some (chunks, g)"
| "low_padding_chunks g activations_new chunks space batch old_batch_size old_split_dim_size
     (Suc n) i = do {
     activations_to_use \<leftarrow>
       (if i = 0 then Some activations_new
        else if chunks = [] then None else Some (last chunks));
     (activations_slice, g1) \<leftarrow>
       HaloDuplicateWithSlice g activations_to_use space batch old_batch_size 1 0 0
         old_split_dim_size None;
     low_padding_chunks g1 activations_new (chunks @ [activations_slice]) space batch
       old_batch_size old_split_dim_size n (Suc i)
   }"

fun overlap_chunks ::
  "graph \<Rightarrow> hid \<Rightarrow> hid list \<Rightarrow> int \<Rightarrow> int \<Rightarrow> int \<Rightarrow> int \<Rightarrow> int \<Rightarrow> nat \<Rightarrow> nat \<Rightarrow>
     (hid list \<times> graph) option" where
  \<comment> \<open>The loop \<open>for i < overlap_count\<close>.\<close>
  "overlap_chunks g activations_new chunks space batch old_batch_size old_split_dim_size
     inherent_low_padding' 0 i = Some (chunks, g)"
| "overlap_chunks g activations_new chunks space batch old_batch_size old_split_dim_size
     inherent_low_padding' (Suc n) i = do {
     (activations_slice, g1) \<leftarrow>
       (if i = 0 then
          if inherent_low_padding' < 0
          then HaloDuplicateWithSlice g activations_new space batch old_batch_size
                 inherent_low_padding' 0 0 old_split_dim_size None
          else Some (activations_new, g)
        else if chunks = [] then None
        else HaloDuplicateWithSlice g (last chunks) space batch old_batch_size (- 1) 0 0
               old_split_dim_size None);
     overlap_chunks g1 activations_new (chunks @ [activations_slice]) space batch
       old_batch_size old_split_dim_size inherent_low_padding' n (Suc i)
   }"

fun high_padding_chunks ::
  "graph \<Rightarrow> hid list \<Rightarrow> int \<Rightarrow> int \<Rightarrow> int \<Rightarrow> int \<Rightarrow> nat \<Rightarrow> (hid list \<times> graph) option" where
  \<comment> \<open>The loop \<open>for i < inherent_high_padding\<close>.\<close>
  "high_padding_chunks g chunks space batch old_batch_size old_split_dim_size 0 =
     Some (chunks, g)"
| "high_padding_chunks g chunks space batch old_batch_size old_split_dim_size (Suc n) = do {
     activations_to_use \<leftarrow> (if chunks = [] then None else Some (last chunks));
     (activations_slice, g1) \<leftarrow>
       HaloDuplicateWithSlice g activations_to_use space batch old_batch_size (- 1) 0 0
         old_split_dim_size None;
     high_padding_chunks g1 (chunks @ [activations_slice]) space batch old_batch_size
       old_split_dim_size n
   }"

fun reshape_chunks :: "graph \<Rightarrow> hid list \<Rightarrow> (hid list \<times> graph) option" where
  \<comment> \<open>The loop that gives every chunk a last dimension of size 1.\<close>
  "reshape_chunks g [] = Some ([], g)"
| "reshape_chunks g (chunk # rest) = do {
     input_sizes \<leftarrow> dims_of g chunk;
     (reshaped, g1) \<leftarrow> MakeReshapeHlo g (input_sizes @ [1]) chunk;
     (others, g2) \<leftarrow> reshape_chunks g1 rest;
     Some (reshaped # others, g2)
   }"

definition erase_at :: "'a list \<Rightarrow> int \<Rightarrow> 'a list option" where
  \<comment> \<open>\<open>xs.erase(xs.begin() + i)\<close>\<close>
  "erase_at xs i =
     (if 0 \<le> i \<and> i < int (length xs) then Some (take (nat i) xs @ drop (Suc (nat i)) xs)
      else None)"

definition backprop_dim_numbers ::
  "ConvolutionDimensionNumbers \<Rightarrow> int list \<Rightarrow> int \<Rightarrow> int \<Rightarrow> ConvolutionDimensionNumbers option" where
  \<comment> \<open>\<open>permuted_conv_dims_numbers\<close> up to the call of BringSpaceNextToBatch, but for its
      input batch and feature dimensions.\<close>
  "backprop_dim_numbers original_conv_dims permute_dims chosen new_spatial_dimension = do {
     let previous_spatial_dim_count = int (length (input_spatial_dimensions original_conv_dims));
     input_spatial \<leftarrow> DimLookUp_all permute_dims (input_spatial_dimensions original_conv_dims);
     kernel_spatial \<leftarrow>
       DimLookUp_all permute_dims
         (take (length (input_spatial_dimensions original_conv_dims))
            (kernel_spatial_dimensions original_conv_dims));
     if length (kernel_spatial_dimensions original_conv_dims)
          < length (input_spatial_dimensions original_conv_dims)
     then None
     else do {
       let kernel_spatial =
         kernel_spatial @ drop (length (input_spatial_dimensions original_conv_dims))
                            (kernel_spatial_dimensions original_conv_dims);
       let output_spatial = output_spatial_dimensions original_conv_dims @ [new_spatial_dimension];
       previous_chosen_spatial_dim_in_output \<leftarrow> at_index output_spatial chosen;
       output_spatial \<leftarrow> set_index output_spatial chosen new_spatial_dimension;
       output_spatial \<leftarrow>
         set_index output_spatial previous_spatial_dim_count previous_chosen_spatial_dim_in_output;
       kernel_input_feature_dim \<leftarrow>
         DimLookUp permute_dims (kernel_input_feature_dimension original_conv_dims);
       kernel_output_feature_dim \<leftarrow>
         DimLookUp permute_dims (kernel_output_feature_dimension original_conv_dims);
       Some (original_conv_dims
               \<lparr> input_spatial_dimensions := input_spatial @ [new_spatial_dimension],
                 kernel_spatial_dimensions := kernel_spatial @ [new_spatial_dimension],
                 output_spatial_dimensions := output_spatial,
                 kernel_input_feature_dimension := kernel_input_feature_dim,
                 kernel_output_feature_dimension := kernel_output_feature_dim \<rparr>)
     }
   }"

definition backprop_new_window :: "HloInstruction \<Rightarrow> int \<Rightarrow> WindowDimension list option" where
  "backprop_new_window convolution new_split_dim_size = do {
     wd \<leftarrow> at_index (window convolution) (get_chosen_spatial_dim convolution);
     let rhs_dilation = window_dilation wd;
     if rhs_dilation = 0 then None
     else do {
       new_window \<leftarrow>
         set_index (window convolution) (get_chosen_spatial_dim convolution)
           (wd \<lparr> padding_high := - (rhs_dilation - 1), padding_low := 0,
                 size_w := new_split_dim_size sdiv rhs_dilation \<rparr>);
       Some (new_window @
               [\<lparr> size_w = 1, stride = 1, padding_low = 0, padding_high = 0,
                  window_dilation = 1, base_dilation = 1, window_reversal = False \<rparr>])
     }
   }"

definition PropagateOnBackpropFilterConv ::
  "ConvolutionVisitor \<Rightarrow> hid \<Rightarrow> ConvolutionVisitor option" where
  "PropagateOnBackpropFilterConv s convolution_id = do {
     convolution \<leftarrow> instruction (computation s) convolution_id;
     activations_old \<leftarrow> at_index (operands convolution) 0;
     activations_new \<leftarrow> old_to_new_instrs s activations_old;
     act_new_dims \<leftarrow> dims_of (computation s) activations_new;
     let new_spatial_dimension = int (length act_new_dims);
     kernel_old \<leftarrow> at_index (operands convolution) 1;
     kernel_new \<leftarrow> old_to_new_instrs s kernel_old;
     let (permute_dims, s1) = permute_lookup s activations_new;
     let original_conv_dims = convolution_dimension_numbers convolution;
     let chosen = get_chosen_spatial_dim convolution;
     old_space_dim \<leftarrow> at_index (input_spatial_dimensions original_conv_dims) chosen;
     act_old_dims \<leftarrow> dims_of (computation s1) activations_old;
     old_split_dim_size \<leftarrow> at_index act_old_dims old_space_dim;
     old_kernel_space_dim \<leftarrow> at_index (kernel_spatial_dimensions original_conv_dims) chosen;
     kernel_old_dims \<leftarrow> dims_of (computation s1) kernel_old;
     old_kernel_split_dim_size \<leftarrow> at_index kernel_old_dims old_kernel_space_dim;
     activations_batch_dim \<leftarrow>
       DimLookUp permute_dims (input_feature_dimension original_conv_dims);
     activations_feature_dim \<leftarrow>
       DimLookUp permute_dims (input_batch_dimension original_conv_dims);
     permuted_conv_dims_numbers \<leftarrow>
       backprop_dim_numbers original_conv_dims permute_dims chosen new_spatial_dimension;
     let kernel_input_feature_dim = kernel_input_feature_dimension permuted_conv_dims_numbers;
     spatial_dim_to_split \<leftarrow>
       at_index (input_spatial_dimensions permuted_conv_dims_numbers) chosen;
     kernel_spatial_dimension_to_split \<leftarrow>
       at_index (kernel_spatial_dimensions permuted_conv_dims_numbers) chosen;
     let old_batch_dim = input_feature_dimension original_conv_dims;
     old_batch_size \<leftarrow> at_index act_old_dims old_batch_dim;
     new_split_dim_size \<leftarrow> at_index act_new_dims spatial_dim_to_split;
     let permuted_conv_dims_numbers =
       permuted_conv_dims_numbers \<lparr> input_batch_dimension := activations_feature_dim,
                                    input_feature_dimension := activations_batch_dim \<rparr>;
     (activations_new, permuted_conv_dims_numbers, spatial_dim_to_split, activations_batch_dim,
        g1) \<leftarrow>
       BringSpaceNextToBatch (computation s1) activations_new permuted_conv_dims_numbers
         spatial_dim_to_split activations_batch_dim;
     let permuted_conv_dims_numbers =
       permuted_conv_dims_numbers \<lparr> input_batch_dimension := activations_feature_dim \<rparr>;
     act \<leftarrow> instruction g1 activations_new;
     let (select_val, g2) = CreateConstant g1 (ZeroLiteral (element_type (shape act)));
     (activations_new, g3) \<leftarrow>
       SelectValidPortion g2 activations_new activations_old select_val activations_batch_dim
         spatial_dim_to_split old_batch_dim old_space_dim;
     (kernel_new, g4) \<leftarrow>
       SelectValidPortion g3 kernel_new kernel_old select_val kernel_input_feature_dim
         kernel_spatial_dimension_to_split (kernel_input_feature_dimension original_conv_dims)
         old_kernel_space_dim;
     let new_dim_numbers = permuted_conv_dims_numbers;
     wd \<leftarrow> at_index (window convolution) chosen;
     let inherent_low_padding' = padding_low wd;
     let inherent_high_padding' = padding_high wd;
     let rhs_dilation = window_dilation wd;
     (activations_chunks, g5) \<leftarrow>
       low_padding_chunks g4 activations_new [] spatial_dim_to_split activations_batch_dim
         old_batch_size old_split_dim_size (nat inherent_low_padding') 0;
     let expanded_kernel = old_kernel_split_dim_size * rhs_dilation - (rhs_dilation - 1);
     let overlap_count =
       old_split_dim_size - expanded_kernel + 1
         + (if inherent_low_padding' < 0 then inherent_low_padding' else 0)
         + (if inherent_high_padding' < 0 then inherent_high_padding' else 0);
     (activations_chunks, g6) \<leftarrow>
       overlap_chunks g5 activations_new activations_chunks spatial_dim_to_split
         activations_batch_dim old_batch_size old_split_dim_size inherent_low_padding'
         (nat overlap_count) 0;
     (activations_chunks, g7) \<leftarrow>
       high_padding_chunks g6 activations_chunks spatial_dim_to_split activations_batch_dim
         old_batch_size old_split_dim_size (nat inherent_high_padding');
     (activations_chunks, g8) \<leftarrow> reshape_chunks g7 activations_chunks;
     (activations_new, g9) \<leftarrow> MakeConcatHlo g8 activations_chunks new_spatial_dimension;
     kernel_sizes \<leftarrow> dims_of g9 kernel_new;
     (kernel_new, g10) \<leftarrow> MakeReshapeHlo g9 (kernel_sizes @ [1]) kernel_new;
     new_window \<leftarrow> backprop_new_window convolution new_split_dim_size;
     (new_conv, g11) \<leftarrow>
       MakeConvolveHlo g10 activations_new kernel_new (feature_group_count convolution)
         (batch_group_count convolution) new_window new_dim_numbers
         (element_type (shape convolution));
     output_sizes \<leftarrow> dims_of g11 new_conv;
     erased \<leftarrow> at_index (output_spatial_dimensions new_dim_numbers) chosen;
     output_sizes \<leftarrow> erase_at output_sizes erased;
     (new_conv, g12) \<leftarrow> MakeReshapeHlo g11 output_sizes new_conv;
     output_space \<leftarrow> at_index (output_spatial_dimensions original_conv_dims) chosen;
     Some (s1 \<lparr> computation := g12,
                old_to_new_instrs := (old_to_new_instrs s1)(convolution_id \<mapsto> new_conv),
                instr_to_dim_map :=
                  (instr_to_dim_map s1)
                    (convolution_id \<mapsto> (output_batch_dimension original_conv_dims, output_space)) \<rparr>)
   }"

section \<open>Propagate: the dispatch on the consumer\<close>

definition Propagate ::
  "ConvolutionVisitor \<Rightarrow> hid \<Rightarrow> hid \<Rightarrow> (bool \<times> ConvolutionVisitor) option" where
  \<comment> \<open>The last case is the \<open>LOG(FATAL)\<close> for an unsupported consumer.\<close>
  "Propagate s consumer_id producer = do {
     consumer \<leftarrow> instruction (computation s) consumer_id;
     if IsTrivialElementwise consumer then Propagate_elementwise s consumer_id consumer producer
     else if opcode consumer = kConvolution then do {
       suitable \<leftarrow>
         IsConvSuitableForSpaceToBatch (computation s) (limit_on_batch_size s) consumer;
       if suitable then do { s' \<leftarrow> PropagateOnConv s consumer_id; Some (True, s') }
       else do { s' \<leftarrow> PropagateOnBackpropFilterConv s consumer_id; Some (False, s') }
     }
     else if opcode consumer = kReduce then Propagate_reduce s consumer_id consumer
     else if opcode consumer = kReduceWindow \<or> opcode consumer = kSelectAndScatter
     then Propagate_window_op s consumer_id consumer
     else None
   }"

section \<open>The readiness conditions in the words of the specification\<close>

definition rewritten_space_extent ::
  "ConvolutionVisitor \<Rightarrow> hid \<Rightarrow> int \<Rightarrow> int option" where
  \<comment> \<open>The extent of the rewritten instruction \<open>n\<close> on the axis the old axis maps to.\<close>
  "rewritten_space_extent s n old_dim = do {
     perm \<leftarrow> instr_to_dim_permute_map s n;
     new_dim \<leftarrow> DimLookUp perm old_dim;
     ds \<leftarrow> dims_of (computation s) n;
     at_index ds new_dim
   }"

definition readiness_as_specified :: "ConvolutionVisitor \<Rightarrow> hid \<Rightarrow> bool" where
  \<comment> \<open>Section 4.5 for a reduce-window or select-and-scatter consumer: operand 0 rewritten
      and tracked, window of size 1 on the batch axis, zero low padding and bounded high
      padding on the space axis, and a stride dividing the rewritten operand's space
      extent evenly; for a select-and-scatter also an add scatter body, equal operand
      permutations and batch extents, and (space extent + pads) / stride equal to operand
      1's space extent.\<close>
  "readiness_as_specified s consumer =
     (case instruction (computation s) consumer of
        None \<Rightarrow> False
      | Some c \<Rightarrow>
         (case at_index (operands c) 0 of
            None \<Rightarrow> False
          | Some op0 \<Rightarrow>
             (case (instr_to_dim_map s op0, old_to_new_instrs s op0) of
                (Some (ob, os), Some n) \<Rightarrow>
                  (case (at_index (window c) ob, at_index (window c) os,
                         rewritten_space_extent s n os) of
                     (Some wb, Some ws, Some extent) \<Rightarrow>
                        size_w wb = 1 \<and> padding_low ws = 0 \<and>
                        padding_high ws \<le> size_w ws \<and>
                        stride ws dvd extent \<and>
                        (opcode c = kSelectAndScatter \<longrightarrow>
                           scatter_is_add c \<and>
                           (case at_index (operands c) 1 \<bind> old_to_new_instrs s of
                              None \<Rightarrow> False
                            | Some n1 \<Rightarrow>
                                instr_to_dim_permute_map s n1 = instr_to_dim_permute_map s n \<and>
                                rewritten_space_extent s n1 ob = rewritten_space_extent s n ob \<and>
                                rewritten_space_extent s n1 os =
                                  Some ((extent + padding_high ws + padding_low ws)
                                          div stride ws)))
                   | _ \<Rightarrow> False)
              | _ \<Rightarrow> False)))"

section \<open>PropagateOnUsers: the users of a rewritten node\<close>

text \<open>
  The body of the loop over \<open>node->users()\<close> in PropagateOnUsers, for one user. The
  worklist is a list of (node, parent) pairs, pushed at the end and popped at the front.
\<close>

type_synonym worklist = "(hid \<times> hid) list"

fun replace_uses :: "graph \<Rightarrow> hid \<Rightarrow> hid \<Rightarrow> hid \<Rightarrow> nat list \<Rightarrow> graph option" where
  \<comment> \<open>The loop over the operand slots \<open>i\<close> of the user: a slot that holds the node is
      replaced by the inverse conversion.\<close>
  "replace_uses g user node batch_to_space [] = Some g"
| "replace_uses g user node batch_to_space (i # rest) = do {
     u \<leftarrow> instruction g user;
     k \<leftarrow> at_index (operands u) (int i);
     if k = node then do {
       g' \<leftarrow> ReplaceOperandWith g user (int i) batch_to_space;
       replace_uses g' user node batch_to_space rest
     }
     else replace_uses g user node batch_to_space rest
   }"

definition PropagateOnUsers_user ::
  "ConvolutionVisitor \<Rightarrow> worklist \<Rightarrow> hid \<Rightarrow> hid \<Rightarrow> (ConvolutionVisitor \<times> worklist) option" where
  "PropagateOnUsers_user s propagation_worklist node user = do {
     (supported, s1) \<leftarrow> SupportedOpForPropagation s user node;
     if \<not> supported then do {
       (batch_to_space, s2) \<leftarrow> BatchToSpace s1 node;
       u \<leftarrow> instruction (computation s2) user;
       g' \<leftarrow> replace_uses (computation s2) user node batch_to_space
               [0 ..< length (operands u)];
       Some (s2 \<lparr> computation := g' \<rparr>, propagation_worklist)
     }
     else do {
       (ready, s2) \<leftarrow> CanPropagate s1 user node;
       if ready
       then Some (s2 \<lparr> non_propagatable_instrs := non_propagatable_instrs s2 - {user} \<rparr>,
                  propagation_worklist @ [(user, node)])
       else Some (s2 \<lparr> non_propagatable_instrs := insert user (non_propagatable_instrs s2) \<rparr>,
                  propagation_worklist)
     }
   }"

fun PropagateOnUsers_users ::
  "ConvolutionVisitor \<Rightarrow> worklist \<Rightarrow> hid \<Rightarrow> hid list \<Rightarrow> (ConvolutionVisitor \<times> worklist) option" where
  \<comment> \<open>The loop over the users of the node, as they are when the loop starts.\<close>
  "PropagateOnUsers_users s propagation_worklist node [] = Some (s, propagation_worklist)"
| "PropagateOnUsers_users s propagation_worklist node (user # rest) = do {
     (s', wl') \<leftarrow> PropagateOnUsers_user s propagation_worklist node user;
     PropagateOnUsers_users s' wl' node rest
   }"

section \<open>PropagateOnUsers\<close>

text \<open>
  Modelled from the spec: \<open>ReplaceInstruction\<close> is the host's replacement of an entire
  instruction (section 6): every use of the old instruction becomes a use of the new one,
  and the root of the computation follows.
\<close>

definition ReplaceInstruction :: "ConvolutionVisitor \<Rightarrow> hid \<Rightarrow> hid \<Rightarrow> ConvolutionVisitor option" where
  "ReplaceInstruction s old_instruction new_instruction = do {
     _ \<leftarrow> instruction (computation s) old_instruction;
     _ \<leftarrow> instruction (computation s) new_instruction;
     Some (s \<lparr> computation := ReplaceAllUsesWith (computation s) old_instruction new_instruction,
               root_instruction :=
                 (if root_instruction s = old_instruction then new_instruction
                  else root_instruction s) \<rparr>)
   }"

text \<open>
  One iteration of the worklist loop, for the pair that was popped and the rest of the
  worklist: the state, the worklist and the iteration count at the end of the iteration.
  A \<open>continue\<close> of the C++ is a return of this function.
\<close>

definition PropagateOnUsers_iteration ::
  "ConvolutionVisitor \<Rightarrow> hid \<Rightarrow> hid \<Rightarrow> worklist \<Rightarrow> int \<Rightarrow>
     (ConvolutionVisitor \<times> worklist \<times> int) option" where
  "PropagateOnUsers_iteration s node parent propagation_worklist iteration_count =
     (if old_to_new_instrs s node \<noteq> None \<and> iteration_count \<noteq> 0
      then Some (s, propagation_worklist, iteration_count)
      else do {
        (needs_further_propagation, s1) \<leftarrow>
          (if iteration_count \<noteq> 0 then Propagate s node parent else Some (True, s));
        let iteration_count = iteration_count + 1;
        if root_instruction s1 = node then
          if \<not> needs_further_propagation then do {
            new_node \<leftarrow> old_to_new_instrs s1 node;
            s2 \<leftarrow> ReplaceInstruction s1 node new_node;
            Some (s2, propagation_worklist, iteration_count)
          }
          else do {
            (batch_to_space, s2) \<leftarrow> BatchToSpace s1 node;
            s3 \<leftarrow> ReplaceInstruction s2 node batch_to_space;
            Some (s3, propagation_worklist, iteration_count)
          }
        else if \<not> needs_further_propagation then do {
          new_node \<leftarrow> old_to_new_instrs s1 node;
          s2 \<leftarrow> ReplaceInstruction s1 node new_node;
          Some (s2, propagation_worklist, iteration_count)
        }
        else do {
          (s2, wl) \<leftarrow>
            PropagateOnUsers_users s1 propagation_worklist node (users (computation s1) node);
          Some (s2, wl, iteration_count)
        }
      })"

text \<open>
  The worklist loop runs on fuel, one unit for each iteration: \<open>OutOfFuel\<close> says that the
  loop was still running when the fuel ended, \<open>Stopped None\<close> that an iteration did not
  return (a fatal error), \<open>Stopped (Some s)\<close> that the loop ended in state \<open>s\<close>.
\<close>

datatype 'a outcome = OutOfFuel | Stopped "'a option"

fun PropagateOnUsers_loop ::
  "nat \<Rightarrow> ConvolutionVisitor \<Rightarrow> worklist \<Rightarrow> int \<Rightarrow> ConvolutionVisitor outcome" where
  "PropagateOnUsers_loop fuel s [] iteration_count = Stopped (Some s)"
| "PropagateOnUsers_loop 0 s ((node, parent) # propagation_worklist) iteration_count = OutOfFuel"
| "PropagateOnUsers_loop (Suc fuel) s ((node, parent) # propagation_worklist) iteration_count =
     (case PropagateOnUsers_iteration s node parent propagation_worklist iteration_count of
        None \<Rightarrow> Stopped None
      | Some (s', wl, iteration_count') \<Rightarrow> PropagateOnUsers_loop fuel s' wl iteration_count')"

definition PropagateOnUsers ::
  "nat \<Rightarrow> ConvolutionVisitor \<Rightarrow> hid \<Rightarrow> ConvolutionVisitor outcome" where
  "PropagateOnUsers fuel s old_conv =
     (if users (computation s) old_conv = [] then
        Stopped (do {
          (batch_to_space, s1) \<leftarrow> BatchToSpace s old_conv;
          ReplaceInstruction s1 old_conv batch_to_space
        })
      else
        (case instruction (computation s) old_conv \<bind> (\<lambda>c. at_index (operands c) 0) of
           None \<Rightarrow> Stopped None
         | Some parent \<Rightarrow> PropagateOnUsers_loop fuel s [(old_conv, parent)] 0))"

section \<open>PerformSpaceToBatchOnConvolution\<close>

definition kReduceWindowSearchDepth :: nat where
  "kReduceWindowSearchDepth = 10"

fun search_reduce_window :: "graph \<Rightarrow> nat \<Rightarrow> hid list \<Rightarrow> hid option" where
  \<comment> \<open>DoesConvolutionFeedReduceWindow at a depth, over the users of the instruction that
      are still to be looked at.\<close>
  "search_reduce_window g 0 us = None"
| "search_reduce_window g (Suc depth) [] = None"
| "search_reduce_window g (Suc depth) (user # rest) =
     (if opcode (g ! user) = kReduceWindow then Some user
      else if opcode (g ! user) = kConvolution \<or> opcode (g ! user) = kPad \<or>
              opcode (g ! user) = kTranspose
      then search_reduce_window g (Suc depth) rest
      else (case search_reduce_window g depth (users g user) of
              Some r \<Rightarrow> Some r
            | None \<Rightarrow> search_reduce_window g (Suc depth) rest))"

definition DoesConvolutionFeedReduceWindow :: "graph \<Rightarrow> hid \<Rightarrow> hid option" where
  "DoesConvolutionFeedReduceWindow g instr =
     search_reduce_window g kReduceWindowSearchDepth (users g instr)"

partial_function (option) align_split_size :: "int \<Rightarrow> int \<Rightarrow> int \<Rightarrow> int option" where
  \<comment> \<open>\<open>while ((spatial_split_size / stride) % red_win_stride != 0)
      spatial_split_size += stride\<close>; no value where the loop does not end or divides by
      zero.\<close>
  "align_split_size spatial_split_size stride' red_win_stride =
     (if stride' = 0 \<or> red_win_stride = 0 then None
      else if (spatial_split_size sdiv stride') smod red_win_stride \<noteq> 0
      then align_split_size (spatial_split_size + stride') stride' red_win_stride
      else Some spatial_split_size)"

declare align_split_size.simps [code]

definition PerformSpaceToBatchOnConvolution_rewrite ::
  "ConvolutionVisitor \<Rightarrow> hid \<Rightarrow> ConvolutionVisitor option" where
  \<comment> \<open>PerformSpaceToBatchOnConvolution up to its call of PropagateOnUsers.\<close>
  "PerformSpaceToBatchOnConvolution_rewrite s0 convolution_id = do {
     let s = s0 \<lparr> changed := False \<rparr>;
     convolution \<leftarrow> instruction (computation s) convolution_id;
     let dim_numbers = convolution_dimension_numbers convolution;
     c \<leftarrow> GetConvolutionDetails (computation s) convolution dim_numbers;
     let activations_batch_dim = input_batch_dimension dim_numbers;
     activations \<leftarrow> at_index (operands convolution) 0;
     act_dims \<leftarrow> dims_of (computation s) activations;
     old_batch_size \<leftarrow> at_index act_dims activations_batch_dim;
     let inherent_padding_needed =
       (inherent_low_padding c \<noteq> 0 \<or> inherent_high_padding c \<noteq> 0);
     if old_batch_size = 0 then None
     else do {
       let num_splits = kNewBatchSize sdiv old_batch_size;
       (activations, dim_numbers, spatial_dim_to_split, activations_batch_dim, g1) \<leftarrow>
         BringSpaceNextToBatch (computation s) activations dim_numbers
           (spatial_dimension_to_split c) activations_batch_dim;
       let c = c \<lparr> spatial_dimension_to_split := spatial_dim_to_split \<rparr>;
       let chosen = get_chosen_spatial_dim convolution;
       output_spatial_dim \<leftarrow> at_index (output_spatial_dimensions dim_numbers) chosen;
       output_offsets \<leftarrow> at_index (dimensions (shape convolution)) output_spatial_dim;
       if num_splits = 0 \<or> base_dilation_factor c = 0 then None
       else do {
         let output_offsets_per_split = CeilOfRatio output_offsets num_splits;
         let spatial_split_size =
           CeilOfRatio output_offsets_per_split (base_dilation_factor c) * ConvDetails.stride c;
         spatial_split_size \<leftarrow>
           grow_split_size spatial_split_size num_splits (- spatial_size c) (ConvDetails.stride c);
         spatial_split_size \<leftarrow>
           (case DoesConvolutionFeedReduceWindow g1 convolution_id of
              Some reduce_window \<Rightarrow> do {
                rw \<leftarrow> instruction g1 reduce_window;
                wd \<leftarrow> at_index (window rw) output_spatial_dim;
                align_split_size spatial_split_size (ConvDetails.stride c) (stride wd)
              }
            | None \<Rightarrow> Some spatial_split_size);
         let slice_size = spatial_split_size + halo_size c;
         let pad_size = spatial_split_size * num_splits - spatial_size c;
         (activations, g2) \<leftarrow>
           (if pad_size \<noteq> 0 \<or> inherent_padding_needed then do {
              act \<leftarrow> instruction g1 activations;
              let padding_config = MakeNoPaddingConfig (int (length (dimensions (shape act))));
              padding_config \<leftarrow>
                set_index padding_config (spatial_dimension_to_split c)
                  (if base_dilation_factor c = 1 then inherent_low_padding c else 0,
                   inherent_high_padding c + pad_size);
              let (padding, g) = CreateConstant g1 (ZeroLiteral (element_type (shape act)));
              MakePadHlo g activations padding padding_config
            }
            else Some (activations, g1));
         reshape_dimensions \<leftarrow> dims_of g2 activations;
         reshape_dimensions \<leftarrow>
           set_index reshape_dimensions (spatial_dimension_to_split c) spatial_split_size;
         reshape_dimensions \<leftarrow>
           set_index reshape_dimensions activations_batch_dim (num_splits * old_batch_size);
         (batch_increased_reshape, g3) \<leftarrow> MakeReshapeHlo g2 reshape_dimensions activations;
         (activations, g4) \<leftarrow>
           HaloDuplicateWithSlice g3 batch_increased_reshape (spatial_dimension_to_split c)
             activations_batch_dim old_batch_size 0 0 (halo_size c) (input_dim_size c) None;
         let rank = length (dimensions (shape convolution));
         (transpose_dims, new_dim_numbers) \<leftarrow> output_layout dim_numbers chosen rank;
         new_window \<leftarrow> conv_new_window convolution c;
         kernel \<leftarrow> at_index (operands convolution) 1;
         (new_conv, g5) \<leftarrow>
           MakeConvolveHlo g4 activations kernel (feature_group_count convolution)
             (batch_group_count convolution) new_window new_dim_numbers
             (element_type (shape convolution));
         output_split_spatial_dim \<leftarrow>
           at_index (output_spatial_dimensions new_dim_numbers) chosen;
         let output_batch_dim = output_batch_dimension new_dim_numbers;
         nc \<leftarrow> instruction g5 new_conv;
         let (select_val, g6) = CreateConstant g5 (ZeroLiteral (element_type (shape nc)));
         (new_conv, g7) \<leftarrow>
           SelectValidPortion g6 new_conv convolution_id select_val output_batch_dim
             output_split_spatial_dim (output_batch_dimension dim_numbers) output_spatial_dim;
         Some (s \<lparr> computation := g7,
                   old_to_new_instrs := (old_to_new_instrs s)(convolution_id \<mapsto> new_conv),
                   instr_to_dim_map :=
                     (instr_to_dim_map s)
                       (convolution_id \<mapsto> (output_batch_dimension dim_numbers, output_spatial_dim)),
                   instr_to_dim_permute_map :=
                     (instr_to_dim_permute_map s)(new_conv \<mapsto> transpose_dims) \<rparr>)
       }
     }
   }"

definition PerformSpaceToBatchOnConvolution ::
  "nat \<Rightarrow> ConvolutionVisitor \<Rightarrow> hid \<Rightarrow> ConvolutionVisitor outcome" where
  "PerformSpaceToBatchOnConvolution fuel s convolution_id =
     (case PerformSpaceToBatchOnConvolution_rewrite s convolution_id of
        None \<Rightarrow> Stopped None
      | Some s1 \<Rightarrow>
          (case PropagateOnUsers fuel s1 convolution_id of
             OutOfFuel \<Rightarrow> OutOfFuel
           | Stopped None \<Rightarrow> Stopped None
           | Stopped (Some s2) \<Rightarrow> Stopped (Some (s2 \<lparr> changed := True \<rparr>))))"

section \<open>Run\<close>

fun Run_convs :: "nat \<Rightarrow> ConvolutionVisitor \<Rightarrow> hid list \<Rightarrow> ConvolutionVisitor outcome" where
  \<comment> \<open>The loop over \<open>conv_visitor_list_\<close>; every convolution has the fuel for its own
      worklist loop.\<close>
  "Run_convs fuel s [] = Stopped (Some s)"
| "Run_convs fuel s (conv # rest) =
     (if conv \<in> convs_to_visit s then
        (case PerformSpaceToBatchOnConvolution fuel s conv of
           OutOfFuel \<Rightarrow> OutOfFuel
         | Stopped None \<Rightarrow> Stopped None
         | Stopped (Some s') \<Rightarrow> Run_convs fuel s' rest)
      else Run_convs fuel s rest)"

fun Run_operand_map ::
  "ConvolutionVisitor \<Rightarrow> hid list \<Rightarrow> nat \<Rightarrow> ((int \<times> hid) list \<times> ConvolutionVisitor) option" where
  \<comment> \<open>The loop over the operands \<open>i\<close> of a non-propagatable instruction: the inverse
      conversion of every rewritten operand.\<close>
  "Run_operand_map s [] i = Some ([], s)"
| "Run_operand_map s (op # rest) i =
     (if old_to_new_instrs s op \<noteq> None then do {
        (batch_to_space, s1) \<leftarrow> BatchToSpace s op;
        (entries, s2) \<leftarrow> Run_operand_map s1 rest (Suc i);
        Some ((int i, batch_to_space) # entries, s2)
      }
      else Run_operand_map s rest (Suc i))"

fun Run_replace :: "graph \<Rightarrow> hid \<Rightarrow> (int \<times> hid) list \<Rightarrow> graph option" where
  "Run_replace g instr [] = Some g"
| "Run_replace g instr ((i, batch_to_space) # rest) = do {
     g' \<leftarrow> ReplaceOperandWith g instr i batch_to_space;
     Run_replace g' instr rest
   }"

fun Run_non_propagatable :: "ConvolutionVisitor \<Rightarrow> hid list \<Rightarrow> ConvolutionVisitor option" where
  \<comment> \<open>The loop over \<open>non_propagatable_instrs_\<close>.\<close>
  "Run_non_propagatable s [] = Some s"
| "Run_non_propagatable s (instr # rest) = do {
     i \<leftarrow> instruction (computation s) instr;
     (operand_map, s1) \<leftarrow> Run_operand_map s (operands i) 0;
     g' \<leftarrow> Run_replace (computation s1) instr operand_map;
     Run_non_propagatable (s1 \<lparr> computation := g' \<rparr>) rest
   }"

text \<open>
  \<open>conv_visitor_list_\<close>, which only Run reads, is its argument. The C++ iterates over
  the hash set \<open>non_propagatable_instrs_\<close> and over the hash map \<open>operand_map\<close> in an
  order it does not specify; the model takes the instructions by increasing handle and
  the operands by increasing index.
\<close>

definition Run ::
  "nat \<Rightarrow> ConvolutionVisitor \<Rightarrow> hid list \<Rightarrow> (bool \<times> ConvolutionVisitor) outcome" where
  "Run fuel s conv_visitor_list =
     (case Run_convs fuel s conv_visitor_list of
        OutOfFuel \<Rightarrow> OutOfFuel
      | Stopped None \<Rightarrow> Stopped None
      | Stopped (Some s1) \<Rightarrow>
          Stopped (do {
            s2 \<leftarrow> Run_non_propagatable (s1 \<lparr> convs_to_visit := {} \<rparr>)
                    (sorted_list_of_set (non_propagatable_instrs s1));
            Some (changed s2, s2 \<lparr> non_propagatable_instrs := {} \<rparr>)
          }))"

section \<open>The visitor of a computation\<close>

text \<open>
  The constructor walks the computation in a post order and queues every convolution
  that passes the legality check. A graph lists its instructions in the order of their
  creation, operands before users, which is a post order; the model walks it by
  increasing handle. The root of the computation is an argument.
\<close>

fun suitable_convolutions :: "graph \<Rightarrow> int \<Rightarrow> hid list \<Rightarrow> hid list option" where
  "suitable_convolutions g limit [] = Some []"
| "suitable_convolutions g limit (inst # rest) = do {
     i \<leftarrow> instruction g inst;
     if opcode i \<noteq> kConvolution then suitable_convolutions g limit rest
     else do {
       suitable \<leftarrow> IsConvSuitableForSpaceToBatch g limit i;
       convs \<leftarrow> suitable_convolutions g limit rest;
       Some (if suitable then inst # convs else convs)
     }
   }"

definition NewConvolutionVisitor ::
  "int \<Rightarrow> graph \<Rightarrow> hid \<Rightarrow> (ConvolutionVisitor \<times> hid list) option" where
  \<comment> \<open>The visitor and its \<open>conv_visitor_list_\<close>.\<close>
  "NewConvolutionVisitor limit g root = do {
     convs \<leftarrow> suitable_convolutions g limit [0 ..< length g];
     Some (\<lparr> computation = g, root_instruction = root,
             old_to_new_instrs = Map.empty,
             instr_to_dim_map = Map.empty,
             instr_to_dim_permute_map = Map.empty,
             batch_to_space_map = Map.empty,
             non_propagatable_instrs = {},
             convs_to_visit = set convs,
             changed = False,
             limit_on_batch_size = limit \<rparr>, convs)
   }"

definition RunOnComputation :: "nat \<Rightarrow> int \<Rightarrow> graph \<Rightarrow> hid \<Rightarrow> (bool \<times> ConvolutionVisitor) outcome" where
  \<comment> \<open>One turn of the loop of ConvolutionSpaceToBatchConverter::Run: a visitor of the
      computation is built and run.\<close>
  "RunOnComputation fuel limit g root =
     (case NewConvolutionVisitor limit g root of
        None \<Rightarrow> Stopped None
      | Some (visitor, conv_visitor_list) \<Rightarrow> Run fuel visitor conv_visitor_list)"

section \<open>Example graphs\<close>

text \<open>
  A one-dimensional convolution in the layout (batch, space, feature): activations
  \<open>[2, 16, 3]\<close>, kernel \<open>[3, 3, 4]\<close> in the layout (space, input feature, output
  feature), stride 1, no padding, output \<open>[2, 14, 4]\<close>.
\<close>

definition dnums_1d :: ConvolutionDimensionNumbers where
  "dnums_1d =
     \<lparr> input_batch_dimension = 0, input_feature_dimension = 2,
       input_spatial_dimensions = [1],
       kernel_input_feature_dimension = 1, kernel_output_feature_dimension = 2,
       kernel_spatial_dimensions = [0],
       output_batch_dimension = 0, output_feature_dimension = 2,
       output_spatial_dimensions = [1] \<rparr>"

definition plain_instruction :: "HloOpcode \<Rightarrow> hid list \<Rightarrow> int list \<Rightarrow> HloInstruction" where
  "plain_instruction opc ops dims =
     CreateInstruction opc ops \<lparr> element_type = F32, dimensions = dims \<rparr>"

definition window_1d :: "int \<Rightarrow> int \<Rightarrow> int \<Rightarrow> int \<Rightarrow> int \<Rightarrow> WindowDimension" where
  "window_1d sz st lo hi bd =
     \<lparr> size_w = sz, stride = st, padding_low = lo, padding_high = hi,
       window_dilation = 1, base_dilation = bd, window_reversal = False \<rparr>"

definition conv_a :: HloInstruction where
  "conv_a = (plain_instruction kConvolution [0, 1] [2, 14, 4])
              \<lparr> window := [window_1d 3 1 0 0 1],
                convolution_dimension_numbers := dnums_1d \<rparr>"

definition graph_a :: graph where
  "graph_a = [plain_instruction kParameter [] [2, 16, 3],
              plain_instruction kParameter [] [3, 3, 4],
              conv_a]"

text \<open>
  The same operands under a base dilation of 2: stride 1, low padding 1 and high padding
  1, output \<open>[2, 31, 4]\<close>.
\<close>

definition conv_d :: HloInstruction where
  "conv_d = (plain_instruction kConvolution [0, 1] [2, 31, 4])
              \<lparr> window := [window_1d 3 1 1 1 2],
                convolution_dimension_numbers := dnums_1d \<rparr>"

definition graph_d :: graph where
  "graph_d = [plain_instruction kParameter [] [2, 16, 3],
              plain_instruction kParameter [] [3, 3, 4],
              conv_d]"

text \<open>
  The output of the convolution of \<open>graph_a\<close> before and after the rewrite: the original
  \<open>[2, 14, 4]\<close>, the rewritten \<open>[8, 4, 4]\<close> (4 splits of extent 4 per batch row), and a
  scalar zero.
\<close>

definition graph_c :: graph where
  "graph_c = [plain_instruction kParameter [] [2, 14, 4],
              plain_instruction kParameter [] [8, 4, 4],
              plain_instruction kConstant [] []]"

text \<open>
  A rewritten value feeding a reduce-window: instruction 0 is the original value
  \<open>[2, 16, 4]\<close> with batch axis 0 and space axis 1, instruction 1 its rewritten form
  \<open>[8, 4, 4]\<close>, instruction 2 the initial value, and instruction 3 the reduce-window
  over instruction 0 with the given window on the space axis.
\<close>

definition unit_window :: WindowDimension where
  "unit_window = window_1d 1 1 0 0 1"

definition reduce_window_graph :: "int list \<Rightarrow> int list \<Rightarrow> WindowDimension \<Rightarrow> int list \<Rightarrow> graph" where
  "reduce_window_graph old_dims new_dims space_window out_dims =
     [plain_instruction kParameter [] old_dims,
      plain_instruction kParameter [] new_dims,
      plain_instruction kConstant [] [],
      (plain_instruction kReduceWindow [0, 2] out_dims)
        \<lparr> window := [unit_window, space_window, unit_window] \<rparr>]"

definition rewritten_visitor :: "graph \<Rightarrow> ConvolutionVisitor" where
  \<comment> \<open>Instruction 0 rewritten to instruction 1, tracked with batch axis 0 and space axis
      1, under the identity permutation of three axes.\<close>
  "rewritten_visitor g =
     \<lparr> computation = g, root_instruction = length g - 1,
       old_to_new_instrs = [0 \<mapsto> 1],
       instr_to_dim_map = [0 \<mapsto> (0, 1)],
       instr_to_dim_permute_map = [1 \<mapsto> [0, 1, 2]],
       batch_to_space_map = Map.empty,
       non_propagatable_instrs = {},
       convs_to_visit = {},
       changed = False,
       limit_on_batch_size = 8 \<rparr>"

definition visitor_e :: ConvolutionVisitor where
  \<comment> \<open>Window of size 2 and stride 2 on the space axis.\<close>
  "visitor_e = rewritten_visitor
     (reduce_window_graph [2, 16, 4] [8, 4, 4] (window_1d 2 2 0 0 1) [2, 8, 4])"

definition visitor_d :: ConvolutionVisitor where
  \<comment> \<open>Window of size 1 and stride 2 on the space axis, over a rewritten space extent of 3.\<close>
  "visitor_d = rewritten_visitor
     (reduce_window_graph [2, 12, 4] [8, 3, 4] (window_1d 1 2 0 0 1) [2, 6, 4])"

text \<open>
  States for BatchToSpace, which reads only the shapes and the tables. In \<open>visitor_c\<close>
  instruction 0 of \<open>graph_c\<close> is rewritten to instruction 1. In \<open>visitor_x\<close>
  instruction 0 has the shape \<open>[2, 9, 4]\<close> of a reduce-window over a space extent of 16
  with window size 2, stride 2 and high padding 2, and instruction 1 the shape
  \<open>[8, 2, 4]\<close> of the reduce-window the pass builds over the rewritten operand
  \<open>[8, 4, 4]\<close> with the padding on the space axis set to zero.
\<close>

definition visitor_c :: ConvolutionVisitor where
  "visitor_c = rewritten_visitor graph_c"

definition visitor_x :: ConvolutionVisitor where
  "visitor_x = rewritten_visitor
     [plain_instruction kReduceWindow [] [2, 9, 4],
      plain_instruction kReduceWindow [] [8, 2, 4]]"

text \<open>
  The activations of \<open>graph_a\<close> after the split: 4 splits of extent 4 for each of the 2
  batch rows, \<open>[8, 4, 3]\<close>.
\<close>

definition graph_h :: graph where
  "graph_h = [plain_instruction kParameter [] [8, 4, 3]]"

text \<open>
  The rewritten value of \<open>graph_c\<close> with two users: instruction 3 transposes it,
  instruction 4 negates it.
\<close>

definition graph_t :: graph where
  "graph_t = graph_c @ [plain_instruction kTranspose [0] [14, 2, 4],
                         plain_instruction kNegate [0] [2, 14, 4]]"

definition visitor_t :: ConvolutionVisitor where
  "visitor_t = rewritten_visitor graph_t"

text \<open>
  The output of a two-dimensional convolution in the layout (batch, space, space,
  feature) before and after the rewrite: the original \<open>[2, 5, 14, 3]\<close>, the rewritten
  \<open>[5, 8, 4, 3]\<close> in the layout (space, batch, split space, feature) that the pass
  gives it, and a scalar zero.
\<close>

definition graph_s :: graph where
  "graph_s = [plain_instruction kParameter [] [2, 5, 14, 3],
              plain_instruction kParameter [] [5, 8, 4, 3],
              plain_instruction kConstant [] []]"

text \<open>
  A convolution with a kernel of one position, over activations \<open>[2, 16, 3]\<close>, whose
  output \<open>[2, 16, 4]\<close> feeds a reduce-window that adds up windows of size 2 at stride 2
  on the space axis, with a high padding of 2: 9 windows, the last one all padding. The
  reduce-window is the root.
\<close>

definition graph_w :: graph where
  "graph_w =
     [plain_instruction kParameter [] [2, 16, 3],
      plain_instruction kParameter [] [1, 3, 4],
      (plain_instruction kConvolution [0, 1] [2, 16, 4])
        \<lparr> window := [window_1d 1 1 0 0 1], convolution_dimension_numbers := dnums_1d \<rparr>,
      plain_instruction kConstant [] [],
      (plain_instruction kReduceWindow [2, 3] [2, 9, 4])
        \<lparr> window := [unit_window, window_1d 2 2 0 2 1, unit_window] \<rparr>]"

text \<open>
  A convolution with a kernel of one position, over activations \<open>[2, 12, 3]\<close>, whose
  output \<open>[2, 12, 3]\<close> feeds a convolution with a kernel of 5 positions, stride 1 and a
  low padding of 4, of output \<open>[2, 12, 4]\<close>. The second convolution is the root.
\<close>

definition graph_p :: graph where
  "graph_p =
     [plain_instruction kParameter [] [2, 12, 3],
      plain_instruction kParameter [] [1, 3, 3],
      (plain_instruction kConvolution [0, 1] [2, 12, 3])
        \<lparr> window := [window_1d 1 1 0 0 1], convolution_dimension_numbers := dnums_1d \<rparr>,
      plain_instruction kParameter [] [5, 3, 4],
      (plain_instruction kConvolution [2, 3] [2, 12, 4])
        \<lparr> window := [window_1d 5 1 4 0 1], convolution_dimension_numbers := dnums_1d \<rparr>]"

text \<open>
  The activations of the first convolution of \<open>graph_p\<close> after the split: 4 splits of
  extent 3 for each of the 2 batch rows, \<open>[8, 3, 3]\<close>.
\<close>

definition graph_q :: graph where
  "graph_q = [plain_instruction kParameter [] [8, 3, 3]]"

section \<open>Notions used in the statements\<close>

definition same_but_tables :: "ConvolutionVisitor \<Rightarrow> ConvolutionVisitor \<Rightarrow> bool" where
  \<comment> \<open>The second state is the first one, but for entries that reads of DimMap and
      PermuteMap have inserted.\<close>
  "same_but_tables s s' \<longleftrightarrow>
     s' = s \<lparr> instr_to_dim_map := instr_to_dim_map s',
              instr_to_dim_permute_map := instr_to_dim_permute_map s' \<rparr> \<and>
     instr_to_dim_map s \<subseteq>\<^sub>m instr_to_dim_map s' \<and>
     instr_to_dim_permute_map s \<subseteq>\<^sub>m instr_to_dim_permute_map s'"

definition post :: "'a option \<Rightarrow> ('a \<Rightarrow> bool) \<Rightarrow> bool" where
  \<comment> \<open>A postcondition: what holds of the value of a computation that returns.\<close>
  "post m Q \<longleftrightarrow> (\<forall>x. m = Some x \<longrightarrow> Q x)"

definition extends :: "graph \<Rightarrow> graph \<Rightarrow> bool" where
  \<comment> \<open>The second graph is the first one with instructions added at the end.\<close>
  "extends g g' \<longleftrightarrow> take (length g) g' = g"

definition appended :: "graph \<Rightarrow> graph \<Rightarrow> HloInstruction list" where
  \<comment> \<open>The instructions that were added.\<close>
  "appended g g' = drop (length g) g'"

definition tables_consistent :: "ConvolutionVisitor \<Rightarrow> bool" where
  \<comment> \<open>Every instruction with an entry in OldToNew has an entry in DimMap.\<close>
  "tables_consistent s \<longleftrightarrow> dom (old_to_new_instrs s) \<subseteq> dom (instr_to_dim_map s)"

definition tracked :: "ConvolutionVisitor \<Rightarrow> hid \<Rightarrow> bool" where
  \<comment> \<open>The instruction has an entry in OldToNew and in DimMap, and its rewritten
      instruction has an entry in PermuteMap.\<close>
  "tracked s k \<longleftrightarrow>
     instr_to_dim_map s k \<noteq> None \<and>
     (case old_to_new_instrs s k of
        None \<Rightarrow> False
      | Some n \<Rightarrow> instr_to_dim_permute_map s n \<noteq> None)"

section \<open>Reads of lists\<close>

lemma at_index_mem: "at_index xs i = Some v \<Longrightarrow> v \<in> set xs"
  by (auto simp: at_index_def split: if_splits)

section \<open>Properties of ConvDetails and of the legality check\<close>

lemma int64_id: "fits_int64 x \<Longrightarrow> int64 x = x"
proof -
  assume "fits_int64 x"
  then have "0 \<le> x + 2 ^ 63" "x + 2 ^ 63 < 2 ^ 64"
    by (simp_all add: fits_int64_def)
  then show ?thesis
    by (simp add: int64_def)
qed

lemma int64_fits: "fits_int64 (int64 x)"
proof -
  have "0 \<le> (x + 9223372036854775808) mod (18446744073709551616 :: int)"
       "(x + 9223372036854775808) mod (18446744073709551616 :: int) < 18446744073709551616"
    by simp_all
  then show ?thesis
    unfolding fits_int64_def int64_def by simp
qed

lemma smod_8_dvd: "b \<noteq> 0 \<Longrightarrow> (kNewBatchSize smod b = 0) = (b dvd 8)"
  by (simp add: kNewBatchSize_def signed_modulo_int_def dvd_eq_mod_eq_0[symmetric] )

lemma sdiv_8_dvd: "b dvd 8 \<Longrightarrow> kNewBatchSize sdiv b = 8 div b"
  by (simp add: kNewBatchSize_def signed_divide_int_eq_divide_int)

lemma GetConvolutionDetails_attributes:
  "GetConvolutionDetails g convolution dim_numbers =
     map_option (\<lambda>(sd, ks, ins, wd).
        \<lparr> spatial_dimension_to_split = sd,
          inherent_low_padding = padding_low wd,
          inherent_high_padding = padding_high wd,
          stride = WindowDimension.stride wd,
          spatial_size =
            int64 (int64 (ins + (if base_dilation wd > 1 then 0 else padding_low wd))
                     + padding_high wd),
          base_dilation_factor = base_dilation wd,
          halo_size =
            max (int64 (int64 (ks - WindowDimension.stride wd) - int64 (base_dilation wd - 1))) 0,
          high_padding_for_conv =
            (if base_dilation wd = 1 then 0
             else if padding_low wd = 0 then int64 (base_dilation wd - 1) else 0),
          low_padding_for_conv = (if base_dilation wd = 1 then 0 else padding_low wd),
          kernel_spatial_dim_size = ks,
          input_dim_size = ins \<rparr>)
       (conv_attributes g convolution dim_numbers)"
  unfolding GetConvolutionDetails_def conv_attributes_def Let_def
  by (simp split: Option.bind_split split del: if_split)

lemma conv_attributes_graph_a:
  "conv_attributes graph_a conv_a dnums_1d = Some (1, 3, 16, window_1d 3 1 0 0 1)"
  by (simp add: conv_attributes_def operand_def instruction_def at_index_def
        get_chosen_spatial_dim_def conv_a_def graph_a_def plain_instruction_def
        CreateInstruction_def dnums_1d_def)

lemma details_in_range_graph_a: "details_in_range 3 16 (window_1d 3 1 0 0 1)"
  by (simp add: details_in_range_def fits_int64_def window_1d_def)

text \<open>
  Claim C2. For a convolution whose attributes on the chosen spatial axis can be read
  (both operands, the kernel's and the activations' extent on that axis, and the window
  dimension), and for which no sum or difference of GetConvolutionDetails leaves the
  int64 range, GetConvolutionDetails returns a value, and every field of it is the
  stated integer expression: the spatial size is the input extent plus the low padding
  (only when the base dilation is not above 1) plus the high padding; the halo size is
  \<open>max (kernel - stride - (base_dilation - 1)) 0\<close>; the high padding for the
  rewritten convolution is 0 for base dilation 1, else \<open>base_dilation - 1\<close> when the
  low padding is 0, else 0; the low padding for it is 0 for base dilation 1, else the
  inherent low padding; the other fields are the attributes as read.
\<close>

theorem GetConvolutionDetails_exact:
  assumes "conv_attributes g convolution dim_numbers = Some (sd, ks, ins, wd)"
    and "details_in_range ks ins wd"
  shows "\<exists>c. GetConvolutionDetails g convolution dim_numbers = Some c \<and>
     spatial_size c =
       ins + (if base_dilation wd > 1 then 0 else padding_low wd) + padding_high wd \<and>
     halo_size c = max (ks - WindowDimension.stride wd - (base_dilation wd - 1)) 0 \<and>
     high_padding_for_conv c =
       (if base_dilation wd = 1 then 0
        else if padding_low wd = 0 then base_dilation wd - 1 else 0) \<and>
     low_padding_for_conv c = (if base_dilation wd = 1 then 0 else padding_low wd) \<and>
     spatial_dimension_to_split c = sd \<and>
     kernel_spatial_dim_size c = ks \<and>
     input_dim_size c = ins \<and>
     inherent_low_padding c = padding_low wd \<and>
     inherent_high_padding c = padding_high wd \<and>
     ConvDetails.stride c = WindowDimension.stride wd \<and>
     base_dilation_factor c = base_dilation wd"
proof -
  from assms(2) have
    i: "int64 (ins + (if base_dilation wd > 1 then 0 else padding_low wd)) =
          ins + (if base_dilation wd > 1 then 0 else padding_low wd)"
       "int64 (ins + (if base_dilation wd > 1 then 0 else padding_low wd) + padding_high wd) =
          ins + (if base_dilation wd > 1 then 0 else padding_low wd) + padding_high wd"
       "int64 (ks - WindowDimension.stride wd) = ks - WindowDimension.stride wd"
       "int64 (base_dilation wd - 1) = base_dilation wd - 1"
       "int64 (ks - WindowDimension.stride wd - (base_dilation wd - 1)) =
          ks - WindowDimension.stride wd - (base_dilation wd - 1)"
    unfolding details_in_range_def by (simp_all only: int64_id)
  show ?thesis
    unfolding GetConvolutionDetails_attributes assms(1)
    by (simp add: i cong: if_cong)
qed

theorem GetConvolutionDetails_exact_witness:
  "\<exists>c. GetConvolutionDetails graph_a conv_a dnums_1d = Some c \<and>
       spatial_size c = 16 \<and> halo_size c = 2 \<and>
       high_padding_for_conv c = 0 \<and> low_padding_for_conv c = 0 \<and>
       spatial_dimension_to_split c = 1 \<and> kernel_spatial_dim_size c = 3 \<and>
       input_dim_size c = 16"
  using GetConvolutionDetails_exact [OF conv_attributes_graph_a details_in_range_graph_a]
  by (fastforce simp: window_1d_def)

lemma base_dilation_unsupported_iff:
  "base_dilation_unsupported c low_pad \<longleftrightarrow>
     base_dilation_factor c \<noteq> 1 \<and>
     \<not> (ConvDetails.stride c = 1 \<and>
        (low_pad = 0 \<and> kernel_spatial_dim_size c = 1 \<or>
         low_pad \<noteq> 0 \<and> kernel_spatial_dim_size c = int64 (base_dilation_factor c + 1) \<and>
         low_pad = int64 (base_dilation_factor c - 1)))"
  by (auto simp: base_dilation_unsupported_def)

lemma IsConvSuitableForSpaceToBatch_Some_True:
  "IsConvSuitableForSpaceToBatch g limit convolution = Some True \<longleftrightarrow>
   (\<exists>wd c activations old_batch_size.
      1 \<le> length (input_spatial_dimensions (convolution_dimension_numbers convolution)) \<and>
      batch_group_count convolution = 1 \<and>
      at_index (window convolution) (get_chosen_spatial_dim convolution) = Some wd \<and>
      window_dilation wd = 1 \<and>
      GetConvolutionDetails g convolution (convolution_dimension_numbers convolution) = Some c \<and>
      \<not> base_dilation_unsupported c (padding_low wd) \<and>
      operand g convolution 0 = Some activations \<and>
      at_index (dimensions (shape activations))
        (input_batch_dimension (convolution_dimension_numbers convolution))
        = Some old_batch_size \<and>
      old_batch_size \<le> limit \<and> old_batch_size dvd 8 \<and>
      halo_size c \<le> CeilOfRatio (spatial_size c) (8 div old_batch_size))"
  (is "?L = ?R")
proof
  assume L: ?L
  show ?R
    using L unfolding IsConvSuitableForSpaceToBatch_def Let_def
    by (auto simp: Suc_le_eq bind_eq_Some_conv smod_8_dvd sdiv_8_dvd split: if_splits)
next
  assume ?R
  then obtain wd c activations old_batch_size where
    h: "1 \<le> length (input_spatial_dimensions (convolution_dimension_numbers convolution))"
       "batch_group_count convolution = 1"
       "at_index (window convolution) (get_chosen_spatial_dim convolution) = Some wd"
       "window_dilation wd = 1"
       "GetConvolutionDetails g convolution (convolution_dimension_numbers convolution) = Some c"
       "\<not> base_dilation_unsupported c (padding_low wd)"
       "operand g convolution 0 = Some activations"
       "at_index (dimensions (shape activations))
          (input_batch_dimension (convolution_dimension_numbers convolution))
          = Some old_batch_size"
       "old_batch_size \<le> limit" "old_batch_size dvd 8"
       "halo_size c \<le> CeilOfRatio (spatial_size c) (8 div old_batch_size)"
    by blast
  have nz: "old_batch_size \<noteq> 0" using h(10) by auto
  show ?L
    unfolding IsConvSuitableForSpaceToBatch_def Let_def
    using h nz by (auto simp: smod_8_dvd sdiv_8_dvd)
qed

lemma conv_attributes_Some:
  assumes "conv_attributes g convolution dim_numbers = Some (sd, ks, ins, wd)"
  shows "\<exists>activations rhs kd.
     operand g convolution 0 = Some activations \<and>
     operand g convolution 1 = Some rhs \<and>
     at_index (kernel_spatial_dimensions dim_numbers) (get_chosen_spatial_dim convolution)
       = Some kd \<and>
     at_index (dimensions (shape rhs)) kd = Some ks \<and>
     at_index (input_spatial_dimensions dim_numbers) (get_chosen_spatial_dim convolution)
       = Some sd \<and>
     at_index (dimensions (shape activations)) sd = Some ins \<and>
     at_index (window convolution) (get_chosen_spatial_dim convolution) = Some wd"
  using assms by (auto simp: conv_attributes_def bind_eq_Some_conv)

lemma well_formed_convolution_attributes:
  assumes "well_formed_convolution g convolution"
    and "conv_attributes g convolution dim_numbers = Some (sd, ks, ins, wd)"
  shows "0 \<le> ks \<and> fits_int64 ks \<and> 1 \<le> base_dilation wd \<and> fits_int64 (base_dilation wd)"
proof -
  from conv_attributes_Some [OF assms(2)] obtain rhs kd where
    k: "operand g convolution 1 = Some rhs" "at_index (dimensions (shape rhs)) kd = Some ks"
    and w: "at_index (window convolution) (get_chosen_spatial_dim convolution) = Some wd"
    by blast
  from assms(1) k(1) have "valid_extents (dimensions (shape rhs))"
    and l: "list_all (\<lambda>wd. 1 \<le> base_dilation wd \<and> fits_int64 (base_dilation wd))
              (window convolution)"
    by (simp_all add: well_formed_convolution_def)
  with at_index_mem [OF k(2)] at_index_mem [OF w] show ?thesis
    by (auto simp: valid_extents_def list_all_iff)
qed

lemma base_dilation_block:
  assumes "1 \<le> bd" "fits_int64 bd" "0 \<le> ks" "fits_int64 ks"
  shows "(bd \<noteq> 1 \<and>
          \<not> (st = 1 \<and>
             (low = 0 \<and> ks = 1 \<or>
              low \<noteq> 0 \<and> ks = int64 (bd + 1) \<and> low = int64 (bd - 1)))) \<longleftrightarrow>
         \<not> (bd > 1 \<longrightarrow> st = 1 \<and> (low = 0 \<and> ks = 1 \<or> ks = bd + 1 \<and> low = bd - 1))"
proof -
  have m: "int64 (bd - 1) = bd - 1"
    using assms(1,2) by (intro int64_id) (simp add: fits_int64_def)
  show ?thesis
  proof (cases "bd + 1 < 2 ^ 63")
    case True
    then have "int64 (bd + 1) = bd + 1"
      using assms(1) by (intro int64_id) (simp add: fits_int64_def)
    then show ?thesis
      using assms(1) by (auto simp: m)
  next
    case False
    with assms(2) have b: "bd = 2 ^ 63 - 1"
      by (simp add: fits_int64_def)
    have "int64 (bd + 1) = - (2 ^ 63)"
      by (simp add: b int64_def)
    then show ?thesis
      using assms(3,4) by (auto simp: m b fits_int64_def)
  qed
qed

text \<open>
  Claim C1. Take a convolution as a graph holds it (the extents of its operands are
  int64 values and not negative, the base dilations of its window are int64 values of
  at least 1) and for which the arithmetic of GetConvolutionDetails stays within int64.
  IsConvSuitableForSpaceToBatch, a function of the graph, the limit and the convolution
  alone, returns true exactly when: there is at least one spatial dimension;
  batch_group_count is 1; the attributes of the chosen spatial axis can be read and the
  window dilation on it is 1; if the base dilation is above 1 then the stride is 1 and
  either (low padding 0 and kernel spatial size 1) or (kernel spatial size = base
  dilation + 1 and low padding = base dilation - 1); the batch size of operand 0 is at
  most the limit and divides the target batch size 8; and the halo size
  \<open>max (kernel - stride - (base_dilation - 1)) 0\<close> is at most the ceiling of the
  spatial size (input extent, plus low padding when the base dilation is not above 1,
  plus high padding) over \<open>8 / old batch size\<close>.
\<close>

theorem IsConvSuitableForSpaceToBatch_iff:
  assumes "well_formed_convolution g convolution" and "arithmetic_in_range g convolution"
  shows "IsConvSuitableForSpaceToBatch g limit convolution = Some True \<longleftrightarrow>
   (\<exists>sd ks ins wd activations old_batch_size.
      1 \<le> length (input_spatial_dimensions (convolution_dimension_numbers convolution)) \<and>
      batch_group_count convolution = 1 \<and>
      conv_attributes g convolution (convolution_dimension_numbers convolution)
        = Some (sd, ks, ins, wd) \<and>
      window_dilation wd = 1 \<and>
      (base_dilation wd > 1 \<longrightarrow>
         WindowDimension.stride wd = 1 \<and>
         (padding_low wd = 0 \<and> ks = 1 \<or>
          ks = base_dilation wd + 1 \<and> padding_low wd = base_dilation wd - 1)) \<and>
      operand g convolution 0 = Some activations \<and>
      at_index (dimensions (shape activations))
        (input_batch_dimension (convolution_dimension_numbers convolution))
        = Some old_batch_size \<and>
      old_batch_size \<le> limit \<and> old_batch_size dvd 8 \<and>
      max (ks - WindowDimension.stride wd - (base_dilation wd - 1)) 0
        \<le> CeilOfRatio
            (ins + (if base_dilation wd > 1 then 0 else padding_low wd) + padding_high wd)
            (8 div old_batch_size))"
  (is "?L = ?R")
proof -
  let ?dn = "convolution_dimension_numbers convolution"
  have key: "(\<exists>c. GetConvolutionDetails g convolution ?dn = Some c \<and>
                at_index (window convolution) (get_chosen_spatial_dim convolution) = Some wd \<and>
                \<not> base_dilation_unsupported c (padding_low wd) \<and>
                halo_size c \<le> CeilOfRatio (spatial_size c) n) \<longleftrightarrow>
             (\<exists>sd ks ins. conv_attributes g convolution ?dn = Some (sd, ks, ins, wd) \<and>
                (base_dilation wd > 1 \<longrightarrow>
                   WindowDimension.stride wd = 1 \<and>
                   (padding_low wd = 0 \<and> ks = 1 \<or>
                    ks = base_dilation wd + 1 \<and> padding_low wd = base_dilation wd - 1)) \<and>
                max (ks - WindowDimension.stride wd - (base_dilation wd - 1)) 0
                  \<le> CeilOfRatio
                      (ins + (if base_dilation wd > 1 then 0 else padding_low wd)
                         + padding_high wd) n)"
    (is "?A = ?B") for wd n
  proof (cases "conv_attributes g convolution ?dn")
    case None
    then show ?thesis
      by (simp add: GetConvolutionDetails_attributes)
  next
    case (Some a)
    obtain sd ks ins wd' where a: "a = (sd, ks, ins, wd')"
      by (cases a) auto
    note at = Some [unfolded a]
    from conv_attributes_Some [OF at]
    have w: "at_index (window convolution) (get_chosen_spatial_dim convolution) = Some wd'"
      by blast
    from assms(2) have r: "details_in_range ks ins wd'"
      by (simp add: arithmetic_in_range_def at)
    from GetConvolutionDetails_exact [OF at r] obtain c where
      c: "GetConvolutionDetails g convolution ?dn = Some c"
      and f: "spatial_size c =
                ins + (if base_dilation wd' > 1 then 0 else padding_low wd') + padding_high wd'"
        "halo_size c = max (ks - WindowDimension.stride wd' - (base_dilation wd' - 1)) 0"
        "kernel_spatial_dim_size c = ks"
        "ConvDetails.stride c = WindowDimension.stride wd'"
        "base_dilation_factor c = base_dilation wd'"
      by blast
    note b = base_dilation_block [of "base_dilation wd'" ks "WindowDimension.stride wd'"
        "padding_low wd'"]
    from well_formed_convolution_attributes [OF assms(1) at]
    have u: "base_dilation_unsupported c (padding_low wd') \<longleftrightarrow>
             \<not> (base_dilation wd' > 1 \<longrightarrow>
                 WindowDimension.stride wd' = 1 \<and>
                 (padding_low wd' = 0 \<and> ks = 1 \<or>
                  ks = base_dilation wd' + 1 \<and> padding_low wd' = base_dilation wd' - 1))"
      unfolding base_dilation_unsupported_iff f by (intro b) simp_all
    show ?thesis
    proof (cases "wd = wd'")
      case True
      show ?thesis
        unfolding True by (simp add: c at w u f)
    next
      case False
      then show ?thesis
        by (auto simp: at w)
    qed
  qed
  have "?L \<longleftrightarrow>
    (\<exists>wd activations old_batch_size.
      1 \<le> length (input_spatial_dimensions ?dn) \<and>
      batch_group_count convolution = 1 \<and>
      window_dilation wd = 1 \<and>
      operand g convolution 0 = Some activations \<and>
      at_index (dimensions (shape activations)) (input_batch_dimension ?dn)
        = Some old_batch_size \<and>
      old_batch_size \<le> limit \<and> old_batch_size dvd 8 \<and>
      (\<exists>c. GetConvolutionDetails g convolution ?dn = Some c \<and>
                at_index (window convolution) (get_chosen_spatial_dim convolution) = Some wd \<and>
                \<not> base_dilation_unsupported c (padding_low wd) \<and>
                halo_size c \<le> CeilOfRatio (spatial_size c) (8 div old_batch_size)))"
    unfolding IsConvSuitableForSpaceToBatch_Some_True by blast
  also have "\<dots> \<longleftrightarrow> ?R"
    unfolding key by blast
  finally show ?thesis .
qed

lemma conv_attributes_graph_d:
  "conv_attributes graph_d conv_d dnums_1d = Some (1, 3, 16, window_1d 3 1 1 1 2)"
  by (simp add: conv_attributes_def operand_def instruction_def at_index_def
        get_chosen_spatial_dim_def conv_d_def graph_d_def plain_instruction_def
        CreateInstruction_def dnums_1d_def)

theorem IsConvSuitableForSpaceToBatch_iff_witness:
  "well_formed_convolution graph_d conv_d \<and> arithmetic_in_range graph_d conv_d \<and>
   IsConvSuitableForSpaceToBatch graph_d 8 conv_d = Some True"
proof -
  have cd: "convolution_dimension_numbers conv_d = dnums_1d"
    by (simp add: conv_d_def plain_instruction_def CreateInstruction_def)
  have wf: "well_formed_convolution graph_d conv_d"
    by (simp add: well_formed_convolution_def valid_extents_def fits_int64_def operand_def
        instruction_def at_index_def conv_d_def graph_d_def plain_instruction_def
        CreateInstruction_def window_1d_def)
  have ar: "arithmetic_in_range graph_d conv_d"
    by (simp add: arithmetic_in_range_def cd conv_attributes_graph_d details_in_range_def
        fits_int64_def window_1d_def)
  have "IsConvSuitableForSpaceToBatch graph_d 8 conv_d = Some True"
    unfolding IsConvSuitableForSpaceToBatch_iff [OF wf ar] cd conv_attributes_graph_d
    by (simp add: operand_def instruction_def at_index_def conv_d_def graph_d_def
        plain_instruction_def CreateInstruction_def dnums_1d_def window_1d_def CeilOfRatio_def)
  with wf ar show ?thesis by simp
qed

section \<open>Facts about the host primitives\<close>

lemma instruction_append:
  "instruction (g @ xs) h =
     (if h < length g then Some (g ! h)
      else if h < length g + length xs then Some (xs ! (h - length g)) else None)"
  by (simp add: instruction_def nth_append)

lemma instruction_append_old [simp]:
  "instruction g h = Some i \<Longrightarrow> instruction (g @ xs) h = Some i"
  by (auto simp: instruction_def nth_append split: if_splits)

lemma instruction_append_new [simp]:
  "instruction (g @ [x]) (length g) = Some x"
  by (simp add: instruction_def)

lemma instruction_lt: "instruction g h = Some i \<Longrightarrow> h < length g"
  by (auto simp: instruction_def split: if_splits)

lemma dims_of_append_old [simp]:
  "dims_of g h = Some ds \<Longrightarrow> dims_of (g @ xs) h = Some ds"
  by (auto simp: dims_of_def bind_eq_Some_conv)

lemma MakeReshapeHlo_Some:
  "MakeReshapeHlo g ds op_id = Some (h, g') \<longleftrightarrow>
     (\<exists>op. instruction g op_id = Some op \<and> valid_dims ds \<and>
        prod_list ds = prod_list (dimensions (shape op)) \<and> h = length g \<and>
        g' = g @ [CreateInstruction kReshape [op_id]
                    \<lparr> element_type = element_type (shape op), dimensions = ds \<rparr>])"
  by (auto simp: MakeReshapeHlo_def AddInstruction_def bind_eq_Some_conv)

lemma MakeBroadcastHlo_Some:
  "MakeBroadcastHlo g op_id bdims ds = Some (h, g') \<longleftrightarrow>
     (\<exists>op. instruction g op_id = Some op \<and> h = length g \<and>
        g' = g @ [(CreateInstruction kBroadcast [op_id]
                    \<lparr> element_type = element_type (shape op), dimensions = ds \<rparr>)
                  \<lparr> instr_dimensions := bdims \<rparr>])"
  by (auto simp: MakeBroadcastHlo_def AddInstruction_def bind_eq_Some_conv)

lemma MakeSelectHlo_Some:
  "MakeSelectHlo g pred on_true on_false = Some (h, g') \<longleftrightarrow>
     (\<exists>p t f. instruction g pred = Some p \<and> instruction g on_true = Some t \<and>
        instruction g on_false = Some f \<and> element_type (shape p) = PRED \<and>
        dimensions (shape p) = dimensions (shape t) \<and> shape f = shape t \<and>
        h = length g \<and>
        g' = g @ [CreateInstruction kSelect [pred, on_true, on_false] (shape t)])"
  by (auto simp: MakeSelectHlo_def AddInstruction_def bind_eq_Some_conv)

lemma MakeSliceHlo_Some:
  "MakeSliceHlo g op_id starts limits strides = Some (h, g') \<longleftrightarrow>
     (\<exists>op ds. instruction g op_id = Some op \<and>
        InferSliceShape (dimensions (shape op)) starts limits strides = Some ds \<and>
        h = length g \<and>
        g' = g @ [(CreateInstruction kSlice [op_id]
                    \<lparr> element_type = element_type (shape op), dimensions = ds \<rparr>)
                  \<lparr> slice_starts := starts, slice_limits := limits,
                    slice_strides := strides \<rparr>])"
  by (auto simp: MakeSliceHlo_def AddInstruction_def bind_eq_Some_conv)

lemma MakePadHlo_Some:
  "MakePadHlo g op_id pv_id config = Some (h, g') \<longleftrightarrow>
     (\<exists>op pv ds. instruction g op_id = Some op \<and> instruction g pv_id = Some pv \<and>
        InferPadShape (dimensions (shape op)) config = Some ds \<and>
        dimensions (shape pv) = [] \<and> element_type (shape pv) = element_type (shape op) \<and>
        h = length g \<and>
        g' = g @ [(CreateInstruction kPad [op_id, pv_id]
                    \<lparr> element_type = element_type (shape op), dimensions = ds \<rparr>)
                  \<lparr> padding_config := config \<rparr>])"
  by (auto simp: MakePadHlo_def AddInstruction_def bind_eq_Some_conv)

lemma MakeConcatHlo_Some:
  "MakeConcatHlo g op_ids dimension = Some (h, g') \<longleftrightarrow>
     (\<exists>ops shp. instructions g op_ids = Some ops \<and>
        InferConcatShape (map shape ops) dimension = Some shp \<and>
        h = length g \<and>
        g' = g @ [(CreateInstruction kConcatenate op_ids shp)
                  \<lparr> instr_dimensions := [dimension] \<rparr>])"
  by (auto simp: MakeConcatHlo_def AddInstruction_def bind_eq_Some_conv)

lemma MakeTransposeHlo_Some:
  "MakeTransposeHlo g op_id dims = Some (h, g') \<longleftrightarrow>
     (\<exists>op. instruction g op_id = Some op \<and>
        is_permutation dims (length (dimensions (shape op))) \<and>
        h = length g \<and>
        g' = g @ [(CreateInstruction kTranspose [op_id]
                    \<lparr> element_type = element_type (shape op),
                      dimensions = map (\<lambda>p. dimensions (shape op) ! nat p) dims \<rparr>)
                  \<lparr> instr_dimensions := dims \<rparr>])"
  by (auto simp: MakeTransposeHlo_def AddInstruction_def bind_eq_Some_conv)

lemma MakeCompareHlo_Some:
  "MakeCompareHlo g lhs rhs = Some (h, g') \<longleftrightarrow>
     (\<exists>l r. instruction g lhs = Some l \<and> instruction g rhs = Some r \<and> shape l = shape r \<and>
        h = length g \<and>
        g' = g @ [CreateInstruction kCompare [lhs, rhs]
                    \<lparr> element_type = PRED, dimensions = dimensions (shape l) \<rparr>])"
  by (auto simp: MakeCompareHlo_def AddInstruction_def bind_eq_Some_conv)

lemma MakeBinaryHlo_Some:
  "MakeBinaryHlo g opc lhs rhs = Some (h, g') \<longleftrightarrow>
     (\<exists>l r. instruction g lhs = Some l \<and> instruction g rhs = Some r \<and> shape l = shape r \<and>
        h = length g \<and> g' = g @ [CreateInstruction opc [lhs, rhs] (shape l)])"
  by (auto simp: MakeBinaryHlo_def AddInstruction_def bind_eq_Some_conv)

lemma InferSliceShape_from_zero:
  assumes "InferSliceShape ds (replicate n 0) limits (replicate n 1) = Some out"
  shows "out = limits \<and> length limits = length ds \<and> n = length ds"
proof -
  from assms have l: "length limits = length ds" "n = length ds"
    and o: "out = map (\<lambda>(st, li, sr). (li - st + sr - 1) div sr)
                    (zip (replicate n 0) (zip limits (replicate n 1)))"
    by (auto simp: InferSliceShape_def split: if_splits)
  have "out = limits"
    unfolding o using l
    by (intro nth_equalityI) auto
  then show ?thesis using l by simp
qed

lemma InferSliceShape_bounds:
  assumes "InferSliceShape ds starts limits strides = Some out" "i < length ds"
  shows "0 \<le> starts ! i \<and> starts ! i \<le> limits ! i \<and> limits ! i \<le> ds ! i \<and>
         0 < strides ! i"
proof -
  from assms(1) have l: "length starts = length ds" "length limits = length ds"
      "length strides = length ds"
    and a: "list_all (\<lambda>(d, st, li, sr). 0 \<le> st \<and> st \<le> li \<and> li \<le> d \<and> 0 < sr)
           (zip ds (zip starts (zip limits strides)))"
    by (auto simp: InferSliceShape_def split: if_splits)
  from a have "\<forall>n < length (zip ds (zip starts (zip limits strides))).
      (\<lambda>(d, st, li, sr). 0 \<le> st \<and> st \<le> li \<and> li \<le> d \<and> 0 < sr)
        (zip ds (zip starts (zip limits strides)) ! n)"
    unfolding list_all_length .
  from this [rule_format, of i] show ?thesis using l assms(2) by simp
qed

lemma at_index_Some_iff:
  "at_index xs i = Some v \<longleftrightarrow> 0 \<le> i \<and> i < int (length xs) \<and> xs ! nat i = v"
  by (auto simp: at_index_def)

lemma set_index_Some_iff:
  "set_index xs i v = Some ys \<longleftrightarrow> 0 \<le> i \<and> i < int (length xs) \<and> ys = xs[nat i := v]"
  by (auto simp: set_index_def)

lemma is_permutation_nth:
  assumes "is_permutation perm n" "i < n"
  shows "0 \<le> perm ! i \<and> nat (perm ! i) < n"
  using assms by (auto simp: is_permutation_def list_all_length)

lemma is_permutation_inj:
  assumes "is_permutation perm n" "i < n" "j < n" "perm ! i = perm ! j"
  shows "i = j"
  using assms by (auto simp: is_permutation_def distinct_conv_nth)

lemma CreateInstruction_fields [simp]:
  "opcode (CreateInstruction opc ops shp) = opc"
  "operands (CreateInstruction opc ops shp) = ops"
  "shape (CreateInstruction opc ops shp) = shp"
  by (simp_all add: CreateInstruction_def)

lemma extends_refl [simp]: "extends g g"
  by (simp add: extends_def)

lemma extends_append [simp]: "extends g (g @ xs)"
  by (simp add: extends_def)

lemma extends_append_left: "extends g g' \<Longrightarrow> extends g (g' @ xs)"
  by (auto simp: extends_def take_all_iff dest: arg_cong [where f = length])

lemma extends_length: "extends g g' \<Longrightarrow> length g \<le> length g'"
  by (auto simp: extends_def dest: arg_cong [where f = length])

lemma extends_eq: "extends g g' \<longleftrightarrow> g' = g @ appended g g'"
  unfolding extends_def appended_def
  by (metis append_take_drop_id append_eq_conv_conj)

lemma extends_trans: "extends g g' \<Longrightarrow> extends g' g'' \<Longrightarrow> extends g g''"
  unfolding extends_eq by (metis append.assoc append_eq_conv_conj extends_def extends_eq)

lemma appended_append [simp]: "appended g (g @ xs) = xs"
  by (simp add: appended_def)

lemma appended_refl [simp]: "appended g g = []"
  by (simp add: appended_def)

lemma appended_trans:
  "extends g g' \<Longrightarrow> extends g' g'' \<Longrightarrow> appended g g'' = appended g g' @ appended g' g''"
  unfolding extends_eq appended_def
  by (metis append.assoc append_eq_conv_conj)

lemma extends_instruction:
  "extends g g' \<Longrightarrow> instruction g h = Some i \<Longrightarrow> instruction g' h = Some i"
  unfolding extends_eq by (metis instruction_append_old)

section \<open>Properties of SelectValidPortion\<close>

lemma sdiv_nonneg: "0 \<le> a \<Longrightarrow> 0 < b \<Longrightarrow> (a::int) sdiv b = a div b"
  by (simp add: signed_divide_int_def sgn_if)

lemma smod_nonneg: "0 \<le> a \<Longrightarrow> 0 < b \<Longrightarrow> (a::int) smod b = a mod b"
  by (simp add: signed_modulo_int_def sgn_if)

lemma smod_zero_dvd: "b \<noteq> 0 \<Longrightarrow> ((a::int) smod b = 0) = (b dvd a)"
  by (simp add: signed_modulo_int_def sgn_if dvd_eq_mod_eq_0 [symmetric])

lemma mask_bit_cell:
  assumes "0 \<le> bi" "0 \<le> si" "si < ns" "0 < q"
  shows "mask_bit ns q os (bi * ns + si) = ((bi mod q) * ns + si < os)"
proof -
  have ns: "0 < ns" using assms by simp
  have k: "0 \<le> bi * ns + si" using assms ns by simp
  have d: "(bi * ns + si) div ns = bi" using assms ns by simp
  have m: "(bi * ns + si) mod ns = si" using assms ns by simp
  show ?thesis
    unfolding mask_bit_def Let_def
    by (simp only: sdiv_nonneg [OF k ns] smod_nonneg [OF k ns] d m
          smod_nonneg [OF assms(1) assms(4)])
qed

lemma mask_cells:
  assumes "0 < ob" "ob dvd nb" "0 \<le> bi" "bi < nb" "0 \<le> si" "si < ns"
  shows "map (\<lambda>k. mask_bit ns (nb sdiv ob) os (int k)) [0 ..< nat (nb * ns)]
           ! nat (bi * ns + si) = ((bi mod (nb div ob)) * ns + si < os)"
proof -
  have nbpos: "0 < nb" using assms by simp
  have q: "0 < nb div ob"
    using assms(1,2) nbpos by (auto simp: pos_imp_zdiv_pos_iff zdvd_imp_le)
  have sd: "nb sdiv ob = nb div ob"
    using sdiv_nonneg [of nb ob] nbpos assms(1) by simp
  have "bi * ns + si < nb * ns"
  proof -
    have "bi * ns + si < bi * ns + ns" using assms by simp
    also have "\<dots> = (bi + 1) * ns" by (simp add: algebra_simps)
    also have "\<dots> \<le> nb * ns" using assms by (intro mult_right_mono) auto
    finally show ?thesis .
  qed
  moreover have "0 \<le> bi * ns + si" using assms by simp
  ultimately have lt: "nat (bi * ns + si) < nat (nb * ns)" by simp
  show ?thesis
    using lt \<open>0 \<le> bi * ns + si\<close>
    by (simp add: sd mask_bit_cell [OF assms(3) assms(5) assms(6) q])
qed

text \<open>
  Claim C6. Let the three instructions be instructions of the graph, let the batch and
  space axes be axes of their shapes, with extents that are not negative, let the old
  batch size be positive and divide the new batch size, let the number of cells
  \<open>new_batch * new_space\<close> be below \<open>2^31\<close> (the range of the counter of the mask
  loop), and let the fill value have the element type of \<open>new_instr\<close>. Then
  SelectValidPortion returns, the graph is the old graph followed by five new
  instructions (no existing instruction changes): the constant mask of
  \<open>new_batch * new_space\<close> bits, its reshape to \<open>[new_batch, new_space]\<close>, the
  broadcast of the mask over the batch and space axes of the shape of \<open>new_instr\<close>, the
  broadcast of the fill value to that shape, and the returned
  \<open>select(mask, new_instr, broadcast(fill))\<close>. The mask cell \<open>(b, s)\<close> is bit
  \<open>b * new_space + s\<close>, and it is set exactly when
  \<open>(b mod num_splits) * new_space + s < old_space\<close>, with
  \<open>num_splits = new_batch / old_batch\<close>.
\<close>

theorem SelectValidPortion_result:
  assumes ni: "instruction g new_instr = Some new_i"
    and oi: "instruction g old_instr = Some old_i"
    and sv: "instruction g select_val = Some sv"
    and nb: "at_index (dimensions (shape new_i)) new_batch_dim = Some nb"
    and ns: "at_index (dimensions (shape new_i)) new_space_dim = Some ns"
    and ob: "at_index (dimensions (shape old_i)) old_batch_dim = Some ob"
    and os: "at_index (dimensions (shape old_i)) old_space_dim = Some os"
    and pos: "0 < ob" "0 \<le> nb" "0 \<le> ns"
    and dvd: "ob dvd nb"
    and small: "nb * ns < 2 ^ 31"
    and ty: "element_type (shape sv) = element_type (shape new_i)"
  shows "\<exists>b.
     SelectValidPortion g new_instr old_instr select_val new_batch_dim new_space_dim
       old_batch_dim old_space_dim =
       Some (length g + 4,
         g @
         [(CreateInstruction kConstant [] \<lparr> element_type = PRED, dimensions = [nb * ns] \<rparr>)
            \<lparr> literal := Some (R1Literal b) \<rparr>,
          CreateInstruction kReshape [length g] \<lparr> element_type = PRED, dimensions = [nb, ns] \<rparr>,
          (CreateInstruction kBroadcast [length g + 1]
             \<lparr> element_type = PRED, dimensions = dimensions (shape new_i) \<rparr>)
            \<lparr> instr_dimensions := [new_batch_dim, new_space_dim] \<rparr>,
          (CreateInstruction kBroadcast [select_val]
             \<lparr> element_type = element_type (shape sv), dimensions = dimensions (shape new_i) \<rparr>)
            \<lparr> instr_dimensions := [] \<rparr>,
          CreateInstruction kSelect [length g + 2, new_instr, length g + 3] (shape new_i)]) \<and>
     length b = nat (nb * ns) \<and>
     (\<forall>bi si. 0 \<le> bi \<and> bi < nb \<and> 0 \<le> si \<and> si < ns \<longrightarrow>
        b ! nat (bi * ns + si) = ((bi mod (nb div ob)) * ns + si < os))"
proof -
  define b where "b = map (\<lambda>k. mask_bit ns (nb sdiv ob) os (int k)) [0 ..< nat (nb * ns)]"
  have n0: "0 \<le> nb * ns" using pos by simp
  have i: "int64 (nb * ns) = nb * ns"
    using n0 small by (intro int64_id) (simp add: fits_int64_def)
  have m: "nb smod ob = 0" using pos(1) dvd by (simp add: smod_zero_dvd)
  have n1: "\<not> nb * ns < 0" using n0 by simp
  have lt: "new_instr < length g" "select_val < length g"
    using ni sv by (auto dest: instruction_lt)
  have sh: "\<lparr> element_type = element_type (shape new_i), dimensions = dimensions (shape new_i) \<rparr>
              = shape new_i"
    by simp
  have e: "SelectValidPortion g new_instr old_instr select_val new_batch_dim new_space_dim
       old_batch_dim old_space_dim =
       Some (length g + 4,
         g @
         [(CreateInstruction kConstant [] \<lparr> element_type = PRED, dimensions = [nb * ns] \<rparr>)
            \<lparr> literal := Some (R1Literal b) \<rparr>,
          CreateInstruction kReshape [length g] \<lparr> element_type = PRED, dimensions = [nb, ns] \<rparr>,
          (CreateInstruction kBroadcast [length g + 1]
             \<lparr> element_type = PRED, dimensions = dimensions (shape new_i) \<rparr>)
            \<lparr> instr_dimensions := [new_batch_dim, new_space_dim] \<rparr>,
          (CreateInstruction kBroadcast [select_val]
             \<lparr> element_type = element_type (shape sv), dimensions = dimensions (shape new_i) \<rparr>)
            \<lparr> instr_dimensions := [] \<rparr>,
          CreateInstruction kSelect [length g + 2, new_instr, length g + 3] (shape new_i)])"
    unfolding SelectValidPortion_def
    using ni oi sv nb ns ob os pos small lt ty
    by (simp add: dims_of_def i m n1 Let_def b_def [symmetric] CreateConstant_def
        AddInstruction_def MakeReshapeHlo_def MakeBroadcastHlo_def MakeSelectHlo_def
        valid_dims_def instruction_def nth_append sh numeral_3_eq_3)
  have "length b = nat (nb * ns)" by (simp add: b_def)
  moreover have "b ! nat (bi * ns + si) = ((bi mod (nb div ob)) * ns + si < os)"
    if "0 \<le> bi" "bi < nb" "0 \<le> si" "si < ns" for bi si
    unfolding b_def by (rule mask_cells [OF pos(1) dvd that])
  ultimately show ?thesis
    using e by blast
qed

theorem SelectValidPortion_result_witness:
  "\<exists>b g'. SelectValidPortion graph_s 1 0 2 1 2 0 2 = Some (7, g') \<and>
     length g' = 8 \<and> take 3 g' = graph_s \<and>
     literal (g' ! 3) = Some (R1Literal b) \<and> length b = 32 \<and>
     b ! 13 = True \<and> b ! 14 = False \<and> b ! 15 = False \<and> b ! 16 = True \<and>
     instr_dimensions (g' ! 5) = [1, 2] \<and>
     operands (g' ! 7) = [5, 1, 6] \<and> opcode (g' ! 7) = kSelect"
proof -
  have i: "instruction graph_s 1 = Some (plain_instruction kParameter [] [5, 8, 4, 3])"
      "instruction graph_s 0 = Some (plain_instruction kParameter [] [2, 5, 14, 3])"
      "instruction graph_s 2 = Some (plain_instruction kConstant [] [])"
    by (simp_all add: graph_s_def instruction_def)
  have a: "at_index (dimensions (shape (plain_instruction kParameter [] [5, 8, 4, 3]))) 1 = Some 8"
      "at_index (dimensions (shape (plain_instruction kParameter [] [5, 8, 4, 3]))) 2 = Some 4"
      "at_index (dimensions (shape (plain_instruction kParameter [] [2, 5, 14, 3]))) 0 = Some 2"
      "at_index (dimensions (shape (plain_instruction kParameter [] [2, 5, 14, 3]))) 2 = Some 14"
    by (simp_all add: plain_instruction_def at_index_def)
  have t: "element_type (shape (plain_instruction kConstant [] [])) =
           element_type (shape (plain_instruction kParameter [] [5, 8, 4, 3]))"
    by (simp add: plain_instruction_def)
  from SelectValidPortion_result [OF i a _ _ _ _ _ t, of ]
  obtain b where
    e: "SelectValidPortion graph_s 1 0 2 1 2 0 2 =
       Some (length graph_s + 4,
         graph_s @
         [(CreateInstruction kConstant [] \<lparr> element_type = PRED, dimensions = [8 * 4] \<rparr>)
            \<lparr> literal := Some (R1Literal b) \<rparr>,
          CreateInstruction kReshape [length graph_s] \<lparr> element_type = PRED, dimensions = [8, 4] \<rparr>,
          (CreateInstruction kBroadcast [length graph_s + 1]
             \<lparr> element_type = PRED,
               dimensions = dimensions (shape (plain_instruction kParameter [] [5, 8, 4, 3])) \<rparr>)
            \<lparr> instr_dimensions := [1, 2] \<rparr>,
          (CreateInstruction kBroadcast [2]
             \<lparr> element_type = element_type (shape (plain_instruction kConstant [] [])),
               dimensions = dimensions (shape (plain_instruction kParameter [] [5, 8, 4, 3])) \<rparr>)
            \<lparr> instr_dimensions := [] \<rparr>,
          CreateInstruction kSelect [length graph_s + 2, 1, length graph_s + 3]
            (shape (plain_instruction kParameter [] [5, 8, 4, 3]))])"
    and l: "length b = nat (8 * 4)"
    and c: "\<forall>bi si. 0 \<le> bi \<and> bi < 8 \<and> 0 \<le> si \<and> si < 4 \<longrightarrow>
        b ! nat (bi * 4 + si) = ((bi mod (8 div 2)) * 4 + si < 14)"
    by force
  have lg: "length graph_s = 3" by (simp add: graph_s_def)
  have bs: "b ! 13 = True" "b ! 14 = False" "b ! 15 = False" "b ! 16 = True"
    using c [rule_format, of 3 1] c [rule_format, of 3 2] c [rule_format, of 3 3]
      c [rule_format, of 4 0] by simp_all
  from e obtain g' where
    e': "SelectValidPortion graph_s 1 0 2 1 2 0 2 = Some (7, g')"
    and g': "g' = graph_s @
         [(CreateInstruction kConstant [] \<lparr> element_type = PRED, dimensions = [8 * 4] \<rparr>)
            \<lparr> literal := Some (R1Literal b) \<rparr>,
          CreateInstruction kReshape [length graph_s] \<lparr> element_type = PRED, dimensions = [8, 4] \<rparr>,
          (CreateInstruction kBroadcast [length graph_s + 1]
             \<lparr> element_type = PRED,
               dimensions = dimensions (shape (plain_instruction kParameter [] [5, 8, 4, 3])) \<rparr>)
            \<lparr> instr_dimensions := [1, 2] \<rparr>,
          (CreateInstruction kBroadcast [2]
             \<lparr> element_type = element_type (shape (plain_instruction kConstant [] [])),
               dimensions = dimensions (shape (plain_instruction kParameter [] [5, 8, 4, 3])) \<rparr>)
            \<lparr> instr_dimensions := [] \<rparr>,
          CreateInstruction kSelect [length graph_s + 2, 1, length graph_s + 3]
            (shape (plain_instruction kParameter [] [5, 8, 4, 3]))]"
    by (simp add: lg)
  show ?thesis
    apply (rule exI [of _ b], rule exI [of _ g'])
    using e' l bs by (simp add: g' lg nth_append)
qed

section \<open>Facts about the table reads\<close>

lemma dim_map_lookup_Some [simp]:
  "instr_to_dim_map s k = Some v \<Longrightarrow> dim_map_lookup s k = (v, s)"
  by (simp add: dim_map_lookup_def)

lemma permute_lookup_Some [simp]:
  "instr_to_dim_permute_map s k = Some v \<Longrightarrow> permute_lookup s k = (v, s)"
  by (simp add: permute_lookup_def)

lemma permute_lookup_None:
  "instr_to_dim_permute_map s k = None \<Longrightarrow> fst (permute_lookup s k) = []"
  by (simp add: permute_lookup_def)

lemma DimLookUp_Nil [simp]: "DimLookUp [] i = None"
  by (simp add: DimLookUp_def at_index_def)

lemma permute_lookup_DimLookUp:
  "permute_lookup s k = (p, s') \<Longrightarrow> DimLookUp p i = Some j \<Longrightarrow>
     instr_to_dim_permute_map s k = Some p \<and> s' = s"
  by (cases "instr_to_dim_permute_map s k") (auto simp: permute_lookup_def)

section \<open>HaloDuplicateWithSlice with a low padding above the split size\<close>

text \<open>
  HaloDuplicateWithSlice checks that the halo size and the low padding differ by at most
  the split size. For a positive low padding it then slices the activations from
  \<open>spatial_split_size - low_padding\<close> on the space axis. Nothing keeps the low padding
  below the split size: for the activations \<open>[8, 3, 3]\<close> of \<open>graph_q\<close>, a low padding
  of 4 and a halo size of 4, the check passes, the slice starts at \<open>3 - 4 = - 1\<close>, no
  such slice has a shape, and the function does not return.
\<close>

lemma MakeSliceHlo_graph_q:
  "MakeSliceHlo (snd (CreateConstant graph_q (ZeroLiteral F32))) 0 [0, - 1, 0] [7, 3, 3] [1, 1, 1]
     = None"
  by (simp add: MakeSliceHlo_def InferSliceShape_def CreateConstant_def AddInstruction_def
        graph_q_def plain_instruction_def CreateInstruction_def instruction_def)

lemma Halo_first_slice_graph_q:
  "Halo_first_slice (snd (CreateConstant graph_q (ZeroLiteral F32))) 0 [8, 3, 3] 1 0 3 8 4 1
     = None"
  by (simp add: Halo_first_slice_def set_index_def MakeSliceHlo_graph_q numeral_3_eq_3)

text \<open>
  C5, which says that HaloDuplicateWithSlice returns the activations with the halo and
  the low padding of every split materialised, whenever the difference of halo size and
  low padding is at most the split size: on the activations \<open>[8, 3, 3]\<close> with batch axis
  0, space axis 1, an old batch size of 2, a low padding of 4, no high padding, a halo
  size of 4 and an original extent of 12, the difference is 0 and the split size is 3,
  and HaloDuplicateWithSlice returns no instruction.
\<close>

theorem HaloDuplicateWithSlice_aborts:
  "dims_of graph_q 0 = Some [8, 3, 3] \<and>
   \<bar>(4 :: int) - 4\<bar> \<le> 3 \<and>
   HaloDuplicateWithSlice graph_q 0 1 0 2 4 0 4 12 None = None"
proof -
  have "Halo_first_slice (snd (CreateConstant graph_q (ZeroLiteral F32))) 0 [8, 3, 3] 1 0 3 8 4
          (fst (CreateConstant graph_q (ZeroLiteral F32))) = None"
    using Halo_first_slice_graph_q
    by (simp add: CreateConstant_def AddInstruction_def graph_q_def)
  then show ?thesis
    by (simp add: HaloDuplicateWithSlice_def dims_of_def instruction_def at_index_def
          graph_q_def plain_instruction_def CreateInstruction_def split_beta)
qed

text \<open>
  The pass makes this call on \<open>graph_p\<close>, with a limit of 8 on the batch size. Both
  convolutions pass the legality check. The first one is rewritten to activations of
  shape \<open>[8, 3, 3]\<close>. The second one, of kernel size 5 and low padding 4, is a
  supported consumer; PropagateOnConv computes a split size of 3 and a halo size of 4
  for it, hands its low padding of 4 to HaloDuplicateWithSlice, and does not return.
  The pass stops there, with fuel left.
\<close>

lemma PropagateOnConv_graph_p:
  "(case NewConvolutionVisitor 8 graph_p 4 of
      None \<Rightarrow> False
    | Some (s, conv_visitor_list) \<Rightarrow>
        conv_visitor_list = [2, 4] \<and>
        (case PerformSpaceToBatchOnConvolution_rewrite s 2 of
           None \<Rightarrow> False
         | Some s1 \<Rightarrow>
             (case old_to_new_instrs s1 2 of
                None \<Rightarrow> False
              | Some new_conv \<Rightarrow> dims_of (computation s1) new_conv = Some [8, 3, 3]) \<and>
             map_option fst (SupportedOpForPropagation s1 4 2) = Some True \<and>
             map_option fst (CanPropagate s1 4 2) = Some True \<and>
             Option.is_none (PropagateOnConv s1 4)))"
  by code_simp

lemma RunOnComputation_graph_p:
  "RunOnComputation 20 8 graph_p 4 = Stopped None"
proof -
  have "case RunOnComputation 20 8 graph_p 4 of Stopped None \<Rightarrow> True | _ \<Rightarrow> False"
    by code_simp
  then show ?thesis
    by (simp split: outcome.splits option.splits)
qed

section \<open>Properties of the readiness checks\<close>

lemma not_trivial_elementwise_window_op:
  "opcode c = kReduceWindow \<or> opcode c = kSelectAndScatter \<Longrightarrow> \<not> IsTrivialElementwise c"
  by (auto simp: IsTrivialElementwise_def IsElementwise_def)

lemma smod_zero_dvd': "b \<noteq> 0 \<Longrightarrow> ((a::int) smod b = 0) = (b dvd a)"
  by (simp add: signed_modulo_int_def sgn_if dvd_eq_mod_eq_0 [symmetric])

lemma Supported_window_op:
  assumes c: "instruction (computation s) consumer = Some c"
    and w: "opcode c = kReduceWindow \<or> opcode c = kSelectAndScatter"
  shows "SupportedOpForPropagation s consumer producer = Some (True, s1) \<longleftrightarrow>
    (s1 = s \<and>
     (\<exists>op0 ob os wb ws n perm nsd.
        at_index (operands c) 0 = Some op0 \<and>
        instr_to_dim_map s op0 = Some (ob, os) \<and>
        at_index (window c) ob = Some wb \<and> size_w wb = 1 \<and>
        at_index (window c) os = Some ws \<and>
        padding_low ws = 0 \<and> padding_high ws \<le> size_w ws \<and>
        old_to_new_instrs s op0 = Some n \<and>
        instr_to_dim_permute_map s n = Some perm \<and>
        DimLookUp perm os = Some nsd \<and>
        (size_w ws \<noteq> 1 \<longrightarrow>
           (\<exists>ds extent. dims_of (computation s) n = Some ds \<and>
              at_index ds nsd = Some extent \<and>
              stride ws \<noteq> 0 \<and> stride ws dvd extent))))"
  (is "?L = ?R")
proof
  assume ?L
  have nt: "\<not> IsTrivialElementwise c" using w by (rule not_trivial_elementwise_window_op)
  have oc: "opcode c \<noteq> kConvolution" "opcode c \<noteq> kReduce" using w by auto
  from \<open>?L\<close> obtain op0 where op0: "at_index (operands c) 0 = Some op0"
    unfolding SupportedOpForPropagation_def using c nt oc w
    by (auto simp: bind_eq_Some_conv split: if_splits)
  from \<open>?L\<close> obtain ob os where dm: "instr_to_dim_map s op0 = Some (ob, os)"
    unfolding SupportedOpForPropagation_def using c nt oc w op0
    by (cases "instr_to_dim_map s op0") (auto simp: bind_eq_Some_conv split: if_splits)
  from \<open>?L\<close> obtain wb where wb: "at_index (window c) ob = Some wb" "size_w wb = 1"
    unfolding SupportedOpForPropagation_def using c nt oc w op0 dm
    by (auto simp: bind_eq_Some_conv Let_def split: if_splits)
  from \<open>?L\<close> obtain ws where ws: "at_index (window c) os = Some ws"
      "padding_low ws = 0" "padding_high ws \<le> size_w ws"
    unfolding SupportedOpForPropagation_def using c nt oc w op0 dm wb
    by (auto simp: bind_eq_Some_conv Let_def split: if_splits)
  from \<open>?L\<close> obtain n where n: "old_to_new_instrs s op0 = Some n"
    unfolding SupportedOpForPropagation_def using c nt oc w op0 dm wb ws
    by (cases "old_to_new_instrs s op0") (auto simp: bind_eq_Some_conv Let_def split: if_splits)
  obtain p s2 where pl: "permute_lookup s n = (p, s2)" by (cases "permute_lookup s n")
  from \<open>?L\<close> obtain nsd where nsd: "DimLookUp p os = Some nsd"
    unfolding SupportedOpForPropagation_def using c nt oc w op0 dm wb ws n pl
    by (auto simp: bind_eq_Some_conv Let_def split: if_splits)
  from permute_lookup_DimLookUp [OF pl nsd]
  have pm: "instr_to_dim_permute_map s n = Some p" and s2: "s2 = s" by simp_all
  from \<open>?L\<close> have fin: "s1 = s \<and> (size_w ws \<noteq> 1 \<longrightarrow>
           (\<exists>ds extent. dims_of (computation s) n = Some ds \<and>
              at_index ds nsd = Some extent \<and>
              stride ws \<noteq> 0 \<and> stride ws dvd extent))"
    unfolding SupportedOpForPropagation_def using c nt oc w op0 dm wb ws n pm nsd
    by (auto simp: bind_eq_Some_conv Let_def smod_zero_dvd' split: if_splits)
  show ?R using op0 dm wb ws n pm nsd fin by blast
next
  assume ?R
  have nt: "\<not> IsTrivialElementwise c" using w by (rule not_trivial_elementwise_window_op)
  have oc: "opcode c \<noteq> kConvolution" "opcode c \<noteq> kReduce" using w by auto
  from \<open>?R\<close> obtain op0 ob os wb ws n perm nsd where
    h: "s1 = s" "at_index (operands c) 0 = Some op0"
       "instr_to_dim_map s op0 = Some (ob, os)"
       "at_index (window c) ob = Some wb" "size_w wb = 1"
       "at_index (window c) os = Some ws"
       "padding_low ws = 0" "padding_high ws \<le> size_w ws"
       "old_to_new_instrs s op0 = Some n"
       "instr_to_dim_permute_map s n = Some perm"
       "DimLookUp perm os = Some nsd"
    and st: "size_w ws \<noteq> 1 \<longrightarrow>
           (\<exists>ds extent. dims_of (computation s) n = Some ds \<and>
              at_index ds nsd = Some extent \<and>
              stride ws \<noteq> 0 \<and> stride ws dvd extent)"
    by blast
  show ?L
    unfolding SupportedOpForPropagation_def using c nt oc w h st
    by (auto simp: Let_def smod_zero_dvd')
qed

lemma CanPropagate_reduce_window:
  assumes c: "instruction (computation s) consumer = Some c"
    and w: "opcode c = kReduceWindow"
    and o: "at_index (operands c) 0 = Some op0" "old_to_new_instrs s op0 = Some n"
  shows "CanPropagate s consumer producer = Some (True, s)"
proof -
  have nt: "\<not> IsTrivialElementwise c" using w by (simp add: not_trivial_elementwise_window_op)
  obtain rest where ops: "operands c = op0 # rest"
    using o(1) by (cases "operands c") (auto simp: at_index_def)
  show ?thesis
    unfolding CanPropagate_def using c nt w o ops by simp
qed

lemma CanPropagate_sas:
  assumes c: "instruction (computation s) consumer = Some c"
    and w: "opcode c = kSelectAndScatter"
  shows "CanPropagate s consumer producer = CanPropagate_select_and_scatter s c"
proof -
  have nt: "\<not> IsTrivialElementwise c" using w by (simp add: not_trivial_elementwise_window_op)
  show ?thesis unfolding CanPropagate_def using c nt w by simp
qed

lemma at_index_0_1:
  "at_index xs 0 = Some a \<Longrightarrow> at_index xs 1 = Some b \<Longrightarrow> take 2 xs = [a, b]"
  by (cases xs; cases "tl xs") (auto simp: at_index_def split: if_splits)

lemma CanPropagate_select_and_scatter_iff:
  assumes dm: "at_index (operands c) 0 = Some op0" "instr_to_dim_map s op0 = Some (ob, os)"
    and n: "old_to_new_instrs s op0 = Some n" "instr_to_dim_permute_map s n = Some perm"
    and ws: "at_index (window c) os = Some ws"
    and nsd: "DimLookUp perm os = Some nsd"
  shows "CanPropagate_select_and_scatter s c = Some (True, s') \<longleftrightarrow>
     (s' = s \<and> scatter_is_add c \<and>
      (\<exists>op1 n1 nbd fs ss b e0 e1.
         at_index (operands c) 1 = Some op1 \<and> old_to_new_instrs s op1 = Some n1 \<and>
         instr_to_dim_permute_map s n1 = Some perm \<and>
         DimLookUp perm ob = Some nbd \<and>
         dims_of (computation s) n = Some fs \<and> dims_of (computation s) n1 = Some ss \<and>
         at_index fs nbd = Some b \<and> at_index ss nbd = Some b \<and>
         at_index fs nsd = Some e0 \<and> at_index ss nsd = Some e1 \<and>
         stride ws \<noteq> 0 \<and>
         (e0 + padding_high ws + padding_low ws) sdiv stride ws = e1))"
  (is "?L = ?R")
proof
  assume L: ?L
  have add: "scatter_is_add c"
    using L unfolding CanPropagate_select_and_scatter_def by (auto split: if_splits)
  from L obtain op1 where op1: "at_index (operands c) 1 = Some op1"
    unfolding CanPropagate_select_and_scatter_def using add dm
    by (auto simp: bind_eq_Some_conv split: if_splits)
  have t2: "take 2 (operands c) = [op0, op1]" using dm(1) op1 by (rule at_index_0_1)
  from L obtain n1 where n1: "old_to_new_instrs s op1 = Some n1"
    unfolding CanPropagate_select_and_scatter_def using add t2
    by (cases "old_to_new_instrs s op1") (auto split: if_splits)
  obtain p1 s3 where pl: "permute_lookup s n1 = (p1, s3)" by (cases "permute_lookup s n1")
  have pe: "p1 = perm"
    using L unfolding CanPropagate_select_and_scatter_def
    using add t2 dm op1 n n1 pl by (auto simp: bind_eq_Some_conv Let_def split: if_splits)
  from permute_lookup_DimLookUp [OF pl [unfolded pe] nsd]
  have pm: "instr_to_dim_permute_map s n1 = Some perm" and s3: "s3 = s" by simp_all
  from L have "s' = s \<and> (\<exists>nbd fs ss b e0 e1.
         DimLookUp perm ob = Some nbd \<and>
         dims_of (computation s) n = Some fs \<and> dims_of (computation s) n1 = Some ss \<and>
         at_index fs nbd = Some b \<and> at_index ss nbd = Some b \<and>
         at_index fs nsd = Some e0 \<and> at_index ss nsd = Some e1 \<and>
         stride ws \<noteq> 0 \<and>
         (e0 + padding_high ws + padding_low ws) sdiv stride ws = e1)"
    unfolding CanPropagate_select_and_scatter_def
    using add t2 dm op1 n n1 pm ws nsd
    by (auto simp: bind_eq_Some_conv Let_def split: if_splits)
  then show ?R using add op1 n1 pm by blast
next
  assume R: ?R
  then obtain op1 n1 nbd fs ss b e0 e1 where
    h: "s' = s" "scatter_is_add c"
       "at_index (operands c) 1 = Some op1" "old_to_new_instrs s op1 = Some n1"
       "instr_to_dim_permute_map s n1 = Some perm"
       "DimLookUp perm ob = Some nbd"
       "dims_of (computation s) n = Some fs" "dims_of (computation s) n1 = Some ss"
       "at_index fs nbd = Some b" "at_index ss nbd = Some b"
       "at_index fs nsd = Some e0" "at_index ss nsd = Some e1"
       "stride ws \<noteq> 0"
       "(e0 + padding_high ws + padding_low ws) sdiv stride ws = e1"
    by blast
  have t2: "take 2 (operands c) = [op0, op1]" using dm(1) h(3) by (rule at_index_0_1)
  show ?L
    unfolding CanPropagate_select_and_scatter_def
    using h t2 dm n ws nsd by (simp add: Let_def)
qed

text \<open>
  C7 (as amended). SupportedOpForPropagation followed by CanPropagate accepts a
  reduce-window or select-and-scatter consumer exactly when: its operand 0 has a DimMap
  entry \<open>(batch axis, space axis)\<close> and has been rewritten, with a PermuteMap entry of
  the rewritten operand that maps the space axis; the window has size 1 on the batch
  axis, zero low padding on the space axis and a high padding on the space axis of at
  most the window size; and, only if the window size on the space axis is not 1, the
  stride on the space axis is not zero and divides the rewritten operand's space extent.
  A select-and-scatter must in addition have a scatter body that matches an addition of
  its parameters, a rewritten operand 1 with the same permutation and the same batch
  extent as the rewritten operand 0, and \<open>(space extent + pads) / stride\<close> of the
  rewritten operand 0 equal to the space extent of the rewritten operand 1. Accepting
  leaves the tables as they were.
\<close>

theorem readiness_window_ops:
  assumes c: "instruction (computation s) consumer = Some c"
    and w: "opcode c = kReduceWindow \<or> opcode c = kSelectAndScatter"
  shows "(\<exists>s1 s2. SupportedOpForPropagation s consumer producer = Some (True, s1) \<and>
                  CanPropagate s1 consumer producer = Some (True, s2)) \<longleftrightarrow>
    (\<exists>op0 ob os wb ws n perm nsd.
        at_index (operands c) 0 = Some op0 \<and>
        instr_to_dim_map s op0 = Some (ob, os) \<and>
        at_index (window c) ob = Some wb \<and> size_w wb = 1 \<and>
        at_index (window c) os = Some ws \<and>
        padding_low ws = 0 \<and> padding_high ws \<le> size_w ws \<and>
        old_to_new_instrs s op0 = Some n \<and>
        instr_to_dim_permute_map s n = Some perm \<and>
        DimLookUp perm os = Some nsd \<and>
        (size_w ws \<noteq> 1 \<longrightarrow>
           (\<exists>ds extent. dims_of (computation s) n = Some ds \<and>
              at_index ds nsd = Some extent \<and>
              stride ws \<noteq> 0 \<and> stride ws dvd extent)) \<and>
        (opcode c = kSelectAndScatter \<longrightarrow>
           scatter_is_add c \<and>
           (\<exists>op1 n1 nbd fs ss b e0 e1.
              at_index (operands c) 1 = Some op1 \<and> old_to_new_instrs s op1 = Some n1 \<and>
              instr_to_dim_permute_map s n1 = Some perm \<and>
              DimLookUp perm ob = Some nbd \<and>
              dims_of (computation s) n = Some fs \<and> dims_of (computation s) n1 = Some ss \<and>
              at_index fs nbd = Some b \<and> at_index ss nbd = Some b \<and>
              at_index fs nsd = Some e0 \<and> at_index ss nsd = Some e1 \<and>
              stride ws \<noteq> 0 \<and>
              (e0 + padding_high ws + padding_low ws) sdiv stride ws = e1)))"
  (is "?L = ?R")
proof
  assume ?L
  then obtain s1 s2 where
    su: "SupportedOpForPropagation s consumer producer = Some (True, s1)" and
    cp: "CanPropagate s1 consumer producer = Some (True, s2)" by blast
  from iffD1 [OF Supported_window_op [OF c w] su]
  obtain op0 ob os wb ws n perm nsd where s1: "s1 = s" and
    h: "at_index (operands c) 0 = Some op0"
       "instr_to_dim_map s op0 = Some (ob, os)"
       "at_index (window c) ob = Some wb" "size_w wb = 1"
       "at_index (window c) os = Some ws"
       "padding_low ws = 0" "padding_high ws \<le> size_w ws"
       "old_to_new_instrs s op0 = Some n"
       "instr_to_dim_permute_map s n = Some perm"
       "DimLookUp perm os = Some nsd"
    and st: "size_w ws \<noteq> 1 \<longrightarrow>
           (\<exists>ds extent. dims_of (computation s) n = Some ds \<and>
              at_index ds nsd = Some extent \<and>
              stride ws \<noteq> 0 \<and> stride ws dvd extent)"
    by blast
  have sas: "scatter_is_add c \<and>
           (\<exists>op1 n1 nbd fs ss b e0 e1.
              at_index (operands c) 1 = Some op1 \<and> old_to_new_instrs s op1 = Some n1 \<and>
              instr_to_dim_permute_map s n1 = Some perm \<and>
              DimLookUp perm ob = Some nbd \<and>
              dims_of (computation s) n = Some fs \<and> dims_of (computation s) n1 = Some ss \<and>
              at_index fs nbd = Some b \<and> at_index ss nbd = Some b \<and>
              at_index fs nsd = Some e0 \<and> at_index ss nsd = Some e1 \<and>
              stride ws \<noteq> 0 \<and>
              (e0 + padding_high ws + padding_low ws) sdiv stride ws = e1)"
    if k: "opcode c = kSelectAndScatter"
  proof -
    have "CanPropagate_select_and_scatter s c = Some (True, s2)"
      using cp unfolding s1 CanPropagate_sas [OF c k] .
    from iffD1 [OF CanPropagate_select_and_scatter_iff
        [OF h(1) h(2) h(8) h(9) h(5) h(10)] this]
    show ?thesis by blast
  qed
  show ?R using h st sas by blast
next
  assume ?R
  then obtain op0 ob os wb ws n perm nsd where
    h: "at_index (operands c) 0 = Some op0"
       "instr_to_dim_map s op0 = Some (ob, os)"
       "at_index (window c) ob = Some wb" "size_w wb = 1"
       "at_index (window c) os = Some ws"
       "padding_low ws = 0" "padding_high ws \<le> size_w ws"
       "old_to_new_instrs s op0 = Some n"
       "instr_to_dim_permute_map s n = Some perm"
       "DimLookUp perm os = Some nsd"
    and st: "size_w ws \<noteq> 1 \<longrightarrow>
           (\<exists>ds extent. dims_of (computation s) n = Some ds \<and>
              at_index ds nsd = Some extent \<and>
              stride ws \<noteq> 0 \<and> stride ws dvd extent)"
    and sas: "opcode c = kSelectAndScatter \<longrightarrow>
           scatter_is_add c \<and>
           (\<exists>op1 n1 nbd fs ss b e0 e1.
              at_index (operands c) 1 = Some op1 \<and> old_to_new_instrs s op1 = Some n1 \<and>
              instr_to_dim_permute_map s n1 = Some perm \<and>
              DimLookUp perm ob = Some nbd \<and>
              dims_of (computation s) n = Some fs \<and> dims_of (computation s) n1 = Some ss \<and>
              at_index fs nbd = Some b \<and> at_index ss nbd = Some b \<and>
              at_index fs nsd = Some e0 \<and> at_index ss nsd = Some e1 \<and>
              stride ws \<noteq> 0 \<and>
              (e0 + padding_high ws + padding_low ws) sdiv stride ws = e1)"
    by blast
  have su: "SupportedOpForPropagation s consumer producer = Some (True, s)"
    by (rule iffD2 [OF Supported_window_op [OF c w]]) (use h st in blast)
  have cp: "CanPropagate s consumer producer = Some (True, s)"
  proof (cases "opcode c = kSelectAndScatter")
    case True
    have "CanPropagate_select_and_scatter s c = Some (True, s)"
      by (rule iffD2 [OF CanPropagate_select_and_scatter_iff
            [OF h(1) h(2) h(8) h(9) h(5) h(10)]]) (use sas True in blast)
    then show ?thesis unfolding CanPropagate_sas [OF c True] .
  next
    case False
    then have "opcode c = kReduceWindow" using w by simp
    from CanPropagate_reduce_window [OF c this h(1) h(8)] show ?thesis .
  qed
  show ?L using su cp by blast
qed

lemmas example_defs =
  reduce_window_graph_def rewritten_visitor_def plain_instruction_def CreateInstruction_def
  unit_window_def window_1d_def instruction_def at_index_def dims_of_def

theorem readiness_window_ops_witness:
  "\<exists>s1 s2. SupportedOpForPropagation visitor_e 3 0 = Some (True, s1) \<and>
           CanPropagate s1 3 0 = Some (True, s2)"
proof -
  define c where "c = (plain_instruction kReduceWindow [0, 2] [2, 8, 4])
        \<lparr> window := [unit_window, window_1d 2 2 0 0 1, unit_window] \<rparr>"
  have i: "instruction (computation visitor_e) 3 = Some c"
    by (simp add: visitor_e_def c_def example_defs)
  have w: "opcode c = kReduceWindow \<or> opcode c = kSelectAndScatter"
    by (simp add: c_def example_defs)
  show ?thesis
    apply (rule iffD2 [OF readiness_window_ops [OF i w]])
    apply (rule exI [of _ 0], rule exI [of _ 0], rule exI [of _ 1],
           rule exI [of _ unit_window], rule exI [of _ "window_1d 2 2 0 0 1"],
           rule exI [of _ 1], rule exI [of _ "[0, 1, 2]"], rule exI [of _ 1])
    apply (simp add: visitor_e_def c_def example_defs DimLookUp_def)
    done
qed

text \<open>
  C7 as stated fails for a window of size 1 on the space axis: the stride 2 does not
  divide the rewritten space extent 3 of \<open>visitor_d\<close>, and both checks accept the
  reduce-window, since the stride is only tested for a window size other than 1.
\<close>

theorem readiness_window_ops_counterexample:
  "SupportedOpForPropagation visitor_d 3 0 = Some (True, visitor_d) \<and>
   CanPropagate visitor_d 3 0 = Some (True, visitor_d) \<and>
   \<not> readiness_as_specified visitor_d 3"
  by (simp add: SupportedOpForPropagation_def CanPropagate_def readiness_as_specified_def
      rewritten_space_extent_def IsTrivialElementwise_def IsElementwise_def
      dim_map_lookup_def permute_lookup_def DimLookUp_def visitor_d_def example_defs)

section \<open>BatchToSpace after a reduce-window with high padding\<close>

text \<open>
  BatchToSpace merges the splits of the rewritten instruction back into the space axis
  and slices the result down to the original extents. The slice has a shape only if
  the rewritten instruction holds at least as many positions as the original one.
\<close>

lemmas BatchToSpace_eval_defs =
  BatchToSpace_def dim_map_lookup_def DimLookUp_def set_index_def
  MakeReshapeHlo_def MakeSliceHlo_def MakeTransposeHlo_def InferSliceShape_def
  is_permutation_def valid_dims_def AddInstruction_def
  rewritten_visitor_def plain_instruction_def CreateInstruction_def
  instruction_def at_index_def signed_divide_int_def nth_append

text \<open>
  C4, which says that BatchToSpace returns an instruction of the shape of the original
  one whenever the pass replaces the root: in \<open>visitor_x\<close> the tables hold the entries
  of the original instruction 0, of shape \<open>[2, 9, 4]\<close>, and of its rewritten form 1, of
  shape \<open>[8, 2, 4]\<close>. The rewritten instruction holds \<open>4 * 2 = 8\<close> positions for each of
  the two batch rows, the slice to the original 9 positions has no shape, and BatchToSpace
  returns no instruction.
\<close>

theorem BatchToSpace_aborts:
  "old_to_new_instrs visitor_x 0 = Some 1 \<and>
   instr_to_dim_map visitor_x 0 = Some (0, 1) \<and>
   instr_to_dim_permute_map visitor_x 1 = Some [0, 1, 2] \<and>
   dims_of (computation visitor_x) 0 = Some [2, 9, 4] \<and>
   dims_of (computation visitor_x) 1 = Some [8, 2, 4] \<and>
   BatchToSpace visitor_x 0 = None"
  by (simp add: visitor_x_def dims_of_def BatchToSpace_eval_defs Let_def)

text \<open>
  The pass reaches this state on \<open>graph_w\<close>, with a limit of 8 on the batch size. The
  convolution passes the legality check and is rewritten. The reduce-window, of window
  size 2, stride 2 and high padding 2 on the space axis, is a supported consumer: the
  check admits a high padding up to the window size. Propagate builds the new
  reduce-window with no padding on the space axis, \<open>[8, 2, 4]\<close> for the original
  \<open>[2, 9, 4]\<close>. The reduce-window is the root, BatchToSpace is called on it and does not
  return. The pass stops there, with fuel left.
\<close>

lemma Propagate_graph_w:
  "(case NewConvolutionVisitor 8 graph_w 4 of
      None \<Rightarrow> False
    | Some (s, conv_visitor_list) \<Rightarrow>
        conv_visitor_list = [2] \<and>
        (case PerformSpaceToBatchOnConvolution_rewrite s 2 of
           None \<Rightarrow> False
         | Some s1 \<Rightarrow>
             map_option fst (SupportedOpForPropagation s1 4 2) = Some True \<and>
             map_option fst (CanPropagate s1 4 2) = Some True \<and>
             (case Propagate s1 4 2 of
                None \<Rightarrow> False
              | Some (needs_further_propagation, s2) \<Rightarrow>
                  needs_further_propagation \<and> root_instruction s2 = 4 \<and>
                  instr_to_dim_map s2 4 = Some (0, 1) \<and>
                  dims_of (computation s2) 4 = Some [2, 9, 4] \<and>
                  (case old_to_new_instrs s2 4 of
                     None \<Rightarrow> False
                   | Some new_node \<Rightarrow>
                       instr_to_dim_permute_map s2 new_node = Some [0, 1, 2] \<and>
                       dims_of (computation s2) new_node = Some [8, 2, 4]) \<and>
                  Option.is_none (BatchToSpace s2 4))))"
  by code_simp

lemma RunOnComputation_graph_w:
  "RunOnComputation 20 8 graph_w 4 = Stopped None"
proof -
  have "case RunOnComputation 20 8 graph_w 4 of Stopped None \<Rightarrow> True | _ \<Rightarrow> False"
    by code_simp
  then show ?thesis
    by (simp split: outcome.splits option.splits)
qed

section \<open>What the readiness checks and the inverse conversion leave unchanged\<close>

lemma post_Some [simp]: "post (Some x) Q = Q x"
  by (simp add: post_def)

lemma post_None [simp]: "post None Q"
  by (simp add: post_def)

lemma post_bind [simp]: "post (m \<bind> f) Q = post m (\<lambda>x. post (f x) Q)"
  by (cases m) (simp_all add: post_def)

lemma postD: "post m Q \<Longrightarrow> m = Some x \<Longrightarrow> Q x"
  by (simp add: post_def)

lemma postI: "(\<And>x. m = Some x \<Longrightarrow> Q x) \<Longrightarrow> post m Q"
  by (simp add: post_def)

lemma post_mono: "post m P \<Longrightarrow> (\<And>x. m = Some x \<Longrightarrow> P x \<Longrightarrow> Q x) \<Longrightarrow> post m Q"
  by (simp add: post_def)

lemma same_but_tables_refl [simp]: "same_but_tables s s"
  by (simp add: same_but_tables_def)

lemma same_but_tables_trans:
  "same_but_tables s s' \<Longrightarrow> same_but_tables s' s'' \<Longrightarrow> same_but_tables s s''"
  unfolding same_but_tables_def
  by (metis (no_types, lifting) ConvolutionVisitor.surjective ConvolutionVisitor.update_convs(4,5)
      map_le_trans)

lemma dim_map_lookup_same [simp]:
  "same_but_tables s s1 \<Longrightarrow> same_but_tables s (snd (dim_map_lookup s1 k))"
  by (rule same_but_tables_trans)
     (auto simp: dim_map_lookup_def same_but_tables_def map_le_def split: option.splits)

lemma permute_lookup_same [simp]:
  "same_but_tables s s1 \<Longrightarrow> same_but_tables s (snd (permute_lookup s1 k))"
  by (rule same_but_tables_trans)
     (auto simp: permute_lookup_def same_but_tables_def map_le_def split: option.splits)

lemma dim_map_lookup_other:
  "k' \<noteq> k \<Longrightarrow> instr_to_dim_map (snd (dim_map_lookup s k)) k' = instr_to_dim_map s k'"
  by (auto simp: dim_map_lookup_def split: option.splits)

lemma permute_lookup_dim_map [simp]:
  "instr_to_dim_map (snd (permute_lookup s k)) = instr_to_dim_map s"
  by (auto simp: permute_lookup_def split: option.splits)

lemma dim_map_lookup_fields [simp]:
  "computation (snd (dim_map_lookup s k)) = computation s"
  "root_instruction (snd (dim_map_lookup s k)) = root_instruction s"
  "old_to_new_instrs (snd (dim_map_lookup s k)) = old_to_new_instrs s"
  "instr_to_dim_permute_map (snd (dim_map_lookup s k)) = instr_to_dim_permute_map s"
  "batch_to_space_map (snd (dim_map_lookup s k)) = batch_to_space_map s"
  "non_propagatable_instrs (snd (dim_map_lookup s k)) = non_propagatable_instrs s"
  "convs_to_visit (snd (dim_map_lookup s k)) = convs_to_visit s"
  "changed (snd (dim_map_lookup s k)) = changed s"
  "limit_on_batch_size (snd (dim_map_lookup s k)) = limit_on_batch_size s"
  by (simp_all add: dim_map_lookup_def split: option.splits)

lemma permute_lookup_fields [simp]:
  "computation (snd (permute_lookup s k)) = computation s"
  "root_instruction (snd (permute_lookup s k)) = root_instruction s"
  "old_to_new_instrs (snd (permute_lookup s k)) = old_to_new_instrs s"
  "batch_to_space_map (snd (permute_lookup s k)) = batch_to_space_map s"
  "non_propagatable_instrs (snd (permute_lookup s k)) = non_propagatable_instrs s"
  "convs_to_visit (snd (permute_lookup s k)) = convs_to_visit s"
  "changed (snd (permute_lookup s k)) = changed s"
  "limit_on_batch_size (snd (permute_lookup s k)) = limit_on_batch_size s"
  by (simp_all add: permute_lookup_def split: option.splits)

lemma dim_map_lookup_dom:
  "dom (instr_to_dim_map (snd (dim_map_lookup s k))) = insert k (dom (instr_to_dim_map s))"
  by (auto simp: dim_map_lookup_def split: option.splits)

lemma permute_lookup_dom:
  "dom (instr_to_dim_permute_map (snd (permute_lookup s k))) =
     insert k (dom (instr_to_dim_permute_map s))"
  by (auto simp: permute_lookup_def split: option.splits)

lemma same_but_tables_fields:
  assumes "same_but_tables s s'"
  shows "computation s' = computation s" "root_instruction s' = root_instruction s"
    "old_to_new_instrs s' = old_to_new_instrs s" "batch_to_space_map s' = batch_to_space_map s"
    "non_propagatable_instrs s' = non_propagatable_instrs s"
    "convs_to_visit s' = convs_to_visit s" "changed s' = changed s"
    "limit_on_batch_size s' = limit_on_batch_size s"
proof -
  from assms have e: "s' = s \<lparr> instr_to_dim_map := instr_to_dim_map s',
              instr_to_dim_permute_map := instr_to_dim_permute_map s' \<rparr>"
    by (simp add: same_but_tables_def)
  show "computation s' = computation s" by (subst e) simp
  show "root_instruction s' = root_instruction s" by (subst e) simp
  show "old_to_new_instrs s' = old_to_new_instrs s" by (subst e) simp
  show "batch_to_space_map s' = batch_to_space_map s" by (subst e) simp
  show "non_propagatable_instrs s' = non_propagatable_instrs s" by (subst e) simp
  show "convs_to_visit s' = convs_to_visit s" by (subst e) simp
  show "changed s' = changed s" by (subst e) simp
  show "limit_on_batch_size s' = limit_on_batch_size s" by (subst e) simp
qed

lemma SupportedOpForPropagation_same:
  assumes "SupportedOpForPropagation s u p = Some (b, s')"
  shows "same_but_tables s s'"
proof -
  have "post (SupportedOpForPropagation s u p) (\<lambda>(b, s'). same_but_tables s s')"
    unfolding SupportedOpForPropagation_def
    by (simp add: Let_def split_beta) (simp add: post_def)
  from postD [OF this assms] show ?thesis by simp
qed

lemma BatchToSpace_frame:
  assumes "BatchToSpace s k = Some (r, s')"
  shows "root_instruction s' = root_instruction s"
    and "old_to_new_instrs s' = old_to_new_instrs s"
    and "instr_to_dim_permute_map s' = instr_to_dim_permute_map s"
    and "non_propagatable_instrs s' = non_propagatable_instrs s"
    and "convs_to_visit s' = convs_to_visit s"
    and "changed s' = changed s"
    and "limit_on_batch_size s' = limit_on_batch_size s"
    and "batch_to_space_map s' = (batch_to_space_map s)(k \<mapsto> r)"
    and "instr_to_dim_map s' =
           (if batch_to_space_map s k = None then instr_to_dim_map (snd (dim_map_lookup s k))
            else instr_to_dim_map s)"
    and "extends (computation s) (computation s')"
    and "list_all (\<lambda>i. opcode i \<in> {kReshape, kSlice, kTranspose})
           (appended (computation s) (computation s'))"
    and "if batch_to_space_map s k = None
         then r = length (computation s) + 2 \<and>
              length (computation s') = length (computation s) + 3
         else batch_to_space_map s k = Some r \<and> computation s' = computation s"
proof -
  have "root_instruction s' = root_instruction s \<and>
    old_to_new_instrs s' = old_to_new_instrs s \<and>
    instr_to_dim_permute_map s' = instr_to_dim_permute_map s \<and>
    non_propagatable_instrs s' = non_propagatable_instrs s \<and>
    convs_to_visit s' = convs_to_visit s \<and>
    changed s' = changed s \<and>
    limit_on_batch_size s' = limit_on_batch_size s \<and>
    batch_to_space_map s' = (batch_to_space_map s)(k \<mapsto> r) \<and>
    instr_to_dim_map s' =
           (if batch_to_space_map s k = None then instr_to_dim_map (snd (dim_map_lookup s k))
            else instr_to_dim_map s) \<and>
    extends (computation s) (computation s') \<and>
    list_all (\<lambda>i. opcode i \<in> {kReshape, kSlice, kTranspose})
           (appended (computation s) (computation s')) \<and>
    (if batch_to_space_map s k = None
         then r = length (computation s) + 2 \<and>
              length (computation s') = length (computation s) + 3
         else batch_to_space_map s k = Some r \<and> computation s' = computation s)"
  proof (cases "batch_to_space_map s k")
    case (Some c)
    with assms have "s' = s" "r = c"
      by (simp_all add: BatchToSpace_def)
    then show ?thesis
      using Some by (simp add: map_upd_triv)
  next
    case None
    have "post (BatchToSpace s k) (\<lambda>(r, s').
      root_instruction s' = root_instruction s \<and>
      old_to_new_instrs s' = old_to_new_instrs s \<and>
      instr_to_dim_permute_map s' = instr_to_dim_permute_map s \<and>
      non_propagatable_instrs s' = non_propagatable_instrs s \<and>
      convs_to_visit s' = convs_to_visit s \<and>
      changed s' = changed s \<and>
      limit_on_batch_size s' = limit_on_batch_size s \<and>
      batch_to_space_map s' = (batch_to_space_map s)(k \<mapsto> r) \<and>
      instr_to_dim_map s' = instr_to_dim_map (snd (dim_map_lookup s k)) \<and>
      extends (computation s) (computation s') \<and>
      list_all (\<lambda>i. opcode i \<in> {kReshape, kSlice, kTranspose})
           (appended (computation s) (computation s')) \<and>
      r = length (computation s) + 2 \<and>
      length (computation s') = length (computation s) + 3)"
      unfolding BatchToSpace_def using None
      apply (simp add: Let_def split_beta)
      apply (simp add: post_def MakeReshapeHlo_Some MakeSliceHlo_Some MakeTransposeHlo_Some)
      apply auto
      done
    from postD [OF this assms] None show ?thesis by simp
  qed
  then show "root_instruction s' = root_instruction s"
    and "old_to_new_instrs s' = old_to_new_instrs s"
    and "instr_to_dim_permute_map s' = instr_to_dim_permute_map s"
    and "non_propagatable_instrs s' = non_propagatable_instrs s"
    and "convs_to_visit s' = convs_to_visit s"
    and "changed s' = changed s"
    and "limit_on_batch_size s' = limit_on_batch_size s"
    and "batch_to_space_map s' = (batch_to_space_map s)(k \<mapsto> r)"
    and "instr_to_dim_map s' =
           (if batch_to_space_map s k = None then instr_to_dim_map (snd (dim_map_lookup s k))
            else instr_to_dim_map s)"
    and "extends (computation s) (computation s')"
    and "list_all (\<lambda>i. opcode i \<in> {kReshape, kSlice, kTranspose})
           (appended (computation s) (computation s'))"
    and "if batch_to_space_map s k = None
         then r = length (computation s) + 2 \<and>
              length (computation s') = length (computation s) + 3
         else batch_to_space_map s k = Some r \<and> computation s' = computation s"
    by blast+
qed

lemma SupportedOpForPropagation_dim_map:
  assumes "SupportedOpForPropagation s u p = Some (b, s')"
    and "instruction (computation s) u = Some c" and "k \<notin> set (operands c)"
  shows "instr_to_dim_map s' k = instr_to_dim_map s k"
proof -
  have o: "instr_to_dim_map (snd (dim_map_lookup s k0)) k = instr_to_dim_map s k"
    if "at_index (operands c) 0 = Some k0" for k0
    using at_index_mem [OF that] assms(3) by (intro dim_map_lookup_other) auto
  have "post (SupportedOpForPropagation s u p)
          (\<lambda>(b, s'). instr_to_dim_map s' k = instr_to_dim_map s k)"
    unfolding SupportedOpForPropagation_def using assms(2)
    by (simp add: Let_def split_beta) (simp add: post_def o)
  from postD [OF this assms(1)] show ?thesis by simp
qed

section \<open>The user that is not supported\<close>

lemma ReplaceOperandWith_Some:
  "ReplaceOperandWith g h i n = Some g' \<longleftrightarrow>
     (\<exists>u. instruction g h = Some u \<and> n < length g \<and> 0 \<le> i \<and> i < int (length (operands u)) \<and>
          g' = g[h := u \<lparr> operands := (operands u)[nat i := n] \<rparr>])"
  by (auto simp: ReplaceOperandWith_def ReplaceOperandWithDifferentShape_def bind_eq_Some_conv
      set_index_Some_iff instruction_def split: if_splits)

lemma replace_uses_result:
  assumes "replace_uses g user node b idxs = Some g'" "instruction g user = Some u"
  shows "g' = g[user := u \<lparr> operands :=
                  fold (\<lambda>i ops. if ops ! i = node then ops[i := b] else ops) idxs (operands u) \<rparr>]"
  using assms
proof (induction idxs arbitrary: g u)
  case Nil
  then show ?case by (auto simp: instruction_def list_update_same_conv split: if_splits)
next
  case (Cons i idxs)
  from Cons.prems obtain k where k: "at_index (operands u) (int i) = Some k"
    by (auto simp: bind_eq_Some_conv)
  then have ki: "operands u ! i = k" by (simp add: at_index_Some_iff)
  show ?case
  proof (cases "k = node")
    case True
    with Cons.prems k obtain g1 where
      g1: "ReplaceOperandWith g user (int i) b = Some g1"
      and r: "replace_uses g1 user node b idxs = Some g'"
      by (auto simp: bind_eq_Some_conv)
    from g1 Cons.prems(2) have e: "g1 = g[user := u \<lparr> operands := (operands u)[i := b] \<rparr>]"
      by (auto simp: ReplaceOperandWith_Some)
    have u1: "instruction g1 user = Some (u \<lparr> operands := (operands u)[i := b] \<rparr>)"
      using Cons.prems(2) by (simp add: e instruction_def split: if_splits)
    from Cons.IH [OF r u1] show ?thesis
      using True ki by (simp add: e)
  next
    case False
    with Cons.prems k have r: "replace_uses g user node b idxs = Some g'"
      by (auto simp: bind_eq_Some_conv)
    from Cons.IH [OF r Cons.prems(2)] show ?thesis
      using False ki by simp
  qed
qed

lemma fold_replace_all:
  "n \<le> length ops \<Longrightarrow>
     fold (\<lambda>i ops. if ops ! i = node then ops[i := b] else ops) [0 ..< n] ops =
       map (\<lambda>k. if k = node then b else k) (take n ops) @ drop n ops"
proof (induction n)
  case 0
  then show ?case by simp
next
  case (Suc n)
  then have n: "n < length ops" by simp
  have "fold (\<lambda>i ops. if ops ! i = node then ops[i := b] else ops) [0 ..< Suc n] ops =
        (\<lambda>ops. if ops ! n = node then ops[n := b] else ops)
          (map (\<lambda>k. if k = node then b else k) (take n ops) @ drop n ops)"
    using Suc by simp
  also have "\<dots> = map (\<lambda>k. if k = node then b else k) (take (Suc n) ops) @ drop (Suc n) ops"
  proof -
    have l: "i = n" if "\<not> i < n" "i < length ops" "length ops \<le> Suc n" for i
      using that by arith
    show ?thesis
      using n
      by (intro nth_equalityI)
         (auto simp: nth_append nth_list_update less_Suc_eq min_def dest: l)
  qed
  finally show ?case .
qed

text \<open>
  Claim C8. Let \<open>user\<close> be a user of the popped node that is not its own operand, and let
  SupportedOpForPropagation reject it. Then the step of PropagateOnUsers for this user,
  where it returns, has called BatchToSpace on the node, and the graph after the step is
  the graph before it with the instructions BatchToSpace added (none, a reshape, a slice
  and a transpose) at the end and with the operand slots of the user that held the node
  now holding the inverse conversion; every other operand of the user and every other
  instruction is as before. The worklist, the OldToNew table, the DimMap entry of the
  user, the set of non-propagatable instructions and the root are unchanged.
\<close>

theorem unsupported_user_frame:
  assumes unsupported: "SupportedOpForPropagation s user node = Some (False, s1)"
    and step: "PropagateOnUsers_user s propagation_worklist node user = Some (s', wl')"
    and is_user: "user \<in> set (users (computation s) node)"
    and acyclic: "user \<notin> set (operands (computation s ! user))"
  shows "\<exists>batch_to_space s2.
     BatchToSpace s1 node = Some (batch_to_space, s2) \<and>
     computation s' =
       (computation s @ appended (computation s) (computation s2))
         [user := (computation s ! user)
            \<lparr> operands := map (\<lambda>k. if k = node then batch_to_space else k)
                            (operands (computation s ! user)) \<rparr>] \<and>
     list_all (\<lambda>i. opcode i \<in> {kReshape, kSlice, kTranspose})
       (appended (computation s) (computation s2)) \<and>
     wl' = propagation_worklist \<and>
     old_to_new_instrs s' = old_to_new_instrs s \<and>
     instr_to_dim_map s' user = instr_to_dim_map s user \<and>
     non_propagatable_instrs s' = non_propagatable_instrs s \<and>
     root_instruction s' = root_instruction s"
proof -
  let ?u = "computation s ! user"
  from is_user have ul: "user < length (computation s)" and nu: "node \<in> set (operands ?u)"
    by (auto simp: users_def)
  then have iu: "instruction (computation s) user = Some ?u"
    by (simp add: instruction_def)
  from nu acyclic have ne: "user \<noteq> node" by auto
  note f1 = same_but_tables_fields [OF SupportedOpForPropagation_same [OF unsupported]]
  from step unsupported obtain batch_to_space s2 u2 g' where
    b: "BatchToSpace s1 node = Some (batch_to_space, s2)"
    and u2: "instruction (computation s2) user = Some u2"
    and r: "replace_uses (computation s2) user node batch_to_space
              [0 ..< length (operands u2)] = Some g'"
    and s': "s' = s2 \<lparr> computation := g' \<rparr>" and wl: "wl' = propagation_worklist"
    by (auto simp: PropagateOnUsers_user_def bind_eq_Some_conv)
  note f2 = BatchToSpace_frame [OF b]
  from f2(10) have e: "computation s2 = computation s @ appended (computation s) (computation s2)"
    by (simp add: extends_eq f1)
  have u2': "u2 = ?u"
    using u2 iu extends_instruction [OF f2(10)] by (simp add: f1)
  have g': "g' = (computation s2)[user := ?u
              \<lparr> operands := map (\<lambda>k. if k = node then batch_to_space else k) (operands ?u) \<rparr>]"
    using replace_uses_result [OF r u2] by (simp add: u2' fold_replace_all)
  have d1: "instr_to_dim_map s1 user = instr_to_dim_map s user"
    by (rule SupportedOpForPropagation_dim_map [OF unsupported iu acyclic])
  have d2: "instr_to_dim_map s2 user = instr_to_dim_map s1 user"
    using ne by (simp add: f2(9) dim_map_lookup_other)
  show ?thesis
    apply (rule exI [of _ batch_to_space], rule exI [of _ s2])
    using b e g' f2(11) wl d1 d2
    apply (simp add: s' f1 f2(1,2,4))
    done
qed

lemma unsupported_user_visitor_t:
  "SupportedOpForPropagation visitor_t 3 0 = Some (False, visitor_t)"
  by (simp add: SupportedOpForPropagation_def visitor_t_def graph_t_def graph_c_def
      rewritten_visitor_def plain_instruction_def instruction_def IsTrivialElementwise_def
      IsElementwise_def)

lemma PropagateOnUsers_user_visitor_t:
  "\<exists>s'. PropagateOnUsers_user visitor_t [] 0 3 = Some (s', [])"
  unfolding PropagateOnUsers_user_def unsupported_user_visitor_t
  by (simp add: visitor_t_def graph_t_def graph_c_def BatchToSpace_eval_defs Let_def
      ReplaceOperandWith_def ReplaceOperandWithDifferentShape_def upt_rec)

theorem unsupported_user_frame_witness:
  "SupportedOpForPropagation visitor_t 3 0 = Some (False, visitor_t) \<and>
   (\<exists>s'. PropagateOnUsers_user visitor_t [] 0 3 = Some (s', []) \<and>
         length (computation s') = 8 \<and>
         operands (computation s' ! 3) = [7] \<and>
         operands (computation s' ! 4) = [0] \<and>
         old_to_new_instrs s' 3 = None)"
proof -
  obtain s' where st: "PropagateOnUsers_user visitor_t [] 0 3 = Some (s', [])"
    using PropagateOnUsers_user_visitor_t by blast
  have g: "computation visitor_t = graph_t" "batch_to_space_map visitor_t 0 = None"
      "old_to_new_instrs visitor_t 3 = None"
    by (simp_all add: visitor_t_def rewritten_visitor_def)
  have l: "length graph_t = 5" "operands (graph_t ! 3) = [0]" "operands (graph_t ! 4) = [0]"
    by (simp_all add: graph_t_def graph_c_def plain_instruction_def)
  have u: "3 \<in> set (users (computation visitor_t) 0)"
    by (simp add: users_def g l upt_rec graph_t_def graph_c_def plain_instruction_def)
  have a: "3 \<notin> set (operands (computation visitor_t ! 3))"
    by (simp add: g l)
  from unsupported_user_frame [OF unsupported_user_visitor_t st u a]
  obtain batch_to_space s2 where
    b: "BatchToSpace visitor_t 0 = Some (batch_to_space, s2)"
    and c: "computation s' =
       (graph_t @ appended graph_t (computation s2))
         [3 := (graph_t ! 3)
            \<lparr> operands := map (\<lambda>k. if k = 0 then batch_to_space else k)
                            (operands (graph_t ! 3)) \<rparr>]"
    and o: "old_to_new_instrs s' = old_to_new_instrs visitor_t"
    unfolding g by blast
  from BatchToSpace_frame(10,12) [OF b]
  have e: "batch_to_space = 7" "length (computation s2) = 8"
      "computation s2 = graph_t @ appended graph_t (computation s2)"
    by (simp_all add: g l extends_eq [symmetric])
  have "length (computation s') = 8"
    using e by (simp add: c)
  moreover have "operands (computation s' ! 3) = [7]"
    by (simp add: c l e(1))
  moreover have "operands (computation s' ! 4) = [0]"
    by (simp add: c l nth_append)
  ultimately show ?thesis
    using st o g unsupported_user_visitor_t by auto
qed

end
